theory Spec2Isabelle
  imports Complex_Main "HOL-Library.Word"
begin

section \<open>Go values\<close>

text \<open>
  A Go call either returns or panics. A panic unwinds the stack up to the nearest deferred
  \<^verbatim>\<open>recover()\<close>; a function without one passes the panic on to its caller.
\<close>

datatype 'a go = Panics | Returns 'a

text \<open>
  A Go \<^verbatim>\<open>error\<close> built by \<^verbatim>\<open>errors.New\<close> or \<^verbatim>\<open>fmt.Errorf\<close> is its message;
  \<^verbatim>\<open>nil\<close> is \<open>None\<close>. A Go string is a sequence of bytes, here a \<open>char list\<close>.
\<close>

type_synonym error = string

text \<open>
  The dynamic value that \<^verbatim>\<open>json.Unmarshal\<close> stores in a field of type \<^verbatim>\<open>interface{}\<close>:
  \<^verbatim>\<open>nil\<close>, \<^verbatim>\<open>bool\<close>, \<^verbatim>\<open>float64\<close>, \<^verbatim>\<open>string\<close>, \<^verbatim>\<open>[]interface{}\<close> or
  \<^verbatim>\<open>map[string]interface{}\<close>. The entries of a map are listed in the order in which
  \<^verbatim>\<open>json.Marshal\<close> writes them (ascending by key, every key once).
\<close>

datatype json =
    JNull
  | JBool bool
  | JNumber real
  | JString string
  | JArray "json list"
  | JObject "(string \<times> json) list"

section \<open>api\_yaml.go: the manifest\<close>

record EndpointInfoConfig =
  ActionDuration :: string
  RetryTimeOut :: string

record EndpointInfo =
  Endpoint :: string
  Config :: EndpointInfoConfig

text \<open>
  The anonymous struct \<^verbatim>\<open>APIYaml.Data.EndpointConfig\<close>. The field \<^verbatim>\<open>APIEndpointSecurity\<close> is
  not read by any function modelled here and is left out.
\<close>

record EndpointConfig =
  EndpointType :: string
  LoadBalanceAlgo :: string
  LoadBalanceSessionManagement :: string
  LoadBalanceSessionTimeOut :: string
  RawProdEndpoints :: json
  ProductionEndpoints :: "EndpointInfo list"
  ProductionFailoverEndpoints :: "EndpointInfo list"
  RawSandboxEndpoints :: json
  SandBoxEndpoints :: "EndpointInfo list"
  SandboxFailoverEndpoints :: "EndpointInfo list"
  ImplementationStatus :: string

text \<open>
  The anonymous struct \<^verbatim>\<open>APIYaml.Data\<close>. \<^verbatim>\<open>Operations\<close> is not read by any function
  modelled here and is left out.
\<close>

record APIYamlData =
  ID :: string
  Name :: string
  Context :: string
  Version :: string
  RevisionID :: int
  APIType :: string
  LifeCycleStatus :: string
  EndpointImplementationType :: string
  AuthorizationHeader :: string
  SecurityScheme :: "string list"
  OrganizationID :: string
  EndpointConfig :: EndpointConfig

text \<open>
  \<^verbatim>\<open>APIYaml\<close>; its top-level fields \<^verbatim>\<open>Type\<close> and \<^verbatim>\<open>Version\<close> are \<open>FileType\<close> and
  \<open>FileVersion\<close> here, since \<open>Version\<close> is the field of \<^verbatim>\<open>Data\<close>.
\<close>

record APIYaml =
  FileType :: string
  FileVersion :: string
  Data :: APIYamlData

definition zeroEndpointInfo :: EndpointInfo where
  "zeroEndpointInfo =
     \<lparr>Endpoint = [], Config = \<lparr>ActionDuration = [], RetryTimeOut = []\<rparr>\<rparr>"

definition zeroAPIYaml :: APIYaml where
  "zeroAPIYaml =
     \<lparr>FileType = [], FileVersion = [],
      Data = \<lparr>ID = [], Name = [], Context = [], Version = [], RevisionID = 0, APIType = [],
        LifeCycleStatus = [], EndpointImplementationType = [], AuthorizationHeader = [],
        SecurityScheme = [], OrganizationID = [],
        EndpointConfig = \<lparr>EndpointType = [], LoadBalanceAlgo = [],
          LoadBalanceSessionManagement = [], LoadBalanceSessionTimeOut = [],
          RawProdEndpoints = JNull, ProductionEndpoints = [],
          ProductionFailoverEndpoints = [], RawSandboxEndpoints = JNull,
          SandBoxEndpoints = [], SandboxFailoverEndpoints = [],
          ImplementationStatus = []\<rparr>\<rparr>\<rparr>"

subsection \<open>Constants declared outside the files at hand\<close>

text \<open>
  Modelled from the spec: the constants \<^verbatim>\<open>constants.HTTP\<close>, \<^verbatim>\<open>constants.WS\<close> and
  \<^verbatim>\<open>constants.WEBHOOK\<close> are declared in the package \<^verbatim>\<open>oasparser/constants\<close>, which is not
  among the files at hand; the spec spells the supported types HTTP, WS and WEBHOOK.
\<close>

definition HTTP :: string where "HTTP = ''HTTP''"
definition WS :: string where "WS = ''WS''"
definition WEBHOOK :: string where "WEBHOOK = ''WEBHOOK''"

text \<open>
  Modelled from the spec: \<^verbatim>\<open>constants.InlineEndpointType\<close> is declared in the same missing
  package; the spec names the unsupported implementation type INLINE.
\<close>

definition InlineEndpointType :: string where "InlineEndpointType = ''INLINE''"

text \<open>
  Modelled from the spec: \<^verbatim>\<open>constants.AlreadyExists\<close>, the text of the distinguished error of
  a create against an existing deployment, is declared in the same missing package; the
  spec names it AlreadyExists.
\<close>

definition AlreadyExists :: string where "AlreadyExists = ''AlreadyExists''"

subsection \<open>The standard library\<close>

text \<open>
  \<^verbatim>\<open>strings.HasPrefix(s, "/")\<close>.
\<close>

fun hasSlashPrefix :: "string \<Rightarrow> bool" where
  "hasSlashPrefix [] = False"
| "hasSlashPrefix (c # cs) = (c = CHR ''/'')"

text \<open>
  \<^verbatim>\<open>len(strings.TrimSpace(s)) < 1\<close>: the string is nothing but white space. Go trims the
  code points of \<^verbatim>\<open>unicode.IsSpace\<close>, read as UTF-8: the ASCII characters
  \<^verbatim>\<open>\t \n \v \f \r\<close> and the space, U+0085 and U+00A0 (two bytes each), and U+1680,
  U+2000 to U+200A, U+2028, U+2029, U+202F, U+205F and U+3000 (three bytes each). A byte
  that starts none of these encodings stops the trimming, so the rest is not empty.
\<close>

definition asciiSpace :: "nat \<Rightarrow> bool" where
  "asciiSpace b = ((9 \<le> b \<and> b \<le> 13) \<or> b = 32)"

definition space2 :: "nat \<Rightarrow> nat \<Rightarrow> bool" where
  "space2 b0 b1 = (b0 = 194 \<and> (b1 = 133 \<or> b1 = 160))"

definition space3 :: "nat \<Rightarrow> nat \<Rightarrow> nat \<Rightarrow> bool" where
  "space3 b0 b1 b2 =
     ((b0 = 225 \<and> b1 = 154 \<and> b2 = 128) \<or>
      (b0 = 226 \<and> b1 = 128 \<and> ((128 \<le> b2 \<and> b2 \<le> 138) \<or> b2 = 168 \<or> b2 = 169 \<or> b2 = 175)) \<or>
      (b0 = 226 \<and> b1 = 129 \<and> b2 = 159) \<or>
      (b0 = 227 \<and> b1 = 128 \<and> b2 = 128))"

fun allSpace :: "nat list \<Rightarrow> bool" where
  "allSpace [] = True"
| "allSpace [b0] = asciiSpace b0"
| "allSpace [b0, b1] = (if asciiSpace b0 then allSpace [b1] else space2 b0 b1)"
| "allSpace (b0 # b1 # b2 # bs) =
     (if asciiSpace b0 then allSpace (b1 # b2 # bs)
      else if space2 b0 b1 then allSpace (b2 # bs)
      else if space3 b0 b1 b2 then allSpace bs
      else False)"

definition isBlank :: "string \<Rightarrow> bool" where
  "isBlank s = allSpace (map of_char s)"

subsection \<open>Decoding an endpoint\<close>

text \<open>
  \<^verbatim>\<open>json.Marshal(val)\<close> followed by \<^verbatim>\<open>json.Unmarshal(jsonString, &s)\<close>, whose errors the
  source drops. The decoder matches a key of the object with a field's tag, letter case
  ignored, and goes through the keys in the order they are written, so a later key that
  matches the same field wins. A JSON string is stored in a \<^verbatim>\<open>string\<close> field; \<^verbatim>\<open>null\<close>
  changes nothing; a value of any other kind is a type error that the decoder notes, and
  it leaves the field as it was and goes on.
\<close>

definition asciiLower :: "char \<Rightarrow> char" where
  "asciiLower c =
     (let n = (of_char c :: nat) in if 65 \<le> n \<and> n \<le> 90 then char_of (n + 32) else c)"

definition foldName :: "string \<Rightarrow> string" where
  "foldName k = map asciiLower k"

fun storeString :: "json \<Rightarrow> string \<Rightarrow> string" where
  "storeString (JString s) cur = s"
| "storeString _ cur = cur"

fun decodeConfigFields :: "(string \<times> json) list \<Rightarrow> EndpointInfoConfig \<Rightarrow> EndpointInfoConfig" where
  "decodeConfigFields [] c = c"
| "decodeConfigFields ((k, v) # kvs) c =
     decodeConfigFields kvs
       (if foldName k = ''actionduration'' then c\<lparr>ActionDuration := storeString v (ActionDuration c)\<rparr>
        else if foldName k = ''retrytimeout'' then c\<lparr>RetryTimeOut := storeString v (RetryTimeOut c)\<rparr>
        else c)"

fun storeConfig :: "json \<Rightarrow> EndpointInfoConfig \<Rightarrow> EndpointInfoConfig" where
  "storeConfig (JObject kvs) c = decodeConfigFields kvs c"
| "storeConfig _ c = c"

fun decodeEndpointFields :: "(string \<times> json) list \<Rightarrow> EndpointInfo \<Rightarrow> EndpointInfo" where
  "decodeEndpointFields [] e = e"
| "decodeEndpointFields ((k, v) # kvs) e =
     decodeEndpointFields kvs
       (if foldName k = ''url'' then e\<lparr>Endpoint := storeString v (Endpoint e)\<rparr>
        else if foldName k = ''config'' then e\<lparr>Config := storeConfig v (Config e)\<rparr>
        else e)"

text \<open>Decoding one JSON value into the \<^verbatim>\<open>EndpointInfo\<close> held in \<open>e\<close>.\<close>

fun unmarshalEndpointInfo :: "json \<Rightarrow> EndpointInfo \<Rightarrow> EndpointInfo" where
  "unmarshalEndpointInfo (JObject kvs) e = decodeEndpointFields kvs e"
| "unmarshalEndpointInfo _ e = e"

text \<open>
  Decoding an array into \<^verbatim>\<open>s := []EndpointInfo{}\<close>: one element for each element of the
  array, in its order, each decoded into a zero \<^verbatim>\<open>EndpointInfo\<close>.
\<close>

definition unmarshalEndpointInfos :: "json list \<Rightarrow> EndpointInfo list" where
  "unmarshalEndpointInfos vs = map (\<lambda>v. unmarshalEndpointInfo v zeroEndpointInfo) vs"

subsection \<open>PopulateEndpointsInfo\<close>

text \<open>
  The method updates the manifest in place and writes to the logger; the model returns the
  updated manifest and the warnings it logged, in order.
\<close>

definition populateProd :: "EndpointConfig \<Rightarrow> EndpointConfig \<times> string list" where
  "populateProd ec =
     (case RawProdEndpoints ec of
        JNull \<Rightarrow> (ec, [])
      | JObject kvs \<Rightarrow>
          (ec\<lparr>ProductionEndpoints := [unmarshalEndpointInfo (JObject kvs) zeroEndpointInfo]\<rparr>, [])
      | JArray vs \<Rightarrow> (ec\<lparr>ProductionEndpoints := unmarshalEndpointInfos vs\<rparr>, [])
      | _ \<Rightarrow> (ec, [''No production endpoints provided'']))"

definition populateSand :: "EndpointConfig \<Rightarrow> EndpointConfig \<times> string list" where
  "populateSand ec =
     (case RawSandboxEndpoints ec of
        JNull \<Rightarrow> (ec, [])
      | JObject kvs \<Rightarrow>
          (ec\<lparr>SandBoxEndpoints := [unmarshalEndpointInfo (JObject kvs) zeroEndpointInfo]\<rparr>, [])
      | JArray vs \<Rightarrow> (ec\<lparr>SandBoxEndpoints := unmarshalEndpointInfos vs\<rparr>, [])
      | _ \<Rightarrow> (ec, [''No sandbox endpoints provided'']))"

definition PopulateEndpointsInfo :: "APIYaml \<Rightarrow> APIYaml \<times> string list" where
  "PopulateEndpointsInfo apiYaml =
     (let (ec1, w1) = populateProd (EndpointConfig (Data apiYaml));
          (ec2, w2) = populateSand ec1
      in (apiYaml\<lparr>Data := (Data apiYaml)\<lparr>EndpointConfig := ec2\<rparr>\<rparr>, w1 @ w2))"

subsection \<open>ValidateMandatoryFields\<close>

definition badEndpoint :: "EndpointInfo \<Rightarrow> bool" where
  "badEndpoint ep = (hasSlashPrefix (Endpoint ep) \<or> isBlank (Endpoint ep))"

text \<open>The two \<^verbatim>\<open>for ... range\<close> loops: the first offending endpoint returns the error.\<close>

fun checkEndpoints :: "error \<Rightarrow> EndpointInfo list \<Rightarrow> error option" where
  "checkEndpoints msg [] = None"
| "checkEndpoints msg (ep # eps) = (if badEndpoint ep then Some msg else checkEndpoints msg eps)"

definition prodEndpointsError :: error where
  "prodEndpointsError =
     ''relative urls or empty values are not supported for API production endpoints''"

definition sandEndpointsError :: error where
  "sandEndpointsError =
     ''relative urls or empty values are not supported for API sandbox endpoints''"

definition ValidateMandatoryFields :: "APIYaml \<Rightarrow> error option" where
  "ValidateMandatoryFields apiYaml =
     (let d = Data apiYaml;
          ec = EndpointConfig d;
          apiName = (if Name d = [] then ''unknownAPIName'' else Name d);
          errMsg1 = (if Name d = [] then ''API Name '' else []);
          apiVersion = (if Version d = [] then ''unknownAPIVersion'' else Version d);
          errMsg2 = (if Version d = [] then errMsg1 @ ''API Version '' else errMsg1);
          errMsg3 = (if Context d = [] then errMsg2 @ ''API Context '' else errMsg2);
          errMsg4 = (if length (ProductionEndpoints ec) < 1 \<and> length (SandBoxEndpoints ec) < 1
                     then errMsg3 @ ''API production and sandbox endpoints '' else errMsg3)
      in if errMsg4 \<noteq> []
         then Some (errMsg4 @ ''fields cannot be empty for '' @ apiName @ '' '' @ apiVersion)
         else (case checkEndpoints prodEndpointsError (ProductionEndpoints ec) of
                 Some e \<Rightarrow> Some e
               | None \<Rightarrow> checkEndpoints sandEndpointsError (SandBoxEndpoints ec)))"

subsection \<open>ValidateAPIType\<close>

definition ValidateAPIType :: "APIYaml \<Rightarrow> error option" where
  "ValidateAPIType apiYaml =
     (let apiType = APIType (Data apiYaml)
      in if apiType = [] then Some ''could not find api.yaml or api.json''
         else if apiType \<noteq> HTTP \<and> apiType \<noteq> WS \<and> apiType \<noteq> WEBHOOK
         then Some ''API type is not currently supported with Choreo Connect''
         else None)"


subsection \<open>FormatAndUpdateInfo and NewAPIYaml\<close>

text \<open>
  What the manifest functions use of the standard library and of packages that are not
  among the files at hand, taken as parameters: \<^verbatim>\<open>strings.ToUpper\<close>, \<^verbatim>\<open>utills.ToJSON\<close>,
  \<^verbatim>\<open>json.Unmarshal\<close> into an \<^verbatim>\<open>APIYaml\<close> (the struct as far as it was filled, and the error)
  and \<^verbatim>\<open>config.GetControlPlaneConnectedTenantDomain\<close>.
\<close>

record manifestDeps =
  ToUpper :: "string \<Rightarrow> string"
  ToJSON :: "string \<Rightarrow> error + string"
  jsonUnmarshal :: "string \<Rightarrow> APIYaml \<times> error option"
  GetControlPlaneConnectedTenantDomain :: string

definition FormatAndUpdateInfo :: "manifestDeps \<Rightarrow> APIYaml \<Rightarrow> APIYaml" where
  "FormatAndUpdateInfo md apiYaml =
     (let d1 = (Data apiYaml)\<lparr>APIType := ToUpper md (APIType (Data apiYaml))\<rparr>;
          d2 = d1\<lparr>LifeCycleStatus := ToUpper md (LifeCycleStatus d1)\<rparr>;
          d3 = (if OrganizationID d2 = []
                then d2\<lparr>OrganizationID := GetControlPlaneConnectedTenantDomain md\<rparr> else d2)
      in apiYaml\<lparr>Data := d3\<rparr>)"

definition NewAPIYaml :: "manifestDeps \<Rightarrow> string \<Rightarrow> APIYaml \<times> error option" where
  "NewAPIYaml md fileContent =
     (case ToJSON md fileContent of
        Inl err \<Rightarrow> (zeroAPIYaml, Some err)
      | Inr apiJsn \<Rightarrow>
          (case jsonUnmarshal md apiJsn of
             (apiYaml0, Some err) \<Rightarrow> (apiYaml0, Some err)
           | (apiYaml0, None) \<Rightarrow>
               (let apiYaml = fst (PopulateEndpointsInfo (FormatAndUpdateInfo md apiYaml0))
                in case ValidateMandatoryFields apiYaml of
                     Some err \<Rightarrow> (apiYaml, Some err)
                   | None \<Rightarrow>
                       if EndpointImplementationType (Data apiYaml) = InlineEndpointType
                       then (apiYaml,
                         Some ''inline endpointImplementationType is not currently supported with Choreo Connect'')
                       else (apiYaml, None))))"

section \<open>apis\_impl.go: the entry points\<close>

subsection \<open>The project and the collaborators\<close>

text \<open>
  \<^verbatim>\<open>model.Deployment\<close> and \<^verbatim>\<open>model.ProjectAPI\<close> are declared outside the files at hand; the
  records hold the fields that the entry points read and write. A slice or a map that may
  be \<^verbatim>\<open>nil\<close> is an \<open>option\<close>.
\<close>

record Deployment =
  DisplayOnDevportal :: bool
  DeploymentEnvironment :: string
  DeploymentVhost :: string

typedecl PolicyContainer
typedecl APIEnvProps

record ProjectAPI =
  APIYaml :: APIYaml
  Deployments :: "Deployment list option"
  UpstreamCerts :: "(string \<rightharpoonup> string) option"
  EndpointCerts :: "(string \<rightharpoonup> string) option"
  Policies :: "(string \<rightharpoonup> PolicyContainer) option"
  APIEnvProps :: "(string \<rightharpoonup> APIEnvProps) option"

text \<open>
  A \<^verbatim>\<open>map[string][]string\<close> from a vhost to environments, as the list of its entries, every
  key once. Where the source ranges over such a map, Go visits the entries in an order of
  its own choosing: the order of the list for a map the caller passes, and the parameter
  \<open>rangeOrder\<close> for a map the function has built itself.
\<close>

type_synonym envmap = "(string \<times> string list) list"

text \<open>\<^verbatim>\<open>m[k] = append(m[k], e)\<close>\<close>

fun appendTo :: "string \<Rightarrow> string \<Rightarrow> envmap \<Rightarrow> envmap" where
  "appendTo k e [] = [(k, [e])]"
| "appendTo k e ((k', es) # m) =
     (if k' = k then (k', es @ [e]) # m else (k', es) # appendTo k e m)"

text \<open>
  The package \<^verbatim>\<open>xds\<close>, which holds the deployment index, is not among the files at hand.
  Its functions are parameters over the index \<open>'s\<close>: a lookup reads the index and may
  panic; \<^verbatim>\<open>UpdateAPI\<close> and \<^verbatim>\<open>DeleteAPIsWithUUID\<close> return the index as they leave it, also
  when they panic. \<open>'r\<close> is \<^verbatim>\<open>notifier.DeployedAPIRevision\<close>, \<open>'m\<close> is \<^verbatim>\<open>apiModel.APIMeta\<close>.
\<close>

record ('s, 'r, 'm) xds =
  IsAPIExist :: "string \<Rightarrow> string \<Rightarrow> string \<Rightarrow> string \<Rightarrow> string \<Rightarrow> 's \<Rightarrow> bool go"
  GetVhostOfAPI :: "string \<Rightarrow> string \<Rightarrow> 's \<Rightarrow> (string \<times> bool) go"
  GetAllEnvironments :: "string \<Rightarrow> string \<Rightarrow> string list \<Rightarrow> 's \<Rightarrow> string list go"
  UpdateAPI :: "string \<Rightarrow> ProjectAPI \<Rightarrow> string list \<Rightarrow> 's \<Rightarrow> ('r option \<times> error option) go \<times> 's"
  DeleteAPIsWithUUID :: "string \<Rightarrow> string \<Rightarrow> string list \<Rightarrow> string \<Rightarrow> 's \<Rightarrow> error option go \<times> 's"
  xdsListApis :: "string \<Rightarrow> string \<Rightarrow> 64 word option \<Rightarrow> 's \<Rightarrow> 'm go"

text \<open>
  The other collaborators: \<^verbatim>\<open>zip.NewReader\<close> with \<^verbatim>\<open>readZipFile\<close> (the archive's files in
  order, each with its name and what reading it gives), \<^verbatim>\<open>processFileInsideProject\<close> (of
  this package, declared outside the files at hand; it may panic), and of the package
  \<^verbatim>\<open>config\<close> the function \<^verbatim>\<open>GetDefaultVhost\<close> and the constant \<^verbatim>\<open>DefaultGatewayName\<close>.
\<close>

record platform =
  zipNewReader :: "string \<Rightarrow> error + (string \<times> (error + string)) list"
  processFileInsideProject :: "ProjectAPI \<Rightarrow> string \<Rightarrow> string \<Rightarrow> (error + ProjectAPI) go"
  GetDefaultVhost :: "string \<Rightarrow> string go"
  DefaultGatewayName :: string
  stringsToUpper :: "string \<Rightarrow> string"

text \<open>
  Modelled from the spec: the constants \<^verbatim>\<open>apiTypeFilterKey\<close> and \<^verbatim>\<open>zipExt\<close> of this package
  are declared outside the files at hand; the spec gives the query as \<^verbatim>\<open>type:<value>\<close> and
  the archives as the children whose name ends in \<^verbatim>\<open>.zip\<close>.
\<close>

definition apiTypeFilterKey :: string where "apiTypeFilterKey = ''type''"
definition zipExt :: string where "zipExt = ''.zip''"

subsection \<open>extractAPIProject\<close>

text \<open>
  The loop over the files: an error of reading a file or of processing it is returned at
  once. \<^verbatim>\<open>ProcessMountedAPIProjects\<close> runs the same loop body from \<^verbatim>\<open>filepath.Walk\<close> over
  the files of a directory that are not directories.
\<close>

fun processFiles ::
  "platform \<Rightarrow> (string \<times> (error + string)) list \<Rightarrow> ProjectAPI \<Rightarrow> (error + ProjectAPI) go" where
  "processFiles pf [] apiProject = Returns (Inr apiProject)"
| "processFiles pf ((name, content) # files) apiProject =
     (case content of
        Inl err \<Rightarrow> Returns (Inl err)
      | Inr unzippedFileBytes \<Rightarrow>
          (case processFileInsideProject pf apiProject unzippedFileBytes name of
             Panics \<Rightarrow> Panics
           | Returns (Inl err) \<Rightarrow> Returns (Inl err)
           | Returns (Inr apiProject') \<Rightarrow> processFiles pf files apiProject'))"

definition newZipProject :: ProjectAPI where
  "newZipProject =
     \<lparr>APIYaml = zeroAPIYaml, Deployments = None, UpstreamCerts = Some Map.empty,
      EndpointCerts = Some Map.empty, Policies = Some Map.empty, APIEnvProps = None\<rparr>"

definition extractAPIProject :: "platform \<Rightarrow> string \<Rightarrow> (error + ProjectAPI) go" where
  "extractAPIProject pf payload =
     (case zipNewReader pf payload of
        Inl err \<Rightarrow> Returns (Inl err)
      | Inr files \<Rightarrow>
          (case processFiles pf files newZipProject of
             Panics \<Rightarrow> Panics
           | Returns (Inl err) \<Rightarrow> Returns (Inl err)
           | Returns (Inr apiProject) \<Rightarrow>
               (case ValidateAPIType (APIYaml apiProject) of
                  Some err \<Rightarrow> Returns (Inl err)
                | None \<Rightarrow> Returns (Inr apiProject))))"

subsection \<open>validateAndUpdateXds\<close>

text \<open>\<^verbatim>\<open>fmt.Errorf("%v:%v with UUID \"%v\"", apiYaml.Name, apiYaml.Version, apiYaml.ID)\<close>\<close>

definition canonicalError :: "APIYamlData \<Rightarrow> error" where
  "canonicalError apiYaml =
     Name apiYaml @ '':'' @ Version apiYaml @ '' with UUID '' @ [CHR 0x22] @ ID apiYaml @ [CHR 0x22]"

text \<open>
  The deferred function: a panic of the body is recovered, and the named result \<^verbatim>\<open>err\<close>
  becomes the canonical error. The index stays as the panic left it.
\<close>

definition recoverPanic :: "error \<Rightarrow> error option go \<times> 's \<Rightarrow> error option go \<times> 's" where
  "recoverPanic msg r = (case r of (Panics, s) \<Rightarrow> (Returns (Some msg), s) | _ \<Rightarrow> r)"

definition defaultDeployments :: "platform \<Rightarrow> ProjectAPI \<Rightarrow> Deployment list go" where
  "defaultDeployments pf apiProject =
     (case Deployments apiProject of
        None \<Rightarrow>
          (case GetDefaultVhost pf (DefaultGatewayName pf) of
             Panics \<Rightarrow> Panics
           | Returns vhost \<Rightarrow>
               Returns [\<lparr>DisplayOnDevportal = True,
                         DeploymentEnvironment = DefaultGatewayName pf,
                         DeploymentVhost = vhost\<rparr>])
      | Some ds \<Rightarrow> Returns ds)"

text \<open>The loop that looks for the API on the vhost of each deployment, up to the first hit.\<close>

fun existsLoop :: "('s, 'r, 'm) xds \<Rightarrow> APIYamlData \<Rightarrow> Deployment list \<Rightarrow> 's \<Rightarrow> bool go" where
  "existsLoop ops apiYaml [] s = Returns False"
| "existsLoop ops apiYaml (deployment # ds) s =
     (case IsAPIExist ops (DeploymentVhost deployment) (ID apiYaml) (Name apiYaml)
             (Version apiYaml) (OrganizationID apiYaml) s of
        Panics \<Rightarrow> Panics
      | Returns True \<Rightarrow> Returns True
      | Returns False \<Rightarrow> existsLoop ops apiYaml ds s)"

text \<open>The loop that builds \<^verbatim>\<open>vhostToEnvsMap\<close> from the deployments.\<close>

fun groupByVhost :: "Deployment list \<Rightarrow> envmap \<Rightarrow> envmap" where
  "groupByVhost [] m = m"
| "groupByVhost (environment # ds) m =
     groupByVhost ds (appendTo (DeploymentVhost environment) (DeploymentEnvironment environment) m)"

text \<open>The loop over \<^verbatim>\<open>vhostToEnvsMap\<close>: the first error of \<^verbatim>\<open>xds.UpdateAPI\<close> is returned.\<close>

fun updateLoop ::
  "('s, 'r, 'm) xds \<Rightarrow> ProjectAPI \<Rightarrow> envmap \<Rightarrow> 's \<Rightarrow> error option go \<times> 's" where
  "updateLoop ops apiProject [] s = (Returns None, s)"
| "updateLoop ops apiProject ((vhost, environments) # rest) s =
     (case UpdateAPI ops vhost apiProject environments s of
        (Panics, s') \<Rightarrow> (Panics, s')
      | (Returns (r, Some err), s') \<Rightarrow> (Returns (Some err), s')
      | (Returns (r, None), s') \<Rightarrow> updateLoop ops apiProject rest s')"

definition validateAndUpdateXdsBody ::
  "platform \<Rightarrow> ('s, 'r, 'm) xds \<Rightarrow> (envmap \<Rightarrow> envmap) \<Rightarrow> ProjectAPI \<Rightarrow> bool option \<Rightarrow> 's
     \<Rightarrow> error option go \<times> 's" where
  "validateAndUpdateXdsBody pf ops rangeOrder apiProject override s =
     (let apiYaml = Data (APIYaml apiProject);
          overrideValue = (case override of None \<Rightarrow> False | Some b \<Rightarrow> b)
      in case defaultDeployments pf apiProject of
           Panics \<Rightarrow> (Panics, s)
         | Returns deployments \<Rightarrow>
             (case (if \<not> overrideValue then existsLoop ops apiYaml deployments s
                    else Returns False) of
                Panics \<Rightarrow> (Panics, s)
              | Returns True \<Rightarrow> (Returns (Some AlreadyExists), s)
              | Returns False \<Rightarrow>
                  updateLoop ops (apiProject\<lparr>Deployments := Some deployments\<rparr>)
                    (rangeOrder (groupByVhost deployments [])) s))"

definition validateAndUpdateXds ::
  "platform \<Rightarrow> ('s, 'r, 'm) xds \<Rightarrow> (envmap \<Rightarrow> envmap) \<Rightarrow> ProjectAPI \<Rightarrow> bool option \<Rightarrow> 's
     \<Rightarrow> error option go \<times> 's" where
  "validateAndUpdateXds pf ops rangeOrder apiProject override s =
     recoverPanic (canonicalError (Data (APIYaml apiProject)))
       (validateAndUpdateXdsBody pf ops rangeOrder apiProject override s)"

subsection \<open>ApplyAPIProjectInStandaloneMode\<close>

definition ApplyAPIProjectInStandaloneMode ::
  "platform \<Rightarrow> ('s, 'r, 'm) xds \<Rightarrow> (envmap \<Rightarrow> envmap) \<Rightarrow> string \<Rightarrow> bool option \<Rightarrow> 's
     \<Rightarrow> error option go \<times> 's" where
  "ApplyAPIProjectInStandaloneMode pf ops rangeOrder payload override s =
     (case extractAPIProject pf payload of
        Panics \<Rightarrow> (Panics, s)
      | Returns (Inl err) \<Rightarrow> (Returns (Some err), s)
      | Returns (Inr apiProject) \<Rightarrow> validateAndUpdateXds pf ops rangeOrder apiProject override s)"

subsection \<open>ApplyAPIProjectFromAPIM\<close>

text \<open>
  How a loop of \<^verbatim>\<open>ApplyAPIProjectFromAPIM\<close> ends: with a panic, with a \<^verbatim>\<open>return\<close> of an
  error, or by running to its end.
\<close>

datatype 'a flow = Panicked | Returned "error option" | Completed 'a

text \<open>
  The inner loop over the environments requested for \<open>vhost\<close>: an environment in which the
  API is deployed under another vhost goes into \<^verbatim>\<open>vhostsToRemove\<close>.
\<close>

fun collectRemovals ::
  "('s, 'r, 'm) xds \<Rightarrow> string \<Rightarrow> string \<Rightarrow> string list \<Rightarrow> 's \<Rightarrow> envmap \<Rightarrow> envmap go" where
  "collectRemovals ops uuid vhost [] s vhostsToRemove = Returns vhostsToRemove"
| "collectRemovals ops uuid vhost (env # environments) s vhostsToRemove =
     (case GetVhostOfAPI ops uuid env s of
        Panics \<Rightarrow> Panics
      | Returns (existingVhost, exists) \<Rightarrow>
          collectRemovals ops uuid vhost environments s
            (if exists \<and> vhost \<noteq> existingVhost
             then appendTo existingVhost env vhostsToRemove else vhostsToRemove))"

text \<open>
  The loop over \<^verbatim>\<open>vhostToEnvsMap\<close>. It returns how it ended together with
  \<^verbatim>\<open>deployedRevisionList\<close> and the index. An error of \<^verbatim>\<open>xds.UpdateAPI\<close> is returned as the
  canonical error.
\<close>

fun deployLoop ::
  "('s, 'r, 'm) xds \<Rightarrow> ProjectAPI \<Rightarrow> envmap \<Rightarrow> 's \<Rightarrow> envmap \<Rightarrow> 'r list
     \<Rightarrow> envmap flow \<times> 'r list \<times> 's" where
  "deployLoop ops apiProject [] s vhostsToRemove revs = (Completed vhostsToRemove, revs, s)"
| "deployLoop ops apiProject ((vhost, environments) # rest) s vhostsToRemove revs =
     (case collectRemovals ops (ID (Data (APIYaml apiProject))) vhost environments s
             vhostsToRemove of
        Panics \<Rightarrow> (Panicked, revs, s)
      | Returns vhostsToRemove' \<Rightarrow>
          (case GetAllEnvironments ops (ID (Data (APIYaml apiProject))) vhost environments s of
             Panics \<Rightarrow> (Panicked, revs, s)
           | Returns allEnvironments \<Rightarrow>
               (case UpdateAPI ops vhost apiProject allEnvironments s of
                  (Panics, s') \<Rightarrow> (Panicked, revs, s')
                | (Returns (r, Some err), s') \<Rightarrow>
                    (Returned (Some (canonicalError (Data (APIYaml apiProject)))), revs, s')
                | (Returns (r, None), s') \<Rightarrow>
                    deployLoop ops apiProject rest s' vhostsToRemove'
                      (case r of Some deployedRevision \<Rightarrow> revs @ [deployedRevision]
                               | None \<Rightarrow> revs))))"

text \<open>The loop over \<^verbatim>\<open>vhostsToRemove\<close>: the empty vhost is skipped.\<close>

fun undeployLoop ::
  "('s, 'r, 'm) xds \<Rightarrow> APIYamlData \<Rightarrow> envmap \<Rightarrow> 's \<Rightarrow> error option go \<times> 's" where
  "undeployLoop ops apiYaml [] s = (Returns None, s)"
| "undeployLoop ops apiYaml ((vhost, environments) # rest) s =
     (if vhost = [] then undeployLoop ops apiYaml rest s
      else (case DeleteAPIsWithUUID ops vhost (ID apiYaml) environments
                   (OrganizationID apiYaml) s of
              (Panics, s') \<Rightarrow> (Panics, s')
            | (Returns (Some err), s') \<Rightarrow> (Returns (Some err), s')
            | (Returns None, s') \<Rightarrow> undeployLoop ops apiYaml rest s'))"

text \<open>
  The part of \<^verbatim>\<open>ApplyAPIProjectFromAPIM\<close> that runs under the deferred \<^verbatim>\<open>recover()\<close>: on
  a panic the result is the revisions collected so far and the canonical error.
\<close>

definition applyParsedProject ::
  "('s, 'r, 'm) xds \<Rightarrow> (envmap \<Rightarrow> envmap) \<Rightarrow> ProjectAPI \<Rightarrow> envmap \<Rightarrow> 's
     \<Rightarrow> ('r list \<times> error option) \<times> 's" where
  "applyParsedProject ops rangeOrder apiProject vhostToEnvsMap s =
     (let apiYaml = Data (APIYaml apiProject)
      in case deployLoop ops apiProject vhostToEnvsMap s [] [] of
           (Panicked, revs, s') \<Rightarrow> ((revs, Some (canonicalError apiYaml)), s')
         | (Returned err, revs, s') \<Rightarrow> ((revs, err), s')
         | (Completed vhostsToRemove, revs, s') \<Rightarrow>
             (case undeployLoop ops apiYaml (rangeOrder vhostsToRemove) s' of
                (Panics, s'') \<Rightarrow> ((revs, Some (canonicalError apiYaml)), s'')
              | (Returns err, s'') \<Rightarrow> ((revs, err), s'')))"

definition ApplyAPIProjectFromAPIM ::
  "platform \<Rightarrow> ('s, 'r, 'm) xds \<Rightarrow> (envmap \<Rightarrow> envmap) \<Rightarrow> string \<Rightarrow> envmap
     \<Rightarrow> (string \<rightharpoonup> (string \<rightharpoonup> APIEnvProps) option) \<Rightarrow> 's
     \<Rightarrow> ('r list \<times> error option) go \<times> 's" where
  "ApplyAPIProjectFromAPIM pf ops rangeOrder payload vhostToEnvsMap apiEnvs s =
     (case extractAPIProject pf payload of
        Panics \<Rightarrow> (Panics, s)
      | Returns (Inl err) \<Rightarrow> (Returns ([], Some err), s)
      | Returns (Inr apiProject0) \<Rightarrow>
          (let apiProject =
                 (case apiEnvs (ID (Data (APIYaml apiProject0))) of
                    Some apiEnvProps \<Rightarrow> apiProject0\<lparr>APIEnvProps := apiEnvProps\<rparr>
                  | None \<Rightarrow> apiProject0)
           in case applyParsedProject ops rangeOrder apiProject vhostToEnvsMap s of
                (r, s') \<Rightarrow> (Returns r, s')))"

subsection \<open>ListApis\<close>

text \<open>\<^verbatim>\<open>strings.Split(s, ":")\<close>: never an empty slice.\<close>

fun splitColon :: "string \<Rightarrow> string list" where
  "splitColon [] = [[]]"
| "splitColon (c # cs) =
     (if c = CHR '':'' then [] # splitColon cs
      else (case splitColon cs of
              [] \<Rightarrow> [[c]]
            | w # ws \<Rightarrow> (c # w) # ws))"

text \<open>
  \<^verbatim>\<open>ListApis\<close> has no deferred \<^verbatim>\<open>recover()\<close>. Reading \<^verbatim>\<open>queryPair[1]\<close> of a slice of one
  element is an index out of range, which panics.
\<close>

definition ListApis ::
  "platform \<Rightarrow> ('s, 'r, 'm) xds \<Rightarrow> string option \<Rightarrow> 64 word option \<Rightarrow> string \<Rightarrow> 's \<Rightarrow> 'm go" where
  "ListApis pf ops query limit organizationID s =
     (case query of
        None \<Rightarrow> xdsListApis ops [] organizationID limit s
      | Some q \<Rightarrow>
          (case splitColon q of
             [] \<Rightarrow> Panics
           | [key] \<Rightarrow>
               if key = apiTypeFilterKey then Panics
               else xdsListApis ops [] organizationID limit s
           | key # val # others \<Rightarrow>
               if key = apiTypeFilterKey
               then xdsListApis ops (stringsToUpper pf val) organizationID limit s
               else xdsListApis ops [] organizationID limit s))"

subsection \<open>ProcessMountedAPIProjects\<close>

text \<open>
  A child of the artifacts directory, as \<^verbatim>\<open>ioutil.ReadDir\<close> lists it: a directory with the
  files that \<^verbatim>\<open>filepath.Walk\<close> finds in it (each with what \<^verbatim>\<open>ioutil.ReadFile\<close> gives), or
  a file with what \<^verbatim>\<open>ioutil.ReadFile\<close> gives for it.
\<close>

datatype artifact =
    Directory string "(string \<times> (error + string)) list"
  | RegularFile string "error + string"

fun artifactName :: "artifact \<Rightarrow> string" where
  "artifactName (Directory name files) = name"
| "artifactName (RegularFile name content) = name"

text \<open>\<^verbatim>\<open>strings.HasSuffix\<close>\<close>

definition hasSuffix :: "string \<Rightarrow> string \<Rightarrow> bool" where
  "hasSuffix s suffix =
     (length suffix \<le> length s \<and> drop (length s - length suffix) s = suffix)"

definition newMountedProject :: ProjectAPI where
  "newMountedProject =
     \<lparr>APIYaml = zeroAPIYaml, Deployments = None, UpstreamCerts = Some Map.empty,
      EndpointCerts = Some Map.empty, Policies = None, APIEnvProps = None\<rparr>"

text \<open>
  One round of the loop over the children. The result is the error that the round logs
  before it goes on to the next child, if any.
\<close>

definition processArtifact ::
  "platform \<Rightarrow> ('s, 'r, 'm) xds \<Rightarrow> (envmap \<Rightarrow> envmap) \<Rightarrow> artifact \<Rightarrow> 's
     \<Rightarrow> error option go \<times> 's" where
  "processArtifact pf ops rangeOrder apiProjectFile s =
     (case apiProjectFile of
        Directory name files \<Rightarrow>
          (case processFiles pf files newMountedProject of
             Panics \<Rightarrow> (Panics, s)
           | Returns (Inl err) \<Rightarrow> (Returns (Some err), s)
           | Returns (Inr apiProject) \<Rightarrow>
               (case ValidateAPIType (APIYaml apiProject) of
                  Some err \<Rightarrow> (Returns (Some err), s)
                | None \<Rightarrow> validateAndUpdateXds pf ops rangeOrder apiProject (Some False) s))
      | RegularFile name content \<Rightarrow>
          if \<not> hasSuffix name zipExt then (Returns None, s)
          else (case content of
                  Inl err \<Rightarrow> (Returns (Some err), s)
                | Inr data \<Rightarrow>
                    ApplyAPIProjectInStandaloneMode pf ops rangeOrder data (Some False) s))"

text \<open>
  The loop over the children, with the log of the errors so far: the name of the artifact
  and the error.
\<close>

fun processArtifacts ::
  "platform \<Rightarrow> ('s, 'r, 'm) xds \<Rightarrow> (envmap \<Rightarrow> envmap) \<Rightarrow> artifact list \<Rightarrow> 's
     \<Rightarrow> (string \<times> error) list \<Rightarrow> error option go \<times> 's \<times> (string \<times> error) list" where
  "processArtifacts pf ops rangeOrder [] s errorLog = (Returns None, s, errorLog)"
| "processArtifacts pf ops rangeOrder (apiProjectFile # files) s errorLog =
     (case processArtifact pf ops rangeOrder apiProjectFile s of
        (Panics, s') \<Rightarrow> (Panics, s', errorLog)
      | (Returns None, s') \<Rightarrow> processArtifacts pf ops rangeOrder files s' errorLog
      | (Returns (Some err), s') \<Rightarrow>
          processArtifacts pf ops rangeOrder files s'
            (errorLog @ [(artifactName apiProjectFile, err)]))"

text \<open>
  \<open>serverEnabled\<close> is \<^verbatim>\<open>conf.Adapter.Server.Enabled\<close> and \<open>readDir\<close> is what \<^verbatim>\<open>ioutil.ReadDir\<close>
  gives for the directory of the API artifacts.
\<close>

definition ProcessMountedAPIProjects ::
  "platform \<Rightarrow> ('s, 'r, 'm) xds \<Rightarrow> (envmap \<Rightarrow> envmap) \<Rightarrow> bool \<Rightarrow> error + artifact list \<Rightarrow> 's
     \<Rightarrow> error option go \<times> 's \<times> (string \<times> error) list" where
  "ProcessMountedAPIProjects pf ops rangeOrder serverEnabled readDir s =
     (case readDir of
        Inl err \<Rightarrow>
          if \<not> serverEnabled then (Returns (Some err), s, [([], err)])
          else processArtifacts pf ops rangeOrder [] s [([], err)]
      | Inr files \<Rightarrow> processArtifacts pf ops rangeOrder files s [])"


section \<open>The calls that change the index\<close>

text \<open>
  To speak about the order of the calls, the index is paired with the list of the calls of
  \<^verbatim>\<open>xds.UpdateAPI\<close> and \<^verbatim>\<open>xds.DeleteAPIsWithUUID\<close> made so far: \<open>logged ops\<close> does what
  \<open>ops\<close> does and notes each of these calls, with its arguments, at the end of the list.
\<close>

datatype xdsCall =
    UpdateAPICall string string "string list"
  | DeleteAPIsWithUUIDCall string string "string list" string

fun isUpdateCall :: "xdsCall \<Rightarrow> bool" where
  "isUpdateCall (UpdateAPICall vhost uuid environments) = True"
| "isUpdateCall (DeleteAPIsWithUUIDCall vhost uuid environments org) = False"

fun isDeleteCall :: "xdsCall \<Rightarrow> bool" where
  "isDeleteCall (UpdateAPICall vhost uuid environments) = False"
| "isDeleteCall (DeleteAPIsWithUUIDCall vhost uuid environments org) = True"

fun callVhost :: "xdsCall \<Rightarrow> string" where
  "callVhost (UpdateAPICall vhost uuid environments) = vhost"
| "callVhost (DeleteAPIsWithUUIDCall vhost uuid environments org) = vhost"

definition logged :: "('s, 'r, 'm) xds \<Rightarrow> ('s \<times> xdsCall list, 'r, 'm) xds" where
  "logged ops =
     \<lparr>IsAPIExist = (\<lambda>vhost uuid name version org (s, calls).
        IsAPIExist ops vhost uuid name version org s),
      GetVhostOfAPI = (\<lambda>uuid env (s, calls). GetVhostOfAPI ops uuid env s),
      GetAllEnvironments = (\<lambda>uuid vhost environments (s, calls).
        GetAllEnvironments ops uuid vhost environments s),
      UpdateAPI = (\<lambda>vhost apiProject environments (s, calls).
        case UpdateAPI ops vhost apiProject environments s of
          (r, s') \<Rightarrow>
            (r, (s', calls @ [UpdateAPICall vhost (ID (Data (APIYaml apiProject))) environments]))),
      DeleteAPIsWithUUID = (\<lambda>vhost uuid environments org (s, calls).
        case DeleteAPIsWithUUID ops vhost uuid environments org s of
          (r, s') \<Rightarrow> (r, (s', calls @ [DeleteAPIsWithUUIDCall vhost uuid environments org]))),
      xdsListApis = (\<lambda>apiType org limit (s, calls). xdsListApis ops apiType org limit s)\<rparr>"

section \<open>An index and a platform for the examples\<close>

text \<open>
  Modelled from the spec: the deployment index of the package \<^verbatim>\<open>xds\<close>, which is not among
  the files at hand, after section 4.4 of the spec. It records for an API and an
  environment the vhost, and for a vhost the manifests deployed under it. \<open>refUpdateAPI\<close>
  verifies the type and the endpoint URLs, records the vhost for each environment and the
  manifest under the vhost, and emits the revision; \<open>refDeleteAPIsWithUUID\<close> does nothing
  for the empty vhost, and otherwise removes the environments recorded for that vhost and,
  when none is left, the manifest under the vhost. The examples below run on it.
\<close>

record refIndex =
  envToVhost :: "((string \<times> string) \<times> string) list"
  deployed :: "(string \<times> APIYamlData) list"

record refRevision =
  revVhost :: string
  revEnvironments :: "string list"
  revRevisionID :: int
  revOrganizationID :: string
  revAPIID :: string

definition refIsAPIExist ::
  "string \<Rightarrow> string \<Rightarrow> string \<Rightarrow> string \<Rightarrow> string \<Rightarrow> refIndex \<Rightarrow> bool go" where
  "refIsAPIExist vhost uuid name version org s =
     Returns (list_ex (\<lambda>(v, d). v = vhost \<and> ID d = uuid \<and> Version d = version
                                  \<and> OrganizationID d = org) (deployed s))"

definition refGetVhostOfAPI :: "string \<Rightarrow> string \<Rightarrow> refIndex \<Rightarrow> (string \<times> bool) go" where
  "refGetVhostOfAPI uuid env s =
     Returns (case map_of (envToVhost s) (uuid, env) of
                Some vhost \<Rightarrow> (vhost, True)
              | None \<Rightarrow> ([], False))"

definition refGetAllEnvironments ::
  "string \<Rightarrow> string \<Rightarrow> string list \<Rightarrow> refIndex \<Rightarrow> string list go" where
  "refGetAllEnvironments uuid vhost environments s =
     Returns (environments @
       filter (\<lambda>env. env \<notin> set environments)
         (map (\<lambda>((u, env), v). env)
            (filter (\<lambda>((u, env), v). u = uuid \<and> map_of (envToVhost s) (u, env) = Some vhost)
               (envToVhost s))))"

fun recordVhost ::
  "string \<Rightarrow> string \<Rightarrow> string \<Rightarrow> ((string \<times> string) \<times> string) list
     \<Rightarrow> ((string \<times> string) \<times> string) list" where
  "recordVhost uuid vhost env [] = [((uuid, env), vhost)]"
| "recordVhost uuid vhost env ((k, v) # m) =
     (if k = (uuid, env) then (k, vhost) # m else (k, v) # recordVhost uuid vhost env m)"

definition refUpdateAPI ::
  "string \<Rightarrow> ProjectAPI \<Rightarrow> string list \<Rightarrow> refIndex
     \<Rightarrow> (refRevision option \<times> error option) go \<times> refIndex" where
  "refUpdateAPI vhost apiProject environments s =
     (let d = Data (APIYaml apiProject)
      in if ValidateAPIType (APIYaml apiProject) \<noteq> None
            \<or> checkEndpoints prodEndpointsError (ProductionEndpoints (EndpointConfig d)) \<noteq> None
            \<or> checkEndpoints sandEndpointsError (SandBoxEndpoints (EndpointConfig d)) \<noteq> None
         then (Returns (None, Some ''the project is not valid''), s)
         else (Returns (Some \<lparr>revVhost = vhost, revEnvironments = environments,
                               revRevisionID = RevisionID d,
                               revOrganizationID = OrganizationID d, revAPIID = ID d\<rparr>, None),
               \<lparr>envToVhost = fold (recordVhost (ID d) vhost) environments (envToVhost s),
                deployed = (vhost, d) #
                  filter (\<lambda>(v, d'). \<not> (v = vhost \<and> ID d' = ID d \<and> Version d' = Version d
                                        \<and> OrganizationID d' = OrganizationID d)) (deployed s)\<rparr>))"

definition refDeleteAPIsWithUUID ::
  "string \<Rightarrow> string \<Rightarrow> string list \<Rightarrow> string \<Rightarrow> refIndex \<Rightarrow> error option go \<times> refIndex" where
  "refDeleteAPIsWithUUID vhost uuid environments org s =
     (if vhost = [] then (Returns None, s)
      else (let kept = filter (\<lambda>((u, env), v). \<not> (u = uuid \<and> v = vhost \<and> env \<in> set environments))
                         (envToVhost s)
            in (Returns None,
                \<lparr>envToVhost = kept,
                 deployed =
                   (if list_ex (\<lambda>((u, env), v). u = uuid \<and> map_of kept (u, env) = Some vhost) kept
                    then deployed s
                    else filter (\<lambda>(v, d). \<not> (v = vhost \<and> ID d = uuid \<and> OrganizationID d = org))
                           (deployed s))\<rparr>)))"

definition refListApis ::
  "string \<Rightarrow> string \<Rightarrow> 64 word option \<Rightarrow> refIndex \<Rightarrow> (string \<times> string) list go" where
  "refListApis apiType org limit s =
     Returns (map (\<lambda>(v, d). (v, ID d))
       (filter (\<lambda>(v, d). OrganizationID d = org \<and> (apiType = [] \<or> APIType d = apiType))
          (deployed s)))"

definition refXds :: "(refIndex, refRevision, (string \<times> string) list) xds" where
  "refXds =
     \<lparr>IsAPIExist = refIsAPIExist, GetVhostOfAPI = refGetVhostOfAPI,
      GetAllEnvironments = refGetAllEnvironments, UpdateAPI = refUpdateAPI,
      DeleteAPIsWithUUID = refDeleteAPIsWithUUID, xdsListApis = refListApis\<rparr>"

definition emptyIndex :: refIndex where
  "emptyIndex = \<lparr>envToVhost = [], deployed = []\<rparr>"

text \<open>An index that refuses every update, for the path on which \<^verbatim>\<open>xds.UpdateAPI\<close> fails.\<close>

definition refusingXds :: "(refIndex, refRevision, (string \<times> string) list) xds" where
  "refusingXds =
     refXds\<lparr>UpdateAPI := (\<lambda>vhost apiProject environments s.
        (Returns (None, Some ''the update failed''), s))\<rparr>"

text \<open>An index whose \<^verbatim>\<open>UpdateAPI\<close> panics, for the paths under a deferred \<^verbatim>\<open>recover()\<close>.\<close>

definition panickingXds :: "(refIndex, refRevision, (string \<times> string) list) xds" where
  "panickingXds = refXds\<lparr>UpdateAPI := (\<lambda>vhost apiProject environments s. (Panics, s))\<rparr>"

text \<open>
  The manifests of the examples. \<open>manifestOf\<close> stands for \<^verbatim>\<open>utills.ToJSON\<close> and
  \<^verbatim>\<open>json.Unmarshal\<close>: the file content \<^verbatim>\<open>A\<close> decodes to the manifest of the API \<^verbatim>\<open>A\<close> of the
  spec's scenarios (written in lower case, with one production endpoint given as an
  object), \<^verbatim>\<open>G\<close> to the same manifest with the type \<^verbatim>\<open>graphql\<close>, \<^verbatim>\<open>R\<close> to the same with the
  production endpoint \<^verbatim>\<open>/internal/x\<close>, \<^verbatim>\<open>N\<close> to that of \<^verbatim>\<open>R\<close> without its name, and any other
  content does not decode.
\<close>

definition asciiUpper :: "char \<Rightarrow> char" where
  "asciiUpper c =
     (let n = (of_char c :: nat) in if 97 \<le> n \<and> n \<le> 122 then char_of (n - 32) else c)"

definition manifestA :: APIYaml where
  "manifestA =
     zeroAPIYaml\<lparr>Data := (Data zeroAPIYaml)
       \<lparr>ID := ''A'', Name := ''X'', Context := ''/x'', Version := ''1'', APIType := ''http'',
        OrganizationID := ''org1'',
        EndpointConfig := (EndpointConfig (Data zeroAPIYaml))
          \<lparr>RawProdEndpoints := JObject [(''url'', JString ''https://h/1'')]\<rparr>\<rparr>\<rparr>"

definition withType :: "string \<Rightarrow> APIYaml \<Rightarrow> APIYaml" where
  "withType t y = y\<lparr>Data := (Data y)\<lparr>APIType := t\<rparr>\<rparr>"

definition withRawProd :: "json \<Rightarrow> APIYaml \<Rightarrow> APIYaml" where
  "withRawProd j y =
     y\<lparr>Data := (Data y)\<lparr>EndpointConfig := (EndpointConfig (Data y))\<lparr>RawProdEndpoints := j\<rparr>\<rparr>\<rparr>"

definition withName :: "string \<Rightarrow> APIYaml \<Rightarrow> APIYaml" where
  "withName n y = y\<lparr>Data := (Data y)\<lparr>Name := n\<rparr>\<rparr>"

definition manifestOf :: "string \<Rightarrow> APIYaml \<times> error option" where
  "manifestOf content =
     (if content = ''A'' then (manifestA, None)
      else if content = ''G'' then (withType ''graphql'' manifestA, None)
      else if content = ''R''
      then (withRawProd (JObject [(''url'', JString ''/internal/x'')]) manifestA, None)
      else if content = ''N''
      then (withName [] (withRawProd (JObject [(''url'', JString ''/internal/x'')]) manifestA),
            None)
      else (zeroAPIYaml, Some ''invalid character''))"

definition exampleDeps :: manifestDeps where
  "exampleDeps =
     \<lparr>ToUpper = map asciiUpper, ToJSON = Inr, jsonUnmarshal = manifestOf,
      GetControlPlaneConnectedTenantDomain = ''carbon.super''\<rparr>"

text \<open>
  Modelled from the spec: \<^verbatim>\<open>processFileInsideProject\<close> is declared outside the files at hand.
  After section 4.1 of the spec it hands an entry \<^verbatim>\<open>.../api.yaml\<close> or \<^verbatim>\<open>.../api.json\<close> to the
  manifest decoder, which is \<open>NewAPIYaml\<close>. \<open>isManifestFile\<close> is that pattern, and
  \<open>manifestDecoded\<close> says that the error of the decoder is the error of the entry.
\<close>

definition isManifestFile :: "string \<Rightarrow> bool" where
  "isManifestFile fileName = (hasSuffix fileName ''api.yaml'' \<or> hasSuffix fileName ''api.json'')"

definition manifestDecoded :: "platform \<Rightarrow> manifestDeps \<Rightarrow> bool" where
  "manifestDecoded pf md =
     (\<forall>apiProject fileContent fileName err.
        isManifestFile fileName \<longrightarrow> snd (NewAPIYaml md fileContent) = Some err \<longrightarrow>
        processFileInsideProject pf apiProject fileContent fileName = Returns (Inl err))"

text \<open>
  The platform of the examples. A payload stands for the archive whose one file is
  \<^verbatim>\<open>api.yaml\<close> with the payload as its content, except the payload \<^verbatim>\<open>empty\<close>, which stands
  for an archive without files. Its \<^verbatim>\<open>processFileInsideProject\<close> hands the manifest to
  \<open>NewAPIYaml\<close> and ignores an unknown entry.
\<close>

definition examplePlatform :: platform where
  "examplePlatform =
     \<lparr>zipNewReader = (\<lambda>payload.
        if payload = ''empty'' then Inr [] else Inr [(''api.yaml'', Inr payload)]),
      processFileInsideProject = (\<lambda>apiProject fileContent fileName.
        if isManifestFile fileName
        then (case NewAPIYaml exampleDeps fileContent of
                (apiYaml, Some err) \<Rightarrow> Returns (Inl err)
              | (apiYaml, None) \<Rightarrow> Returns (Inr (apiProject\<lparr>APIYaml := apiYaml\<rparr>)))
        else Returns (Inr apiProject)),
      GetDefaultVhost = (\<lambda>environment. Returns ''localhost''),
      DefaultGatewayName = ''Default'',
      stringsToUpper = map asciiUpper\<rparr>"

text \<open>
  The manifest \<^verbatim>\<open>A\<close> as \<open>NewAPIYaml\<close> returns it, the project that \<open>extractAPIProject\<close>
  makes of the payload \<^verbatim>\<open>A\<close>, the deployment that \<open>validateAndUpdateXds\<close> gives a project
  without deployments, and the index after that project has been applied to the empty
  index.
\<close>

definition apiYamlA :: APIYaml where
  "apiYamlA =
     manifestA\<lparr>Data := (Data manifestA)
       \<lparr>APIType := ''HTTP'',
        EndpointConfig := (EndpointConfig (Data manifestA))
          \<lparr>ProductionEndpoints := [zeroEndpointInfo\<lparr>Endpoint := ''https://h/1''\<rparr>]\<rparr>\<rparr>\<rparr>"

definition projectA :: ProjectAPI where
  "projectA = newZipProject\<lparr>APIYaml := apiYamlA\<rparr>"

definition defaultDeployment :: Deployment where
  "defaultDeployment =
     \<lparr>DisplayOnDevportal = True, DeploymentEnvironment = ''Default'',
      DeploymentVhost = ''localhost''\<rparr>"

definition indexWithA :: refIndex where
  "indexWithA =
     \<lparr>envToVhost = [((''A'', ''Default''), ''localhost'')],
      deployed = [(''localhost'', Data apiYamlA)]\<rparr>"


definition prodOf :: "APIYaml \<Rightarrow> EndpointInfo list" where
  "prodOf apiYaml = ProductionEndpoints (EndpointConfig (Data apiYaml))"

definition sandOf :: "APIYaml \<Rightarrow> EndpointInfo list" where
  "sandOf apiYaml = SandBoxEndpoints (EndpointConfig (Data apiYaml))"





text \<open>
  The error that names the empty ones of the name, the version and the context of a
  manifest, as \<^verbatim>\<open>ValidateMandatoryFields\<close> words it.
\<close>

definition emptyFieldsError :: "APIYaml \<Rightarrow> error" where
  "emptyFieldsError y =
     (if Name (Data y) = [] then ''API Name '' else [])
     @ (if Version (Data y) = [] then ''API Version '' else [])
     @ (if Context (Data y) = [] then ''API Context '' else [])
     @ ''fields cannot be empty for ''
     @ (if Name (Data y) = [] then ''unknownAPIName'' else Name (Data y)) @ '' ''
     @ (if Version (Data y) = [] then ''unknownAPIVersion'' else Version (Data y))"

text \<open>The types that \<open>ValidateAPIType\<close> accepts, and the error it gives for another.\<close>

definition supportedType :: "string \<Rightarrow> bool" where
  "supportedType t = (t = HTTP \<or> t = WS \<or> t = WEBHOOK)"

definition typeError :: "string \<Rightarrow> error" where
  "typeError t =
     (if t = [] then ''could not find api.yaml or api.json''
      else ''API type is not currently supported with Choreo Connect'')"


text \<open>The project that \<open>extractAPIProject\<close> reads from the payload \<^verbatim>\<open>G\<close>, before the check of its type.\<close>

definition projectG :: ProjectAPI where
  "projectG = newZipProject\<lparr>APIYaml := withType ''GRAPHQL'' apiYamlA\<rparr>"


text \<open>
  \<open>holds m vhost env\<close>: the map has the environment in the list of the vhost.
  \<open>indexAfter\<close> is the index as the loop over the requested vhosts leaves it after the
  entries \<open>earlier\<close>, that is, as the call finds it when it comes to the next entry.
  \<open>withEnvProps\<close> is the project with the environment properties found for its id, and
  \<open>callsOf\<close> the calls noted beside the index that an entry point returns.
\<close>

definition holds :: "envmap \<Rightarrow> string \<Rightarrow> string \<Rightarrow> bool" where
  "holds m vhost env = (case map_of m vhost of None \<Rightarrow> False | Some envs \<Rightarrow> env \<in> set envs)"

definition indexAfter :: "('s, 'r, 'm) xds \<Rightarrow> ProjectAPI \<Rightarrow> envmap \<Rightarrow> 's \<Rightarrow> 's" where
  "indexAfter ops apiProject earlier s = snd (snd (deployLoop ops apiProject earlier s [] []))"

definition withEnvProps ::
  "(string \<rightharpoonup> (string \<rightharpoonup> APIEnvProps) option) \<Rightarrow> ProjectAPI \<Rightarrow> ProjectAPI" where
  "withEnvProps apiEnvs apiProject =
     (case apiEnvs (ID (Data (APIYaml apiProject))) of
        Some apiEnvProps \<Rightarrow> apiProject\<lparr>APIEnvProps := apiEnvProps\<rparr>
      | None \<Rightarrow> apiProject)"

definition callsOf :: "'a \<times> 's \<times> xdsCall list \<Rightarrow> xdsCall list" where
  "callsOf r = snd (snd r)"

text \<open>
  The index of the spec's third scenario, with the API \<^verbatim>\<open>A\<close> in the environment \<^verbatim>\<open>e1\<close>
  under the given vhost, and the revision that the index emits for the API.
\<close>

definition indexOn :: "string \<Rightarrow> refIndex" where
  "indexOn vhost =
     \<lparr>envToVhost = [((''A'', ''e1''), vhost)], deployed = [(vhost, Data apiYamlA)]\<rparr>"

definition revisionA :: "string \<Rightarrow> string list \<Rightarrow> refRevision" where
  "revisionA vhost environments =
     \<lparr>revVhost = vhost, revEnvironments = environments, revRevisionID = 0,
      revOrganizationID = ''org1'', revAPIID = ''A''\<rparr>"


text \<open>
  Modelled from the spec: what the claims about \<^verbatim>\<open>AlreadyExists\<close> need of the package
  \<^verbatim>\<open>xds\<close>, which is not among the files at hand, after section 4.4 of the spec.
  \<open>updateSucceeds\<close>: the call of \<^verbatim>\<open>UpdateAPI\<close> returns without an error.
  \<open>existsAfterUpdate\<close>: an update that succeeds records the API under its vhost, so that
  \<^verbatim>\<open>IsAPIExist\<close> finds it there afterwards. \<open>updateDependsOnProject\<close>: an update fails only
  in the verification of the project, so what succeeds on one index succeeds on another.
  \<open>lookupReturns\<close>: \<^verbatim>\<open>IsAPIExist\<close> does not panic.
\<close>

definition updateSucceeds ::
  "('s, 'r, 'm) xds \<Rightarrow> string \<Rightarrow> ProjectAPI \<Rightarrow> string list \<Rightarrow> 's \<Rightarrow> bool" where
  "updateSucceeds ops vhost apiProject environments s =
     (case fst (UpdateAPI ops vhost apiProject environments s) of
        Returns (r, None) \<Rightarrow> True
      | _ \<Rightarrow> False)"

definition existsAfterUpdate :: "('s, 'r, 'm) xds \<Rightarrow> bool" where
  "existsAfterUpdate ops =
     (\<forall>vhost apiProject environments s.
        updateSucceeds ops vhost apiProject environments s \<longrightarrow>
        IsAPIExist ops vhost (ID (Data (APIYaml apiProject))) (Name (Data (APIYaml apiProject)))
          (Version (Data (APIYaml apiProject))) (OrganizationID (Data (APIYaml apiProject)))
          (snd (UpdateAPI ops vhost apiProject environments s)) = Returns True)"

definition updateDependsOnProject :: "('s, 'r, 'm) xds \<Rightarrow> bool" where
  "updateDependsOnProject ops =
     (\<forall>vhost apiProject environments s s'.
        updateSucceeds ops vhost apiProject environments s \<longrightarrow>
        updateSucceeds ops vhost apiProject environments s')"

definition lookupReturns :: "('s, 'r, 'm) xds \<Rightarrow> bool" where
  "lookupReturns ops =
     (\<forall>vhost uuid name version org s. IsAPIExist ops vhost uuid name version org s \<noteq> Panics)"


text \<open>
  Modelled from the spec: what the theorems about the states of the index need of the package
  \<^verbatim>\<open>xds\<close>, which is not among the files at hand, after sections 4.3 and 4.4 of the spec.
  \<open>vhostRecordedByUpdate\<close>: an update that succeeds records the vhost for each of its
  environments, and for no other. \<open>allEnvironmentsIsUnion\<close>: \<^verbatim>\<open>GetAllEnvironments\<close> gives
  the requested environments and those in which the API is deployed under the same vhost.
  \<open>deleteKeepsOthers\<close>: an undeploy that succeeds leaves the API where it is under
  another vhost or in another environment. \<open>deleteEvictsVhost\<close>: after an undeploy from
  a vhost that is not empty, the API exists under that vhost only if some environment still
  has it there (the per-vhost mapping goes with the last environment).
  \<open>deleteAddsNothing\<close>: an undeploy records no API under any vhost. \<open>placedAs\<close>: the
  index has the API under the vhost of each entry, in each of its environments.
\<close>

definition vhostRecordedByUpdate :: "('s, 'r, 'm) xds \<Rightarrow> bool" where
  "vhostRecordedByUpdate ops =
     (\<forall>vhost apiProject environments s env.
        updateSucceeds ops vhost apiProject environments s \<longrightarrow>
        GetVhostOfAPI ops (ID (Data (APIYaml apiProject))) env
          (snd (UpdateAPI ops vhost apiProject environments s)) =
        (if env \<in> set environments then Returns (vhost, True)
         else GetVhostOfAPI ops (ID (Data (APIYaml apiProject))) env s))"

definition allEnvironmentsIsUnion :: "('s, 'r, 'm) xds \<Rightarrow> bool" where
  "allEnvironmentsIsUnion ops =
     (\<forall>uuid vhost environments s allEnvironments.
        GetAllEnvironments ops uuid vhost environments s = Returns allEnvironments \<longrightarrow>
        set allEnvironments =
          set environments \<union> {env. GetVhostOfAPI ops uuid env s = Returns (vhost, True)})"

definition deleteKeepsOthers :: "('s, 'r, 'm) xds \<Rightarrow> bool" where
  "deleteKeepsOthers ops =
     (\<forall>vhost uuid environments org s env.
        fst (DeleteAPIsWithUUID ops vhost uuid environments org s) = Returns None \<longrightarrow>
        env \<notin> set environments \<or> GetVhostOfAPI ops uuid env s \<noteq> Returns (vhost, True) \<longrightarrow>
        GetVhostOfAPI ops uuid env (snd (DeleteAPIsWithUUID ops vhost uuid environments org s)) =
          GetVhostOfAPI ops uuid env s)"

definition deleteEvictsVhost :: "('s, 'r, 'm) xds \<Rightarrow> bool" where
  "deleteEvictsVhost ops =
     (\<forall>vhost uuid environments org s name version.
        vhost \<noteq> [] \<longrightarrow>
        fst (DeleteAPIsWithUUID ops vhost uuid environments org s) = Returns None \<longrightarrow>
        (\<forall>env. GetVhostOfAPI ops uuid env
           (snd (DeleteAPIsWithUUID ops vhost uuid environments org s)) \<noteq> Returns (vhost, True)) \<longrightarrow>
        IsAPIExist ops vhost uuid name version org
          (snd (DeleteAPIsWithUUID ops vhost uuid environments org s)) = Returns False)"

definition deleteAddsNothing :: "('s, 'r, 'm) xds \<Rightarrow> bool" where
  "deleteAddsNothing ops =
     (\<forall>vhost uuid environments org s v u name version org'.
        fst (DeleteAPIsWithUUID ops vhost uuid environments org s) = Returns None \<longrightarrow>
        IsAPIExist ops v u name version org' s = Returns False \<longrightarrow>
        IsAPIExist ops v u name version org'
          (snd (DeleteAPIsWithUUID ops vhost uuid environments org s)) = Returns False)"

definition placedAs :: "('s, 'r, 'm) xds \<Rightarrow> string \<Rightarrow> envmap \<Rightarrow> 's \<Rightarrow> bool" where
  "placedAs ops uuid vmap s =
     (\<forall>(vhost, environments) \<in> set vmap. \<forall>env \<in> set environments.
        GetVhostOfAPI ops uuid env s = Returns (vhost, True))"

text \<open>
  A request that names every environment under one vhost only. (The same environment may
  stand twice in the list of its vhost.)
\<close>

definition oneVhostPerEnvironment :: "envmap \<Rightarrow> bool" where
  "oneVhostPerEnvironment vmap =
     (\<forall>(vhost, environments) \<in> set vmap. \<forall>(vhost', environments') \<in> set vmap.
        \<forall>env \<in> set environments. env \<in> set environments' \<longrightarrow> vhost = vhost')"


section \<open>Theorems\<close>

subsection \<open>Running the examples\<close>

lemmas manifest_defs = exampleDeps_def manifestOf_def manifestA_def zeroAPIYaml_def
  NewAPIYaml_def FormatAndUpdateInfo_def PopulateEndpointsInfo_def populateProd_def
  populateSand_def ValidateMandatoryFields_def zeroEndpointInfo_def asciiUpper_def
  asciiLower_def foldName_def badEndpoint_def isBlank_def asciiSpace_def space2_def space3_def
  InlineEndpointType_def withType_def withRawProd_def withName_def prodEndpointsError_def
  sandEndpointsError_def char_of_eq_iff unmarshalEndpointInfos_def

lemma NewAPIYaml_A: "NewAPIYaml exampleDeps ''A'' = (apiYamlA, None)"
  by (simp add: manifest_defs apiYamlA_def)

lemma extract_A: "extractAPIProject examplePlatform ''A'' = Returns (Inr projectA)"
  by (simp add: extractAPIProject_def examplePlatform_def isManifestFile_def hasSuffix_def NewAPIYaml_A
      projectA_def ValidateAPIType_def apiYamlA_def HTTP_def)

lemma defaultDeployments_A:
  "defaultDeployments examplePlatform projectA = Returns [defaultDeployment]"
  by (simp add: defaultDeployments_def examplePlatform_def projectA_def newZipProject_def
      defaultDeployment_def)

lemma refUpdateAPI_A:
  "refUpdateAPI vhost (projectA\<lparr>Deployments := ds\<rparr>) environments s =
     (Returns (Some \<lparr>revVhost = vhost, revEnvironments = environments, revRevisionID = 0,
                     revOrganizationID = ''org1'', revAPIID = ''A''\<rparr>, None),
      \<lparr>envToVhost = fold (recordVhost ''A'' vhost) environments (envToVhost s),
       deployed = (vhost, Data apiYamlA) #
         filter (\<lambda>(v, d'). \<not> (v = vhost \<and> ID d' = ''A'' \<and> Version d' = ''1''
                                        \<and> OrganizationID d' = ''org1'')) (deployed s)\<rparr>)"
  by (simp add: refUpdateAPI_def projectA_def apiYamlA_def manifestA_def zeroAPIYaml_def
      ValidateAPIType_def HTTP_def zeroEndpointInfo_def badEndpoint_def isBlank_def
      asciiSpace_def space2_def space3_def)

lemma first_apply:
  "validateAndUpdateXds examplePlatform refXds id projectA (Some False) emptyIndex =
     (Returns None, indexWithA)"
  by (simp add: validateAndUpdateXds_def validateAndUpdateXdsBody_def defaultDeployments_A
      recoverPanic_def defaultDeployment_def refXds_def refIsAPIExist_def emptyIndex_def
      refUpdateAPI_A indexWithA_def)

subsection \<open>The override parameter\<close>

lemma validateAndUpdateXds_nil:
  "validateAndUpdateXds pf ops rangeOrder apiProject None s =
     validateAndUpdateXds pf ops rangeOrder apiProject (Some False) s"
  by (simp add: validateAndUpdateXds_def validateAndUpdateXdsBody_def)

lemma validateAndUpdateXds_exists:
  assumes "defaultDeployments pf apiProject = Returns deployments"
    and "existsLoop ops (Data (APIYaml apiProject)) deployments s = Returns True"
  shows "validateAndUpdateXds pf ops rangeOrder apiProject (Some False) s =
     (Returns (Some AlreadyExists), s)"
  using assms
  by (simp add: validateAndUpdateXds_def validateAndUpdateXdsBody_def recoverPanic_def)

text \<open>
  C10. \<^verbatim>\<open>ApplyAPIProjectInStandaloneMode\<close> with a \<^verbatim>\<open>nil\<close> override does, for every payload
  and on every index, what it does with a pointer to \<^verbatim>\<open>false\<close>: the same result and the
  same index. In particular the existence check runs: when the payload parses to a project
  and the API exists on the vhost of one of its deployments, the call with \<^verbatim>\<open>nil\<close> returns
  the error AlreadyExists and leaves the index as it was.
\<close>

theorem nil_override_is_create:
  "ApplyAPIProjectInStandaloneMode pf ops rangeOrder payload None s =
     ApplyAPIProjectInStandaloneMode pf ops rangeOrder payload (Some False) s
   \<and> (extractAPIProject pf payload = Returns (Inr apiProject) \<longrightarrow>
      defaultDeployments pf apiProject = Returns deployments \<longrightarrow>
      existsLoop ops (Data (APIYaml apiProject)) deployments s = Returns True \<longrightarrow>
      ApplyAPIProjectInStandaloneMode pf ops rangeOrder payload None s =
        (Returns (Some AlreadyExists), s))"
  by (simp add: ApplyAPIProjectInStandaloneMode_def validateAndUpdateXds_nil
      validateAndUpdateXds_exists split: go.split sum.split)

text \<open>
  The payload \<^verbatim>\<open>A\<close> on the index that already holds the API \<^verbatim>\<open>A\<close>: with \<^verbatim>\<open>nil\<close> as with
  \<^verbatim>\<open>false\<close>, the call returns AlreadyExists.
\<close>

theorem nil_override_is_create_witness:
  "extractAPIProject examplePlatform ''A'' = Returns (Inr projectA)
   \<and> ApplyAPIProjectInStandaloneMode examplePlatform refXds id ''A'' None indexWithA =
       ApplyAPIProjectInStandaloneMode examplePlatform refXds id ''A'' (Some False) indexWithA
   \<and> ApplyAPIProjectInStandaloneMode examplePlatform refXds id ''A'' None indexWithA =
       (Returns (Some AlreadyExists), indexWithA)"
proof -
  have e: "existsLoop refXds (Data (APIYaml projectA)) [defaultDeployment] indexWithA =
      Returns True"
    by (simp add: indexWithA_def refXds_def refIsAPIExist_def defaultDeployment_def
        projectA_def)
  note t = nil_override_is_create [of examplePlatform refXds id "''A''" indexWithA projectA
      "[defaultDeployment]"]
  from t [THEN conjunct1] t [THEN conjunct2, rule_format, OF extract_A defaultDeployments_A e]
    extract_A
  show ?thesis by simp
qed

subsection \<open>Endpoint normalization\<close>

lemma populateProd_raw [simp]: "RawProdEndpoints (fst (populateProd ec)) = RawProdEndpoints ec"
  and populateProd_sandraw [simp]: "RawSandboxEndpoints (fst (populateProd ec)) = RawSandboxEndpoints ec"
  and populateProd_sand [simp]: "SandBoxEndpoints (fst (populateProd ec)) = SandBoxEndpoints ec"
  by (simp_all add: populateProd_def split: json.split)

lemma populateSand_prod [simp]: "ProductionEndpoints (fst (populateSand ec)) = ProductionEndpoints ec"
  by (simp add: populateSand_def split: json.split)








subsection \<open>Endpoint URLs\<close>

lemma checkEndpoints_list_ex:
  "checkEndpoints msg eps = (if list_ex badEndpoint eps then Some msg else None)"
  by (induction eps) simp_all

lemma list_ex_nonempty: "list_ex P xs \<Longrightarrow> \<not> length xs < 1"
  by (cases xs) simp_all

lemma ValidateMandatoryFields_bad:
  assumes "list_ex badEndpoint (prodOf y) \<or> list_ex badEndpoint (sandOf y)"
  shows "ValidateMandatoryFields y \<noteq> None"
    and "Name (Data y) \<noteq> [] \<Longrightarrow> Version (Data y) \<noteq> [] \<Longrightarrow> Context (Data y) \<noteq> [] \<Longrightarrow>
      ValidateMandatoryFields y =
        Some (if list_ex badEndpoint (prodOf y) then prodEndpointsError else sandEndpointsError)"
  using assms
  by (auto simp add: ValidateMandatoryFields_def Let_def checkEndpoints_list_ex prodOf_def
      sandOf_def dest: list_ex_nonempty)

lemma NewAPIYaml_validation:
  assumes "ToJSON md fileContent = Inr apiJsn" and "jsonUnmarshal md apiJsn = (y0, None)"
    and "ValidateMandatoryFields (fst (PopulateEndpointsInfo (FormatAndUpdateInfo md y0))) = Some err"
  shows "snd (NewAPIYaml md fileContent) = Some err"
  using assms by (simp add: NewAPIYaml_def)

lemma apply_parse_error:
  assumes "extractAPIProject pf payload = Returns (Inl err)"
  shows "ApplyAPIProjectFromAPIM pf ops rangeOrder payload vhostToEnvsMap apiEnvs s =
           (Returns ([], Some err), s)"
    and "ApplyAPIProjectInStandaloneMode pf ops rangeOrder payload override s =
           (Returns (Some err), s)"
  using assms by (simp_all add: ApplyAPIProjectFromAPIM_def ApplyAPIProjectInStandaloneMode_def)

lemma processArtifact_zip_error:
  assumes "extractAPIProject pf payload = Returns (Inl err)" and "hasSuffix name zipExt"
  shows "processArtifact pf ops rangeOrder (RegularFile name (Inr payload)) s =
           (Returns (Some err), s)"
  using assms by (simp add: processArtifact_def apply_parse_error)

lemma processArtifact_dir_error:
  assumes "processFiles pf files newMountedProject = Returns (Inl err)"
  shows "processArtifact pf ops rangeOrder (Directory name files) s = (Returns (Some err), s)"
  using assms by (simp add: processArtifact_def)

lemma processFiles_append:
  "processFiles pf (xs @ ys) p =
     (case processFiles pf xs p of
        Returns (Inr p') \<Rightarrow> processFiles pf ys p'
      | other \<Rightarrow> other)"
proof (induction xs arbitrary: p)
  case Nil
  show ?case by simp
next
  case (Cons a xs)
  obtain name content where a: "a = (name, content)" by (cases a)
  show ?case
    unfolding a
    by (simp add: Cons.IH split: sum.split go.split)
qed

lemma processFiles_manifest_error:
  assumes "processFiles pf earlier p = Returns (Inr p0)"
    and "processFileInsideProject pf p0 fileContent fileName = Returns (Inl err)"
  shows "processFiles pf (earlier @ (fileName, Inr fileContent) # later) p = Returns (Inl err)"
  using assms by (simp add: processFiles_append)

lemma ValidateMandatoryFields_empty_field:
  assumes "prodOf y \<noteq> [] \<or> sandOf y \<noteq> []"
    and "Name (Data y) = [] \<or> Version (Data y) = [] \<or> Context (Data y) = []"
  shows "ValidateMandatoryFields y = Some (emptyFieldsError y)"
  using assms
  by (cases "Name (Data y) = []"; cases "Version (Data y) = []"; cases "Context (Data y) = []")
     (auto simp add: ValidateMandatoryFields_def emptyFieldsError_def Let_def prodOf_def
       sandOf_def)

text \<open>
  C4, as the code has it. For every manifest with a production or sandbox endpoint whose
  URL begins with \<^verbatim>\<open>/\<close> or is blank: \<open>ValidateMandatoryFields\<close> returns an error. When
  the name, the version and the context are not empty, the error is the one that names
  the production endpoints if a production endpoint is at fault, and else the one that
  names the sandbox endpoints; with one of the three empty, it is the error that lists
  the empty ones. \<open>NewAPIYaml\<close> returns that error for a file that decodes to such a
  manifest. And when \<^verbatim>\<open>processFileInsideProject\<close> hands the manifest file to \<open>NewAPIYaml\<close>, as
  the spec has it, every entry point returns or logs that error and leaves the index as
  it was: \<open>ApplyAPIProjectFromAPIM\<close> and \<open>ApplyAPIProjectInStandaloneMode\<close> for an archive
  with that file, whatever the override, and \<open>ProcessMountedAPIProjects\<close> for the archive
  as for the directory, going on to the next artifact.
\<close>

theorem relative_or_blank_endpoint_rejected:
  assumes "ep \<in> set (prodOf y) \<union> set (sandOf y)"
    and "hasSlashPrefix (Endpoint ep) \<or> isBlank (Endpoint ep)"
  shows "\<exists>err. ValidateMandatoryFields y = Some err
    \<and> err = (if Name (Data y) = [] \<or> Version (Data y) = [] \<or> Context (Data y) = []
              then emptyFieldsError y
              else if list_ex badEndpoint (prodOf y) then prodEndpointsError
              else sandEndpointsError)
    \<and> (ToJSON md fileContent = Inr apiJsn \<and> jsonUnmarshal md apiJsn = (y0, None)
         \<and> y = fst (PopulateEndpointsInfo (FormatAndUpdateInfo md y0)) \<longrightarrow>
        snd (NewAPIYaml md fileContent) = Some err
        \<and> (manifestDecoded pf md \<and> isManifestFile fileName \<longrightarrow>
            (zipNewReader pf payload = Inr (earlier @ (fileName, Inr fileContent) # later)
              \<and> processFiles pf earlier newZipProject = Returns (Inr p0) \<longrightarrow>
               ApplyAPIProjectFromAPIM pf ops rangeOrder payload vhostToEnvsMap apiEnvs s =
                 (Returns ([], Some err), s)
               \<and> ApplyAPIProjectInStandaloneMode pf ops rangeOrder payload override s =
                 (Returns (Some err), s)
               \<and> (hasSuffix name zipExt \<longrightarrow>
                  processArtifacts pf ops rangeOrder (RegularFile name (Inr payload) # rest) s
                      errorLog =
                    processArtifacts pf ops rangeOrder rest s (errorLog @ [(name, err)])))
            \<and> (processFiles pf earlier newMountedProject = Returns (Inr p0) \<longrightarrow>
               processArtifacts pf ops rangeOrder
                   (Directory name (earlier @ (fileName, Inr fileContent) # later) # rest) s
                   errorLog =
                 processArtifacts pf ops rangeOrder rest s (errorLog @ [(name, err)]))))"
proof -
  define e where "e =
     (if Name (Data y) = [] \<or> Version (Data y) = [] \<or> Context (Data y) = []
      then emptyFieldsError y
      else if list_ex badEndpoint (prodOf y) then prodEndpointsError else sandEndpointsError)"
  from assms have bad: "list_ex badEndpoint (prodOf y) \<or> list_ex badEndpoint (sandOf y)"
    by (auto simp add: list_ex_iff badEndpoint_def)
  from assms(1) have some: "prodOf y \<noteq> [] \<or> sandOf y \<noteq> []" by auto
  have 1: "ValidateMandatoryFields y = Some e"
  proof (cases "Name (Data y) = [] \<or> Version (Data y) = [] \<or> Context (Data y) = []")
    case True
    with ValidateMandatoryFields_empty_field [OF some] show ?thesis by (simp add: e_def)
  next
    case False
    with ValidateMandatoryFields_bad(2) [OF bad] show ?thesis by (simp add: e_def)
  qed
  have 2: "snd (NewAPIYaml md fileContent) = Some e"
    if "ToJSON md fileContent = Inr apiJsn" "jsonUnmarshal md apiJsn = (y0, None)"
       "y = fst (PopulateEndpointsInfo (FormatAndUpdateInfo md y0))"
    using that 1 NewAPIYaml_validation [of md fileContent apiJsn y0 e] by simp
  have entry: "processFileInsideProject pf p fileContent fileName = Returns (Inl e)"
    if "snd (NewAPIYaml md fileContent) = Some e" "manifestDecoded pf md"
       "isManifestFile fileName" for p
    using that unfolding manifestDecoded_def by blast
  have 3: "ApplyAPIProjectFromAPIM pf ops rangeOrder payload vhostToEnvsMap apiEnvs s =
          (Returns ([], Some e), s)
        \<and> ApplyAPIProjectInStandaloneMode pf ops rangeOrder payload override s =
          (Returns (Some e), s)
        \<and> (hasSuffix name zipExt \<longrightarrow>
           processArtifacts pf ops rangeOrder (RegularFile name (Inr payload) # rest) s errorLog =
             processArtifacts pf ops rangeOrder rest s (errorLog @ [(name, e)]))"
    if n: "snd (NewAPIYaml md fileContent) = Some e"
      and m: "manifestDecoded pf md" "isManifestFile fileName"
      and z: "zipNewReader pf payload = Inr (earlier @ (fileName, Inr fileContent) # later)"
      and f: "processFiles pf earlier newZipProject = Returns (Inr p0)"
  proof -
    from f entry [OF n m] have "processFiles pf (earlier @ (fileName, Inr fileContent) # later)
        newZipProject = Returns (Inl e)"
      by (rule processFiles_manifest_error)
    with z have x: "extractAPIProject pf payload = Returns (Inl e)"
      by (simp add: extractAPIProject_def)
    show ?thesis
      by (simp add: apply_parse_error [OF x] processArtifact_zip_error [OF x])
  qed
  have 4: "processArtifacts pf ops rangeOrder
          (Directory name (earlier @ (fileName, Inr fileContent) # later) # rest) s errorLog =
        processArtifacts pf ops rangeOrder rest s (errorLog @ [(name, e)])"
    if n: "snd (NewAPIYaml md fileContent) = Some e"
      and m: "manifestDecoded pf md" "isManifestFile fileName"
      and f: "processFiles pf earlier newMountedProject = Returns (Inr p0)"
  proof -
    from f entry [OF n m] have "processFiles pf (earlier @ (fileName, Inr fileContent) # later)
        newMountedProject = Returns (Inl e)"
      by (rule processFiles_manifest_error)
    then show ?thesis by (simp add: processArtifact_dir_error)
  qed
  show ?thesis
    unfolding e_def [symmetric] using 1 2 3 4 by blast
qed


lemma examplePlatform_manifestDecoded: "manifestDecoded examplePlatform exampleDeps"
  unfolding manifestDecoded_def
proof (intro allI impI)
  fix apiProject fileContent fileName err
  assume "isManifestFile fileName" and "snd (NewAPIYaml exampleDeps fileContent) = Some err"
  then show "processFileInsideProject examplePlatform apiProject fileContent fileName =
      Returns (Inl err)"
    by (cases "NewAPIYaml exampleDeps fileContent") (simp add: examplePlatform_def)
qed

text \<open>
  The manifest \<^verbatim>\<open>R\<close>, with the production endpoint \<^verbatim>\<open>/internal/x\<close>, through the three entry
  points, as an archive and as a directory.
\<close>

theorem relative_or_blank_endpoint_rejected_witness:
  "snd (NewAPIYaml exampleDeps ''R'') = Some prodEndpointsError
   \<and> ApplyAPIProjectInStandaloneMode examplePlatform refXds id ''R'' None emptyIndex =
       (Returns (Some prodEndpointsError), emptyIndex)
   \<and> ApplyAPIProjectFromAPIM examplePlatform refXds id ''R'' [(''v1'', [''e1''])] Map.empty
         emptyIndex =
       (Returns ([], Some prodEndpointsError), emptyIndex)
   \<and> ProcessMountedAPIProjects examplePlatform refXds id False
       (Inr [RegularFile ''r.zip'' (Inr ''R''), Directory ''r'' [(''r/api.yaml'', Inr ''R'')]])
       emptyIndex =
     (Returns None, emptyIndex,
      [(''r.zip'', prodEndpointsError), (''r'', prodEndpointsError)])"
proof -
  let ?raw = "withRawProd (JObject [(''url'', JString ''/internal/x'')]) manifestA"
  let ?out = "fst (PopulateEndpointsInfo (FormatAndUpdateInfo exampleDeps ?raw))"
  let ?ep = "zeroEndpointInfo\<lparr>Endpoint := ''/internal/x''\<rparr>"
  have p: "prodOf ?out = [?ep]"
    by (simp add: manifest_defs prodOf_def)
  have nvc: "\<not> (Name (Data ?out) = [] \<or> Version (Data ?out) = [] \<or> Context (Data ?out) = [])"
    by (simp add: manifest_defs)
  have m: "?ep \<in> set (prodOf ?out) \<union> set (sandOf ?out)"
    by (simp add: p)
  have b: "hasSlashPrefix (Endpoint ?ep) \<or> isBlank (Endpoint ?ep)"
    by simp
  have j: "ToJSON exampleDeps ''R'' = Inr ''R'' \<and> jsonUnmarshal exampleDeps ''R'' = (?raw, None)
      \<and> ?out = fst (PopulateEndpointsInfo (FormatAndUpdateInfo exampleDeps ?raw))"
    by (simp add: exampleDeps_def manifestOf_def)
  have d: "manifestDecoded examplePlatform exampleDeps \<and> isManifestFile ''api.yaml''"
    "manifestDecoded examplePlatform exampleDeps \<and> isManifestFile ''r/api.yaml''"
    by (simp_all add: examplePlatform_manifestDecoded isManifestFile_def hasSuffix_def)
  have z: "zipNewReader examplePlatform ''R'' = Inr ([] @ (''api.yaml'', Inr ''R'') # [])
      \<and> processFiles examplePlatform [] newZipProject = Returns (Inr newZipProject)"
    by (simp add: examplePlatform_def)
  have f: "processFiles examplePlatform [] newMountedProject = Returns (Inr newMountedProject)"
    by simp
  have s: "hasSuffix ''r.zip'' zipExt"
    by (simp add: hasSuffix_def zipExt_def)
  have bad: "list_ex badEndpoint (prodOf ?out)"
    by (simp add: p badEndpoint_def)
  from relative_or_blank_endpoint_rejected [OF m b, where md = exampleDeps
      and fileContent = "''R''" and apiJsn = "''R''" and ?y0.0 = ?raw and pf = examplePlatform
      and fileName = "''api.yaml''" and payload = "''R''" and earlier = "[]" and later = "[]"
      and ?p0.0 = newZipProject and ops = refXds and rangeOrder = id
      and vhostToEnvsMap = "[(''v1'', [''e1''])]" and apiEnvs = Map.empty and s = emptyIndex
      and override = None and name = "''r.zip''"
      and rest = "[Directory ''r'' [(''r/api.yaml'', Inr ''R'')]]" and errorLog = "[]"]
  obtain err where err: "err = prodEndpointsError"
    and n: "snd (NewAPIYaml exampleDeps ''R'') = Some err"
    and a: "ApplyAPIProjectFromAPIM examplePlatform refXds id ''R'' [(''v1'', [''e1''])]
        Map.empty emptyIndex = (Returns ([], Some err), emptyIndex)"
      "ApplyAPIProjectInStandaloneMode examplePlatform refXds id ''R'' None emptyIndex =
        (Returns (Some err), emptyIndex)"
    and r: "processArtifacts examplePlatform refXds id
        (RegularFile ''r.zip'' (Inr ''R'') # [Directory ''r'' [(''r/api.yaml'', Inr ''R'')]])
        emptyIndex [] =
      processArtifacts examplePlatform refXds id [Directory ''r'' [(''r/api.yaml'', Inr ''R'')]]
        emptyIndex ([] @ [(''r.zip'', err)])"
    using nvc bad j d(1) z s by auto
  from relative_or_blank_endpoint_rejected [OF m b, where md = exampleDeps
      and fileContent = "''R''" and apiJsn = "''R''" and ?y0.0 = ?raw and pf = examplePlatform
      and fileName = "''r/api.yaml''" and earlier = "[]" and later = "[]"
      and ?p0.0 = newMountedProject and ops = refXds and rangeOrder = id and s = emptyIndex
      and name = "''r''" and rest = "[]" and errorLog = "[(''r.zip'', prodEndpointsError)]"]
  have "processArtifacts examplePlatform refXds id
        (Directory ''r'' ([] @ (''r/api.yaml'', Inr ''R'') # []) # []) emptyIndex
        [(''r.zip'', prodEndpointsError)] =
      processArtifacts examplePlatform refXds id [] emptyIndex
        ([(''r.zip'', prodEndpointsError)] @ [(''r'', prodEndpointsError)])"
    using nvc bad j d(2) f by auto
  with r err have "ProcessMountedAPIProjects examplePlatform refXds id False
       (Inr [RegularFile ''r.zip'' (Inr ''R''), Directory ''r'' [(''r/api.yaml'', Inr ''R'')]])
       emptyIndex =
     (Returns None, emptyIndex,
      [(''r.zip'', prodEndpointsError), (''r'', prodEndpointsError)])"
    unfolding ProcessMountedAPIProjects_def
    by (simp only: sum.case processArtifacts.simps(1) append_Nil append_Cons)
  with n a err show ?thesis by simp
qed

text \<open>
  The manifest \<^verbatim>\<open>N\<close> has the same production endpoint and no name: the error names the
  name, not the endpoints.
\<close>

theorem endpoint_error_message_counterexample:
  "prodOf (fst (NewAPIYaml exampleDeps ''N'')) = [zeroEndpointInfo\<lparr>Endpoint := ''/internal/x''\<rparr>]
   \<and> snd (NewAPIYaml exampleDeps ''N'') =
       Some ''API Name fields cannot be empty for unknownAPIName 1''"
  by (simp add: manifest_defs prodOf_def withName_def)


subsection \<open>The type of the API\<close>

lemma ValidateAPIType_unsupported:
  "\<not> supportedType (APIType (Data y)) \<Longrightarrow> ValidateAPIType y = Some (typeError (APIType (Data y)))"
  by (simp add: ValidateAPIType_def supportedType_def typeError_def)

lemma extract_unsupported:
  assumes "zipNewReader pf payload = Inr files"
    and "processFiles pf files newZipProject = Returns (Inr p)"
    and "\<not> supportedType (APIType (Data (APIYaml p)))"
  shows "extractAPIProject pf payload = Returns (Inl (typeError (APIType (Data (APIYaml p)))))"
  using assms by (simp add: extractAPIProject_def ValidateAPIType_unsupported)

lemma processArtifact_dir_unsupported:
  assumes "processFiles pf files newMountedProject = Returns (Inr p)"
    and "\<not> supportedType (APIType (Data (APIYaml p)))"
  shows "processArtifact pf ops rangeOrder (Directory name files) s =
           (Returns (Some (typeError (APIType (Data (APIYaml p))))), s)"
  using assms by (simp add: processArtifact_def ValidateAPIType_unsupported)

text \<open>
  C3. For every project that the files of an artifact give and whose type, as
  \<open>FormatAndUpdateInfo\<close> left it in upper case, is not HTTP, WS or WEBHOOK (the empty type
  of a project without \<^verbatim>\<open>api.yaml\<close> included): \<open>ValidateAPIType\<close> returns an error;
  \<open>ApplyAPIProjectFromAPIM\<close> and \<open>ApplyAPIProjectInStandaloneMode\<close> return that error and
  the index they were given, whatever the override; and \<open>ProcessMountedAPIProjects\<close>, for
  the archive as for the directory, logs that error for the artifact and goes on to the
  next one with the index as it was.
\<close>

theorem unsupported_type_rejected:
  assumes "\<not> supportedType (APIType (Data (APIYaml p)))"
  shows "ValidateAPIType (APIYaml p) = Some (typeError (APIType (Data (APIYaml p))))
    \<and> (zipNewReader pf payload = Inr files \<and> processFiles pf files newZipProject = Returns (Inr p)
        \<longrightarrow>
        ApplyAPIProjectFromAPIM pf ops rangeOrder payload vhostToEnvsMap apiEnvs s =
          (Returns ([], Some (typeError (APIType (Data (APIYaml p))))), s)
        \<and> ApplyAPIProjectInStandaloneMode pf ops rangeOrder payload override s =
          (Returns (Some (typeError (APIType (Data (APIYaml p))))), s)
        \<and> (hasSuffix name zipExt \<longrightarrow>
           processArtifacts pf ops rangeOrder (RegularFile name (Inr payload) # rest) s errorLog =
             processArtifacts pf ops rangeOrder rest s
               (errorLog @ [(name, typeError (APIType (Data (APIYaml p))))])))
    \<and> (processFiles pf files newMountedProject = Returns (Inr p) \<longrightarrow>
        processArtifacts pf ops rangeOrder (Directory name files # rest) s errorLog =
          processArtifacts pf ops rangeOrder rest s
            (errorLog @ [(name, typeError (APIType (Data (APIYaml p))))]))"
proof -
  let ?e = "typeError (APIType (Data (APIYaml p)))"
  have 1: "ValidateAPIType (APIYaml p) = Some ?e"
    using assms by (rule ValidateAPIType_unsupported)
  have 2: "ApplyAPIProjectFromAPIM pf ops rangeOrder payload vhostToEnvsMap apiEnvs s =
          (Returns ([], Some ?e), s)
        \<and> ApplyAPIProjectInStandaloneMode pf ops rangeOrder payload override s =
          (Returns (Some ?e), s)
        \<and> (hasSuffix name zipExt \<longrightarrow>
           processArtifacts pf ops rangeOrder (RegularFile name (Inr payload) # rest) s errorLog =
             processArtifacts pf ops rangeOrder rest s (errorLog @ [(name, ?e)]))"
    if z: "zipNewReader pf payload = Inr files"
      and f: "processFiles pf files newZipProject = Returns (Inr p)"
  proof -
    have x: "extractAPIProject pf payload = Returns (Inl ?e)"
      using z f assms by (rule extract_unsupported)
    show ?thesis
      by (simp add: apply_parse_error [OF x] processArtifact_zip_error [OF x])
  qed
  have 3: "processArtifacts pf ops rangeOrder (Directory name files # rest) s errorLog =
          processArtifacts pf ops rangeOrder rest s (errorLog @ [(name, ?e)])"
    if "processFiles pf files newMountedProject = Returns (Inr p)"
    by (simp add: processArtifact_dir_unsupported [OF that assms])
  from 1 2 3 show ?thesis by blast
qed

lemma processFiles_G:
  "processFiles examplePlatform [(''api.yaml'', Inr ''G'')] proj =
     Returns (Inr (proj\<lparr>APIYaml := withType ''GRAPHQL'' apiYamlA\<rparr>))"
  by (simp add: examplePlatform_def isManifestFile_def hasSuffix_def manifest_defs apiYamlA_def)

text \<open>
  The payload \<^verbatim>\<open>G\<close>, of type \<^verbatim>\<open>graphql\<close>, through the three entry points, and the archive
  without files.
\<close>

theorem unsupported_type_rejected_witness:
  "ApplyAPIProjectFromAPIM examplePlatform refXds id ''G'' [(''v1'', [''e1''])] Map.empty
       emptyIndex =
     (Returns ([], Some ''API type is not currently supported with Choreo Connect''), emptyIndex)
   \<and> ApplyAPIProjectInStandaloneMode examplePlatform refXds id ''G'' (Some True) emptyIndex =
     (Returns (Some ''API type is not currently supported with Choreo Connect''), emptyIndex)
   \<and> ProcessMountedAPIProjects examplePlatform refXds id False
       (Inr [RegularFile ''g.zip'' (Inr ''G''), Directory ''g'' [(''g/api.yaml'', Inr ''G'')]])
       emptyIndex =
     (Returns None, emptyIndex,
      [(''g.zip'', ''API type is not currently supported with Choreo Connect''),
       (''g'', ''API type is not currently supported with Choreo Connect'')])
   \<and> ApplyAPIProjectInStandaloneMode examplePlatform refXds id ''empty'' None emptyIndex =
     (Returns (Some ''could not find api.yaml or api.json''), emptyIndex)"
proof -
  have u0: "\<not> supportedType (APIType (Data (APIYaml newZipProject)))"
    by (simp add: newZipProject_def zeroAPIYaml_def supportedType_def HTTP_def WS_def
        WEBHOOK_def)
  have e0: "typeError (APIType (Data (APIYaml newZipProject))) =
      ''could not find api.yaml or api.json''"
    by (simp add: newZipProject_def zeroAPIYaml_def typeError_def)
  have z0: "zipNewReader examplePlatform ''empty'' = Inr []
      \<and> processFiles examplePlatform [] newZipProject = Returns (Inr newZipProject)"
    by (simp add: examplePlatform_def)
  note t0 = unsupported_type_rejected [OF u0, where pf = examplePlatform
      and payload = "''empty''" and files = "[]" and ops = refXds and rangeOrder = id
      and s = emptyIndex and override = None, THEN conjunct2, THEN conjunct1, rule_format,
      OF z0, unfolded e0]
  have u: "\<not> supportedType (APIType (Data (APIYaml projectG)))"
    by (simp add: projectG_def withType_def supportedType_def HTTP_def WS_def WEBHOOK_def)
  have e: "typeError (APIType (Data (APIYaml projectG))) =
      ''API type is not currently supported with Choreo Connect''"
    by (simp add: projectG_def withType_def typeError_def)
  have z: "zipNewReader examplePlatform ''G'' = Inr [(''api.yaml'', Inr ''G'')]
      \<and> processFiles examplePlatform [(''api.yaml'', Inr ''G'')] newZipProject =
          Returns (Inr projectG)"
    by (simp only: processFiles_G projectG_def) (simp add: examplePlatform_def)
  have s: "hasSuffix ''g.zip'' zipExt"
    by (simp add: hasSuffix_def zipExt_def)
  have d: "processFiles examplePlatform [(''g/api.yaml'', Inr ''G'')] newMountedProject =
      Returns (Inr (newMountedProject\<lparr>APIYaml := withType ''GRAPHQL'' apiYamlA\<rparr>))"
    by (simp add: examplePlatform_def isManifestFile_def hasSuffix_def manifest_defs apiYamlA_def)
  have u': "\<not> supportedType (APIType (Data (APIYaml
      (newMountedProject\<lparr>APIYaml := withType ''GRAPHQL'' apiYamlA\<rparr>))))"
    by (simp add: withType_def supportedType_def HTTP_def WS_def WEBHOOK_def)
  have e': "typeError (APIType (Data (APIYaml
      (newMountedProject\<lparr>APIYaml := withType ''GRAPHQL'' apiYamlA\<rparr>)))) =
      ''API type is not currently supported with Choreo Connect''"
    by (simp add: withType_def typeError_def)
  note t = unsupported_type_rejected [OF u, where pf = examplePlatform and payload = "''G''"
      and files = "[(''api.yaml'', Inr ''G'')]" and ops = refXds and rangeOrder = id
      and s = emptyIndex and name = "''g.zip''", THEN conjunct2, THEN conjunct1, rule_format,
      OF z, unfolded e]
  note t' = unsupported_type_rejected [OF u', where pf = examplePlatform
      and files = "[(''g/api.yaml'', Inr ''G'')]" and ops = refXds and rangeOrder = id
      and s = emptyIndex and name = "''g''", THEN conjunct2, THEN conjunct2, rule_format,
      OF d, unfolded e']
  have m: "ProcessMountedAPIProjects examplePlatform refXds id False
       (Inr [RegularFile ''g.zip'' (Inr ''G''), Directory ''g'' [(''g/api.yaml'', Inr ''G'')]])
       emptyIndex =
     (Returns None, emptyIndex,
      [(''g.zip'', ''API type is not currently supported with Choreo Connect''),
       (''g'', ''API type is not currently supported with Choreo Connect'')])"
    unfolding ProcessMountedAPIProjects_def
    by (simp only: sum.case t [THEN conjunct2, THEN conjunct2, rule_format, OF s] t'
        processArtifacts.simps(1) append_Nil append_Cons)
  from t [THEN conjunct1] t [THEN conjunct2, THEN conjunct1] m
    t0 [THEN conjunct2, THEN conjunct1]
  show ?thesis by simp
qed

subsection \<open>ListApis\<close>

lemma splitColon_no_colon: "CHR '':'' \<notin> set q \<Longrightarrow> splitColon q = [q]"
  by (induction q) auto

text \<open>
  C9 does not hold of the query that is the filter key alone: \<^verbatim>\<open>strings.Split("type", ":")\<close>
  has one element, which is the key, and \<^verbatim>\<open>queryPair[1]\<close> is out of range. \<open>ListApis\<close>
  panics; it returns no list.
\<close>

theorem ListApis_bare_key_panics:
  "ListApis pf ops (Some apiTypeFilterKey) limit organizationID s = Panics"
  by (simp add: ListApis_def apiTypeFilterKey_def)

text \<open>The other queries of the claim: a value after the key, and no query.\<close>

lemma ListApis_filtered:
  "CHR '':'' \<notin> set v \<Longrightarrow>
   ListApis pf ops (Some (apiTypeFilterKey @ '':'' @ v)) limit organizationID s =
     xdsListApis ops (stringsToUpper pf v) organizationID limit s"
  by (simp add: ListApis_def apiTypeFilterKey_def splitColon_no_colon)

lemma ListApis_nil:
  "ListApis pf ops None limit organizationID s = xdsListApis ops [] organizationID limit s"
  by (simp add: ListApis_def)

subsection \<open>Panics\<close>

lemma recoverPanic_returns: "fst (recoverPanic msg r) \<noteq> Panics"
  by (cases r; cases "fst r") (auto simp add: recoverPanic_def)

lemma recoverPanic_panic: "fst r = Panics \<Longrightarrow> fst (recoverPanic msg r) = Returns (Some msg)"
  by (cases r) (simp add: recoverPanic_def)

text \<open>
  C8, as the code has it. \<open>validateAndUpdateXds\<close> never passes a panic on: when its body
  panics, it returns the canonical error. \<open>ApplyAPIProjectInStandaloneMode\<close> and
  \<open>ApplyAPIProjectFromAPIM\<close> pass no panic on once \<open>extractAPIProject\<close> has returned (it
  runs before the deferred function is set up, or outside the function that has one);
  when a loop of \<open>ApplyAPIProjectFromAPIM\<close> panics, the error returned is the canonical
  one.
\<close>

theorem panics_after_parsing_recovered:
  "fst (validateAndUpdateXds pf ops rangeOrder apiProject override s) \<noteq> Panics
   \<and> (fst (validateAndUpdateXdsBody pf ops rangeOrder apiProject override s) = Panics \<longrightarrow>
      fst (validateAndUpdateXds pf ops rangeOrder apiProject override s) =
        Returns (Some (canonicalError (Data (APIYaml apiProject)))))
   \<and> (extractAPIProject pf payload \<noteq> Panics \<longrightarrow>
      fst (ApplyAPIProjectInStandaloneMode pf ops rangeOrder payload override s) \<noteq> Panics
      \<and> fst (ApplyAPIProjectFromAPIM pf ops rangeOrder payload vhostToEnvsMap apiEnvs s) \<noteq> Panics)
   \<and> (fst (deployLoop ops apiProject vhostToEnvsMap s [] []) = Panicked \<longrightarrow>
      snd (fst (applyParsedProject ops rangeOrder apiProject vhostToEnvsMap s)) =
        Some (canonicalError (Data (APIYaml apiProject))))
   \<and> (deployLoop ops apiProject vhostToEnvsMap s [] [] = (Completed vhostsToRemove, revs, s') \<and>
      fst (undeployLoop ops (Data (APIYaml apiProject)) (rangeOrder vhostsToRemove) s') = Panics
      \<longrightarrow>
      snd (fst (applyParsedProject ops rangeOrder apiProject vhostToEnvsMap s)) =
        Some (canonicalError (Data (APIYaml apiProject))))"
proof -
  have 1: "fst (validateAndUpdateXds pf ops rangeOrder apiProject override s) \<noteq> Panics"
    for apiProject
    by (simp add: validateAndUpdateXds_def recoverPanic_returns)
  have 2: "fst (validateAndUpdateXdsBody pf ops rangeOrder apiProject override s) = Panics \<longrightarrow>
      fst (validateAndUpdateXds pf ops rangeOrder apiProject override s) =
        Returns (Some (canonicalError (Data (APIYaml apiProject))))"
    by (simp add: validateAndUpdateXds_def recoverPanic_panic)
  have 3: "extractAPIProject pf payload \<noteq> Panics \<longrightarrow>
      fst (ApplyAPIProjectInStandaloneMode pf ops rangeOrder payload override s) \<noteq> Panics
      \<and> fst (ApplyAPIProjectFromAPIM pf ops rangeOrder payload vhostToEnvsMap apiEnvs s) \<noteq> Panics"
    by (auto simp add: ApplyAPIProjectInStandaloneMode_def ApplyAPIProjectFromAPIM_def 1
        split: go.split sum.split prod.split)
  have 4: "fst (deployLoop ops apiProject vhostToEnvsMap s [] []) = Panicked \<longrightarrow>
      snd (fst (applyParsedProject ops rangeOrder apiProject vhostToEnvsMap s)) =
        Some (canonicalError (Data (APIYaml apiProject)))"
    by (cases "deployLoop ops apiProject vhostToEnvsMap s [] []")
       (simp add: applyParsedProject_def)
  have 5: "deployLoop ops apiProject vhostToEnvsMap s [] [] = (Completed vhostsToRemove, revs, s') \<and>
      fst (undeployLoop ops (Data (APIYaml apiProject)) (rangeOrder vhostsToRemove) s') = Panics
      \<longrightarrow>
      snd (fst (applyParsedProject ops rangeOrder apiProject vhostToEnvsMap s)) =
        Some (canonicalError (Data (APIYaml apiProject)))"
    by (cases "undeployLoop ops (Data (APIYaml apiProject)) (rangeOrder vhostsToRemove) s'")
       (auto simp add: applyParsedProject_def)
  from 1 2 3 4 5 show ?thesis by blast
qed

text \<open>The project \<^verbatim>\<open>A\<close> on the index whose \<^verbatim>\<open>UpdateAPI\<close> panics.\<close>

theorem panics_after_parsing_recovered_witness:
  "validateAndUpdateXdsBody examplePlatform panickingXds id projectA None emptyIndex =
     (Panics, emptyIndex)
   \<and> validateAndUpdateXds examplePlatform panickingXds id projectA None emptyIndex =
     (Returns (Some ''X:1 with UUID \"A\"''), emptyIndex)
   \<and> ApplyAPIProjectFromAPIM examplePlatform panickingXds id ''A'' [(''v1'', [''e1''])]
       Map.empty emptyIndex =
     (Returns ([], Some ''X:1 with UUID \"A\"''), emptyIndex)"
proof -
  have c: "canonicalError (Data (APIYaml projectA)) = ''X:1 with UUID \"A\"''"
    by (simp add: canonicalError_def projectA_def apiYamlA_def manifestA_def)
  have b: "validateAndUpdateXdsBody examplePlatform panickingXds id projectA None emptyIndex =
     (Panics, emptyIndex)"
    by (simp add: validateAndUpdateXdsBody_def defaultDeployments_A panickingXds_def refXds_def
        defaultDeployment_def refIsAPIExist_def emptyIndex_def)
  have d: "deployLoop panickingXds projectA [(''v1'', [''e1''])] emptyIndex [] [] =
      (Panicked, [], emptyIndex)"
    by (simp add: panickingXds_def refXds_def refGetVhostOfAPI_def refGetAllEnvironments_def
        emptyIndex_def)
  note t = panics_after_parsing_recovered [of examplePlatform panickingXds id projectA None
      emptyIndex "''A''" "[(''v1'', [''e1''])]" Map.empty]
  have v: "validateAndUpdateXds examplePlatform panickingXds id projectA None emptyIndex =
     (Returns (Some ''X:1 with UUID \"A\"''), emptyIndex)"
    using t [THEN conjunct2, THEN conjunct1] b c
    by (simp add: validateAndUpdateXds_def recoverPanic_def)
  have a: "ApplyAPIProjectFromAPIM examplePlatform panickingXds id ''A'' [(''v1'', [''e1''])]
       Map.empty emptyIndex =
     (Returns ([], Some ''X:1 with UUID \"A\"''), emptyIndex)"
  proof -
    have "applyParsedProject panickingXds id projectA [(''v1'', [''e1''])] emptyIndex =
        (([], Some ''X:1 with UUID \"A\"''), emptyIndex)"
      unfolding applyParsedProject_def Let_def d using c by simp
    then show ?thesis
      by (simp add: ApplyAPIProjectFromAPIM_def extract_A)
  qed
  from b v a show ?thesis by simp
qed

text \<open>
  \<open>ListApis\<close> has no deferred \<^verbatim>\<open>recover()\<close>: its panic on the query \<^verbatim>\<open>type\<close> reaches the
  caller.
\<close>

theorem ListApis_not_guarded_counterexample:
  "ListApis examplePlatform refXds (Some ''type'') None ''org1'' indexWithA = Panics"
  by (simp add: ListApis_def apiTypeFilterKey_def)


subsection \<open>The order of the calls\<close>

lemma logged_reads [simp]:
  "IsAPIExist (logged ops) vhost uuid name version org (s, l) =
     IsAPIExist ops vhost uuid name version org s"
  "GetVhostOfAPI (logged ops) uuid env (s, l) = GetVhostOfAPI ops uuid env s"
  "GetAllEnvironments (logged ops) uuid vhost envs (s, l) = GetAllEnvironments ops uuid vhost envs s"
  "xdsListApis (logged ops) t org limit (s, l) = xdsListApis ops t org limit s"
  by (simp_all add: logged_def)

lemma logged_UpdateAPI [simp]:
  "UpdateAPI (logged ops) vhost p envs (s, l) =
     (fst (UpdateAPI ops vhost p envs s),
      (snd (UpdateAPI ops vhost p envs s), l @ [UpdateAPICall vhost (ID (Data (APIYaml p))) envs]))"
  by (simp add: logged_def case_prod_beta)

lemma logged_DeleteAPIsWithUUID [simp]:
  "DeleteAPIsWithUUID (logged ops) vhost uuid envs org (s, l) =
     (fst (DeleteAPIsWithUUID ops vhost uuid envs org s),
      (snd (DeleteAPIsWithUUID ops vhost uuid envs org s),
       l @ [DeleteAPIsWithUUIDCall vhost uuid envs org]))"
  by (simp add: logged_def case_prod_beta)

lemma collectRemovals_logged [simp]:
  "collectRemovals (logged ops) uuid vhost envs (s, l) rm = collectRemovals ops uuid vhost envs s rm"
  by (induction envs arbitrary: rm) (simp_all split: go.split)

lemma deployLoop_logged:
  "deployLoop (logged ops) p vmap (s, l) rm revs = (fl, revs', (s', l')) \<Longrightarrow>
   deployLoop ops p vmap s rm revs = (fl, revs', s')
   \<and> (\<exists>us. l' = l @ us \<and> list_all isUpdateCall us
        \<and> ((\<exists>rm'. fl = Completed rm') \<longrightarrow> map callVhost us = map fst vmap))"
proof (induction vmap arbitrary: s l rm revs)
  case Nil
  then show ?case by simp
next
  case (Cons a vmap)
  obtain vhost envs where a: "a = (vhost, envs)" by (cases a)
  show ?case
  proof (cases "collectRemovals ops (ID (Data (APIYaml p))) vhost envs s rm")
    case Panics
    with Cons.prems a show ?thesis by simp
  next
    case (Returns rm1)
    note cr = this
    show ?thesis
    proof (cases "GetAllEnvironments ops (ID (Data (APIYaml p))) vhost envs s")
      case Panics
      with Cons.prems a cr show ?thesis by simp
    next
      case (Returns allEnvs)
      note ga = this
      obtain r s1 where u: "UpdateAPI ops vhost p allEnvs s = (r, s1)"
        by (cases "UpdateAPI ops vhost p allEnvs s")
      show ?thesis
      proof (cases r)
        case Panics
        with Cons.prems a cr ga u show ?thesis
          by (auto intro: exI [of _ "[UpdateAPICall vhost (ID (Data (APIYaml p))) allEnvs]"])
      next
        case (Returns re)
        obtain rev err where re: "re = (rev, err)" by (cases re)
        show ?thesis
        proof (cases err)
          case (Some e)
          with Cons.prems a cr ga u Returns re show ?thesis
            by (auto intro: exI [of _ "[UpdateAPICall vhost (ID (Data (APIYaml p))) allEnvs]"])
        next
          case None
          let ?l1 = "l @ [UpdateAPICall vhost (ID (Data (APIYaml p))) allEnvs]"
          let ?revs1 = "(case rev of Some d \<Rightarrow> revs @ [d] | None \<Rightarrow> revs)"
          from Cons.prems a cr ga u Returns re None
          have rec: "deployLoop (logged ops) p vmap (s1, ?l1) rm1 ?revs1 = (fl, revs', (s', l'))"
            by simp
          from Cons.IH [OF rec] obtain us where
            d: "deployLoop ops p vmap s1 rm1 ?revs1 = (fl, revs', s')"
            and l: "l' = ?l1 @ us" and us: "list_all isUpdateCall us"
            and c: "(\<exists>rm'. fl = Completed rm') \<longrightarrow> map callVhost us = map fst vmap"
            by blast
          have "deployLoop ops p (a # vmap) s rm revs = (fl, revs', s')"
            using a cr ga u Returns re None d by simp
          moreover have "l' = l @ (UpdateAPICall vhost (ID (Data (APIYaml p))) allEnvs # us)"
            using l by simp
          moreover have "list_all isUpdateCall (UpdateAPICall vhost (ID (Data (APIYaml p))) allEnvs # us)"
            using us by simp
          moreover have "(\<exists>rm'. fl = Completed rm') \<longrightarrow>
              map callVhost (UpdateAPICall vhost (ID (Data (APIYaml p))) allEnvs # us) = map fst (a # vmap)"
            using c a by simp
          ultimately show ?thesis by blast
        qed
      qed
    qed
  qed
qed

lemma undeployLoop_logged:
  "undeployLoop (logged ops) y rm (s, l) = (r, (s', l')) \<Longrightarrow>
   undeployLoop ops y rm s = (r, s')
   \<and> (\<exists>ds. l' = l @ ds \<and> list_all isDeleteCall ds \<and> list_all (\<lambda>c. callVhost c \<noteq> []) ds
        \<and> (r = Returns None \<longrightarrow>
            list_all (\<lambda>(vhost, envs). vhost = [] \<or>
               DeleteAPIsWithUUIDCall vhost (ID y) envs (OrganizationID y) \<in> set ds) rm))"
proof (induction rm arbitrary: s l)
  case Nil
  then show ?case by simp
next
  case (Cons a rm)
  obtain vhost envs where a: "a = (vhost, envs)" by (cases a)
  show ?case
  proof (cases "vhost = []")
    case True
    with Cons.prems a have "undeployLoop (logged ops) y rm (s, l) = (r, (s', l'))" by simp
    from Cons.IH [OF this] show ?thesis using True a by simp
  next
    case False
    obtain r1 s1 where d: "DeleteAPIsWithUUID ops vhost (ID y) envs (OrganizationID y) s = (r1, s1)"
      by (cases "DeleteAPIsWithUUID ops vhost (ID y) envs (OrganizationID y) s")
    let ?c = "DeleteAPIsWithUUIDCall vhost (ID y) envs (OrganizationID y)"
    show ?thesis
    proof (cases r1)
      case Panics
      with Cons.prems a False d show ?thesis by (auto intro: exI [of _ "[?c]"])
    next
      case (Returns e)
      show ?thesis
      proof (cases e)
        case (Some err)
        with Cons.prems a False d Returns show ?thesis by (auto intro: exI [of _ "[?c]"])
      next
        case None
        with Cons.prems a False d Returns
        have rec: "undeployLoop (logged ops) y rm (s1, l @ [?c]) = (r, (s', l'))" by simp
        from Cons.IH [OF rec] obtain ds where
          u: "undeployLoop ops y rm s1 = (r, s')" and l: "l' = (l @ [?c]) @ ds"
          and ds: "list_all isDeleteCall ds" "list_all (\<lambda>c. callVhost c \<noteq> []) ds"
          and all: "r = Returns None \<longrightarrow>
            list_all (\<lambda>(vhost, envs). vhost = [] \<or>
               DeleteAPIsWithUUIDCall vhost (ID y) envs (OrganizationID y) \<in> set ds) rm"
          by blast
        have "undeployLoop ops y (a # rm) s = (r, s')"
          using a False d Returns None u by simp
        moreover have "l' = l @ (?c # ds)" using l by simp
        moreover have "list_all isDeleteCall (?c # ds)" "list_all (\<lambda>c. callVhost c \<noteq> []) (?c # ds)"
          using ds False by simp_all
        moreover have "r = Returns None \<longrightarrow>
            list_all (\<lambda>(vhost, envs). vhost = [] \<or>
               DeleteAPIsWithUUIDCall vhost (ID y) envs (OrganizationID y) \<in> set (?c # ds)) (a # rm)"
          using all a by (auto simp add: list_all_iff)
        ultimately show ?thesis by blast
      qed
    qed
  qed
qed


lemma apply_log:
  "\<exists>us ds. callsOf (ApplyAPIProjectFromAPIM pf (logged ops) rangeOrder payload vhostToEnvsMap
        apiEnvs (s, [])) = us @ ds
     \<and> list_all isUpdateCall us \<and> list_all isDeleteCall ds
     \<and> list_all (\<lambda>c. callVhost c \<noteq> []) ds
     \<and> (ds = [] \<or> map callVhost us = map fst vhostToEnvsMap)"
proof (cases "extractAPIProject pf payload")
  case Panics
  then show ?thesis by (simp add: ApplyAPIProjectFromAPIM_def callsOf_def)
next
  case (Returns x)
  show ?thesis
  proof (cases x)
    case (Inl err)
    with Returns show ?thesis by (simp add: ApplyAPIProjectFromAPIM_def callsOf_def)
  next
    case (Inr p0)
    define p where "p = withEnvProps apiEnvs p0"
    obtain fl revs s1 l1 where
      d: "deployLoop (logged ops) p vhostToEnvsMap (s, []) [] [] = (fl, revs, (s1, l1))"
      by (metis prod.exhaust)
    from deployLoop_logged [OF d] obtain us where
      l1: "l1 = us" and us: "list_all isUpdateCall us"
      and c: "(\<exists>rm'. fl = Completed rm') \<longrightarrow> map callVhost us = map fst vhostToEnvsMap"
      by auto
    have a: "ApplyAPIProjectFromAPIM pf (logged ops) rangeOrder payload vhostToEnvsMap apiEnvs
        (s, []) =
      (case applyParsedProject (logged ops) rangeOrder p vhostToEnvsMap (s, []) of
         (r, s') \<Rightarrow> (Returns r, s'))"
      using Returns Inr by (simp add: ApplyAPIProjectFromAPIM_def p_def withEnvProps_def)
    show ?thesis
    proof (cases fl)
      case Panicked
      with a d l1 us show ?thesis
        by (auto simp add: applyParsedProject_def callsOf_def intro: exI [of _ us])
    next
      case (Returned e)
      with a d l1 us show ?thesis
        by (auto simp add: applyParsedProject_def callsOf_def intro: exI [of _ us])
    next
      case (Completed rm)
      obtain r s2 l2 where
        u: "undeployLoop (logged ops) (Data (APIYaml p)) (rangeOrder rm) (s1, l1) = (r, (s2, l2))"
        by (metis prod.exhaust)
      from undeployLoop_logged [OF u] obtain ds where
        l2: "l2 = l1 @ ds" and ds: "list_all isDeleteCall ds"
        "list_all (\<lambda>c. callVhost c \<noteq> []) ds"
        by blast
      have "callsOf (ApplyAPIProjectFromAPIM pf (logged ops) rangeOrder payload vhostToEnvsMap
          apiEnvs (s, [])) = us @ ds"
        using a d u Completed l1 l2
        by (cases r) (simp_all add: applyParsedProject_def callsOf_def)
      with us ds c Completed show ?thesis by blast
    qed
  qed
qed

text \<open>
  C7. For every call of \<open>ApplyAPIProjectFromAPIM\<close>, on every index and whatever the index
  functions do, \<^verbatim>\<open>DeleteAPIsWithUUID\<close> is never called with the empty vhost; the loop over
  the remove set passes over an entry with the empty vhost and leaves the index as it is.
\<close>

theorem empty_vhost_never_undeployed:
  "DeleteAPIsWithUUIDCall [] uuid environments org \<notin>
     set (callsOf (ApplyAPIProjectFromAPIM pf (logged ops) rangeOrder payload vhostToEnvsMap
        apiEnvs (s, [])))
   \<and> undeployLoop ops apiYaml (([], environments) # rest) s = undeployLoop ops apiYaml rest s"
proof -
  from apply_log [of pf ops rangeOrder payload vhostToEnvsMap apiEnvs s] obtain us ds where
    c: "callsOf (ApplyAPIProjectFromAPIM pf (logged ops) rangeOrder payload vhostToEnvsMap
        apiEnvs (s, [])) = us @ ds"
    and us: "list_all isUpdateCall us" and ds: "list_all (\<lambda>c. callVhost c \<noteq> []) ds"
    by blast
  have "DeleteAPIsWithUUIDCall [] uuid environments org \<notin> set us"
    using us by (auto simp add: list_all_iff)
  moreover have "DeleteAPIsWithUUIDCall [] uuid environments org \<notin> set ds"
    using ds by (auto simp add: list_all_iff)
  ultimately show ?thesis using c by simp
qed


lemma projectA_fields [simp]:
  "ID (Data (APIYaml projectA)) = ''A''"
  "Name (Data (APIYaml projectA)) = ''X''"
  "Version (Data (APIYaml projectA)) = ''1''"
  "OrganizationID (Data (APIYaml projectA)) = ''org1''"
  by (simp_all add: projectA_def apiYamlA_def manifestA_def)

lemma refUpdateAPI_A':
  "refUpdateAPI vhost projectA environments s =
     (Returns (Some (revisionA vhost environments), None),
      \<lparr>envToVhost = fold (recordVhost ''A'' vhost) environments (envToVhost s),
       deployed = (vhost, Data apiYamlA) #
         filter (\<lambda>(v, d'). \<not> (v = vhost \<and> ID d' = ''A'' \<and> Version d' = ''1''
                                        \<and> OrganizationID d' = ''org1'')) (deployed s)\<rparr>)"
  using refUpdateAPI_A [of vhost "Deployments projectA" environments s]
  by (simp add: revisionA_def)

lemma apply_A_no_props:
  "ApplyAPIProjectFromAPIM examplePlatform ops rangeOrder ''A'' vhostToEnvsMap Map.empty s =
     (case applyParsedProject ops rangeOrder projectA vhostToEnvsMap s of
        (r, s') \<Rightarrow> (Returns r, s'))"
  by (simp add: ApplyAPIProjectFromAPIM_def extract_A)

lemma deploy_relocation:
  "deployLoop (logged refXds) projectA [(''v2'', [''e1''])] (indexOn ''v1'', []) [] [] =
     (Completed [(''v1'', [''e1''])], [revisionA ''v2'' [''e1'']],
      (\<lparr>envToVhost = [((''A'', ''e1''), ''v2'')],
        deployed = [(''v2'', Data apiYamlA), (''v1'', Data apiYamlA)]\<rparr>,
       [UpdateAPICall ''v2'' ''A'' [''e1'']]))"
  by (simp add: refXds_def refGetVhostOfAPI_def refGetAllEnvironments_def indexOn_def
      refUpdateAPI_A')

lemma deploy_from_empty_vhost:
  "deployLoop (logged refXds) projectA [(''v2'', [''e1''])] (indexOn [], []) [] [] =
     (Completed [([], [''e1''])], [revisionA ''v2'' [''e1'']],
      (\<lparr>envToVhost = [((''A'', ''e1''), ''v2'')],
        deployed = [(''v2'', Data apiYamlA), ([], Data apiYamlA)]\<rparr>,
       [UpdateAPICall ''v2'' ''A'' [''e1'']]))"
  by (simp add: refXds_def refGetVhostOfAPI_def refGetAllEnvironments_def indexOn_def
      refUpdateAPI_A')

lemma relocation_run:
  "ApplyAPIProjectFromAPIM examplePlatform (logged refXds) id ''A'' [(''v2'', [''e1''])]
       Map.empty (indexOn ''v1'', []) =
     (Returns ([revisionA ''v2'' [''e1'']], None),
      (indexOn ''v2'',
       [UpdateAPICall ''v2'' ''A'' [''e1''],
        DeleteAPIsWithUUIDCall ''v1'' ''A'' [''e1''] ''org1'']))"
  unfolding apply_A_no_props applyParsedProject_def Let_def deploy_relocation
  by (simp add: refXds_def refDeleteAPIsWithUUID_def indexOn_def apiYamlA_def manifestA_def)

lemma empty_vhost_run:
  "ApplyAPIProjectFromAPIM examplePlatform (logged refXds) id ''A'' [(''v2'', [''e1''])]
       Map.empty (indexOn [], []) =
     (Returns ([revisionA ''v2'' [''e1'']], None),
      (\<lparr>envToVhost = [((''A'', ''e1''), ''v2'')],
        deployed = [(''v2'', Data apiYamlA), ([], Data apiYamlA)]\<rparr>,
       [UpdateAPICall ''v2'' ''A'' [''e1'']]))"
  unfolding apply_A_no_props applyParsedProject_def Let_def deploy_from_empty_vhost
  by simp

text \<open>
  The API \<^verbatim>\<open>A\<close> recorded under the empty vhost in \<^verbatim>\<open>e1\<close> and requested under \<^verbatim>\<open>v2\<close>: the
  remove set has the empty vhost as a key, and the only call is the update.
\<close>

theorem empty_vhost_never_undeployed_witness:
  "GetVhostOfAPI refXds ''A'' ''e1'' (indexOn []) = Returns ([], True)
   \<and> fst (deployLoop refXds projectA [(''v2'', [''e1''])] (indexOn []) [] []) =
       Completed [([], [''e1''])]
   \<and> callsOf (ApplyAPIProjectFromAPIM examplePlatform (logged refXds) id ''A''
       [(''v2'', [''e1''])] Map.empty (indexOn [], [])) = [UpdateAPICall ''v2'' ''A'' [''e1'']]
   \<and> DeleteAPIsWithUUIDCall [] ''A'' [''e1''] ''org1'' \<notin>
       set (callsOf (ApplyAPIProjectFromAPIM examplePlatform (logged refXds) id ''A''
         [(''v2'', [''e1''])] Map.empty (indexOn [], [])))
   \<and> undeployLoop refXds (Data apiYamlA) [([], [''e1''])] (indexOn ''v2'') =
       (Returns None, indexOn ''v2'')"
proof -
  note t = empty_vhost_never_undeployed [of "''A''" "[''e1'']" "''org1''" examplePlatform refXds
      id "''A''" "[(''v2'', [''e1''])]" Map.empty "indexOn []" "Data apiYamlA" "[]"
      ]
  have g: "GetVhostOfAPI refXds ''A'' ''e1'' (indexOn []) = Returns ([], True)"
    by (simp add: refXds_def refGetVhostOfAPI_def indexOn_def)
  have d: "fst (deployLoop refXds projectA [(''v2'', [''e1''])] (indexOn []) [] []) =
       Completed [([], [''e1''])]"
    using deployLoop_logged [OF deploy_from_empty_vhost] by simp
  have u: "undeployLoop refXds (Data apiYamlA) [([], [''e1''])] (indexOn ''v2'') =
       (Returns None, indexOn ''v2'')"
    by simp
  from t g d u show ?thesis
    by (simp add: empty_vhost_run callsOf_def)
qed


subsection \<open>Moving an API to another vhost\<close>

lemma map_of_appendTo:
  "map_of (appendTo k e m) k' =
     (if k' = k then Some ((case map_of m k of None \<Rightarrow> [] | Some es \<Rightarrow> es) @ [e])
      else map_of m k')"
  by (induction m) auto

lemma holds_appendTo: "holds (appendTo k e m) k' e' = (holds m k' e' \<or> (k' = k \<and> e' = e))"
  by (auto simp add: holds_def map_of_appendTo split: option.splits)

lemma holds_in_set: "holds m k e \<Longrightarrow> \<exists>es. (k, es) \<in> set m \<and> e \<in> set es"
  by (auto simp add: holds_def split: option.splits dest: map_of_SomeD)

lemma collectRemovals_holds:
  "collectRemovals ops uuid vhost envs s rm = Returns rm' \<Longrightarrow>
   holds rm' k e =
     (holds rm k e \<or> (e \<in> set envs \<and> GetVhostOfAPI ops uuid e s = Returns (k, True) \<and> k \<noteq> vhost))"
proof (induction envs arbitrary: rm)
  case Nil
  then show ?case by simp
next
  case (Cons env envs)
  obtain old ex where g: "GetVhostOfAPI ops uuid env s = Returns (old, ex)"
    using Cons.prems by (cases "GetVhostOfAPI ops uuid env s") auto
  let ?rm1 = "(if ex \<and> vhost \<noteq> old then appendTo old env rm else rm)"
  from Cons.prems g have "collectRemovals ops uuid vhost envs s ?rm1 = Returns rm'"
    by simp
  from Cons.IH [OF this] show ?case
    using g by (auto simp add: holds_appendTo)
qed

lemma deployLoop_append:
  "deployLoop ops p (xs @ ys) s rm revs =
     (case deployLoop ops p xs s rm revs of
        (Completed rm', revs', s') \<Rightarrow> deployLoop ops p ys s' rm' revs'
      | other \<Rightarrow> other)"
  by (induction xs arbitrary: s rm revs)
     (auto split: go.split prod.split option.split flow.split)

lemma deployLoop_keeps:
  "deployLoop ops p vmap s rm revs = (Completed rm', revs', s') \<Longrightarrow> holds rm k e \<Longrightarrow>
   holds rm' k e"
proof (induction vmap arbitrary: s rm revs)
  case Nil
  then show ?case by simp
next
  case (Cons a vmap)
  obtain vhost envs where a: "a = (vhost, envs)" by (cases a)
  from Cons.prems(1) a obtain rm1 where
    cr: "collectRemovals ops (ID (Data (APIYaml p))) vhost envs s rm = Returns rm1"
    by (cases "collectRemovals ops (ID (Data (APIYaml p))) vhost envs s rm") auto
  from Cons.prems(1) a cr obtain allEnvs where
    ga: "GetAllEnvironments ops (ID (Data (APIYaml p))) vhost envs s = Returns allEnvs"
    by (cases "GetAllEnvironments ops (ID (Data (APIYaml p))) vhost envs s") auto
  from Cons.prems(1) a cr ga obtain rev s1 where
    u: "UpdateAPI ops vhost p allEnvs s = (Returns (rev, None), s1)"
    by (auto split: prod.splits go.splits option.splits)
  from Cons.prems(1) a cr ga u
  have rec: "deployLoop ops p vmap s1 rm1 (case rev of Some d \<Rightarrow> revs @ [d] | None \<Rightarrow> revs) =
      (Completed rm', revs', s')"
    by simp
  have "holds rm1 k e"
    using collectRemovals_holds [OF cr] Cons.prems(2) by simp
  from Cons.IH [OF rec this] show ?case .
qed

lemma deployLoop_step_holds:
  assumes "deployLoop ops p ((vhost, envs) # later) s rm revs = (Completed rm', revs', s')"
    and "env \<in> set envs"
    and "GetVhostOfAPI ops (ID (Data (APIYaml p))) env s = Returns (old, True)"
    and "old \<noteq> vhost"
  shows "holds rm' old env"
proof -
  from assms(1) obtain rm1 where
    cr: "collectRemovals ops (ID (Data (APIYaml p))) vhost envs s rm = Returns rm1"
    by (cases "collectRemovals ops (ID (Data (APIYaml p))) vhost envs s rm") auto
  from assms(1) cr obtain allEnvs where
    ga: "GetAllEnvironments ops (ID (Data (APIYaml p))) vhost envs s = Returns allEnvs"
    by (cases "GetAllEnvironments ops (ID (Data (APIYaml p))) vhost envs s") auto
  from assms(1) cr ga obtain rev s1 where
    u: "UpdateAPI ops vhost p allEnvs s = (Returns (rev, None), s1)"
    by (auto split: prod.splits go.splits option.splits)
  from assms(1) cr ga u
  have rec: "deployLoop ops p later s1 rm1 (case rev of Some d \<Rightarrow> revs @ [d] | None \<Rightarrow> revs) =
      (Completed rm', revs', s')"
    by simp
  have "holds rm1 old env"
    using collectRemovals_holds [OF cr] assms(2,3,4) by simp
  from deployLoop_keeps [OF rec this] show ?thesis .
qed


lemma deployLoop_step_call:
  assumes "deployLoop (logged ops) p ((vhost, envs) # later) (s0, l0) rm0 revs0 =
      (Completed rm, revs, (s1, l1))"
  shows "\<exists>allEnvs. GetAllEnvironments ops (ID (Data (APIYaml p))) vhost envs s0 = Returns allEnvs
      \<and> UpdateAPICall vhost (ID (Data (APIYaml p))) allEnvs \<in> set l1"
proof -
  from assms obtain rm1 where
    cr: "collectRemovals ops (ID (Data (APIYaml p))) vhost envs s0 rm0 = Returns rm1"
    by (cases "collectRemovals ops (ID (Data (APIYaml p))) vhost envs s0 rm0") auto
  from assms cr obtain allEnvs where
    ga: "GetAllEnvironments ops (ID (Data (APIYaml p))) vhost envs s0 = Returns allEnvs"
    by (cases "GetAllEnvironments ops (ID (Data (APIYaml p))) vhost envs s0") auto
  from assms cr ga obtain rev s2 where
    u: "UpdateAPI ops vhost p allEnvs s0 = (Returns (rev, None), s2)"
    by (cases "UpdateAPI ops vhost p allEnvs s0")
       (auto split: prod.splits go.splits option.splits)
  let ?c = "UpdateAPICall vhost (ID (Data (APIYaml p))) allEnvs"
  from assms cr ga u
  have rec: "deployLoop (logged ops) p later (s2, l0 @ [?c]) rm1
      (case rev of Some d \<Rightarrow> revs0 @ [d] | None \<Rightarrow> revs0) = (Completed rm, revs, (s1, l1))"
    by simp
  from deployLoop_logged [OF rec] obtain us where "l1 = (l0 @ [?c]) @ us" by blast
  then have "?c \<in> set l1" by simp
  with ga show ?thesis by blast
qed

lemma deployLoop_returned:
  "deployLoop ops p vmap s rm revs = (Returned e, revs', s') \<Longrightarrow> e \<noteq> None"
  by (induction vmap arbitrary: s rm revs)
     (auto split: go.splits prod.splits option.splits)

lemma withEnvProps_yaml [simp]: "APIYaml (withEnvProps apiEnvs p) = APIYaml p"
  by (simp add: withEnvProps_def split: option.split)

lemma appendTo_keys: "fst ` set (appendTo k e m) = insert k (fst ` set m)"
proof (induction m)
  case Nil
  show ?case by simp
next
  case (Cons a m)
  obtain k' es where "a = (k', es)" by (cases a)
  with Cons show ?case by (cases "k' = k") auto
qed

text \<open>
  The calls of a run that returns no error, for a requested vhost and an environment that
  the index has under another vhost that is not empty.
\<close>

lemma relocation_calls:
  assumes parse: "extractAPIProject pf payload = Returns (Inr apiProject)"
    and ok: "ApplyAPIProjectFromAPIM pf (logged ops) rangeOrder payload
        (earlier @ (vhost, environments) # later) apiEnvs (s, []) =
      (Returns (revs, None), (s', calls))"
    and order: "\<forall>m. set (rangeOrder m) = set m"
    and env: "env \<in> set environments"
    and old: "GetVhostOfAPI ops (ID (Data (APIYaml apiProject))) env
        (indexAfter ops (withEnvProps apiEnvs apiProject) earlier s) = Returns (oldVhost, True)"
    and diff: "oldVhost \<noteq> vhost"
    and nonempty: "oldVhost \<noteq> []"
  shows "\<exists>us ds allEnvironments removed.
      calls = us @ ds \<and> list_all isUpdateCall us \<and> list_all isDeleteCall ds
      \<and> GetAllEnvironments ops (ID (Data (APIYaml apiProject))) vhost environments
          (indexAfter ops (withEnvProps apiEnvs apiProject) earlier s) = Returns allEnvironments
      \<and> UpdateAPICall vhost (ID (Data (APIYaml apiProject))) allEnvironments \<in> set us
      \<and> DeleteAPIsWithUUIDCall oldVhost (ID (Data (APIYaml apiProject))) removed
          (OrganizationID (Data (APIYaml apiProject))) \<in> set ds
      \<and> env \<in> set removed"
proof -
  define p where "p = withEnvProps apiEnvs apiProject"
  define vmap where "vmap = earlier @ (vhost, environments) # later"
  have y: "APIYaml p = APIYaml apiProject" by (simp add: p_def)
  have a: "applyParsedProject (logged ops) rangeOrder p vmap (s, []) = ((revs, None), (s', calls))"
    using ok parse
    by (simp add: ApplyAPIProjectFromAPIM_def p_def withEnvProps_def vmap_def
        split: prod.splits)
  obtain fl revs1 s1 l1 where
    d: "deployLoop (logged ops) p vmap (s, []) [] [] = (fl, revs1, (s1, l1))"
    by (metis prod.exhaust)
  from a d obtain rm where fl: "fl = Completed rm"
    by (cases fl) (auto simp add: applyParsedProject_def Let_def dest: deployLoop_returned)
  from a d fl have
    u: "undeployLoop (logged ops) (Data (APIYaml p)) (rangeOrder rm) (s1, l1) =
      (Returns None, (s', calls))"
    by (auto simp add: applyParsedProject_def Let_def split: prod.splits go.splits)
  from deployLoop_logged [OF d] have us: "list_all isUpdateCall l1" by auto
  \<comment> \<open>the loop up to the requested vhost\<close>
  obtain fl0 revs0 s0 l0 where
    d0: "deployLoop (logged ops) p earlier (s, []) [] [] = (fl0, revs0, (s0, l0))"
    by (metis prod.exhaust)
  from d d0 fl obtain rm0 where fl0: "fl0 = Completed rm0"
    by (cases fl0) (auto simp add: vmap_def deployLoop_append)
  from d d0 fl fl0 have
    step: "deployLoop (logged ops) p ((vhost, environments) # later) (s0, l0) rm0 revs0 =
      (Completed rm, revs1, (s1, l1))"
    by (simp add: vmap_def deployLoop_append)
  from deployLoop_logged [OF d0] have "deployLoop ops p earlier s [] [] = (fl0, revs0, s0)"
    by simp
  then have s0: "indexAfter ops p earlier s = s0"
    by (simp add: indexAfter_def)
  have g: "GetVhostOfAPI (logged ops) (ID (Data (APIYaml p))) env (s0, l0) =
      Returns (oldVhost, True)"
    using old s0 y by (simp add: p_def)
  have "holds rm oldVhost env"
    using deployLoop_step_holds [OF step env g diff] .
  then obtain removed where r: "(oldVhost, removed) \<in> set rm" "env \<in> set removed"
    by (auto dest: holds_in_set)
  from deployLoop_step_call [OF step] obtain allEnvs where
    ga: "GetAllEnvironments ops (ID (Data (APIYaml p))) vhost environments s0 = Returns allEnvs"
    and c: "UpdateAPICall vhost (ID (Data (APIYaml p))) allEnvs \<in> set l1"
    by blast
  from undeployLoop_logged [OF u] obtain ds where
    l: "calls = l1 @ ds" and ds: "list_all isDeleteCall ds"
    and all: "list_all (\<lambda>(vhost, envs). vhost = [] \<or>
       DeleteAPIsWithUUIDCall vhost (ID (Data (APIYaml p))) envs
         (OrganizationID (Data (APIYaml p))) \<in> set ds) (rangeOrder rm)"
    by blast
  from r(1) order have "(oldVhost, removed) \<in> set (rangeOrder rm)" by simp
  with all nonempty have
    "DeleteAPIsWithUUIDCall oldVhost (ID (Data (APIYaml p))) removed
       (OrganizationID (Data (APIYaml p))) \<in> set ds"
    by (auto simp add: list_all_iff)
  with l us ds ga c r(2) s0 y show ?thesis
    unfolding p_def [symmetric] by auto
qed

lemma placedAs_Nil [simp]: "placedAs ops uuid [] s"
  by (simp add: placedAs_def)

lemma placedAs_D:
  "placedAs ops uuid vmap s \<Longrightarrow> (vhost, envs) \<in> set vmap \<Longrightarrow> env \<in> set envs \<Longrightarrow>
   GetVhostOfAPI ops uuid env s = Returns (vhost, True)"
  by (auto simp add: placedAs_def)

lemma deployLoop_cons_completed:
  assumes "deployLoop ops p ((vhost, envs) # rest) s rm revs = (Completed rm', revs', s')"
  obtains rm1 allEnvs rev s1 where
    "collectRemovals ops (ID (Data (APIYaml p))) vhost envs s rm = Returns rm1"
    "GetAllEnvironments ops (ID (Data (APIYaml p))) vhost envs s = Returns allEnvs"
    "UpdateAPI ops vhost p allEnvs s = (Returns (rev, None), s1)"
    "deployLoop ops p rest s1 rm1 (case rev of Some d \<Rightarrow> revs @ [d] | None \<Rightarrow> revs) =
       (Completed rm', revs', s')"
proof -
  from assms obtain rm1 where
    cr: "collectRemovals ops (ID (Data (APIYaml p))) vhost envs s rm = Returns rm1"
    by (cases "collectRemovals ops (ID (Data (APIYaml p))) vhost envs s rm") auto
  from assms cr obtain allEnvs where
    ga: "GetAllEnvironments ops (ID (Data (APIYaml p))) vhost envs s = Returns allEnvs"
    by (cases "GetAllEnvironments ops (ID (Data (APIYaml p))) vhost envs s") auto
  from assms cr ga obtain rev s1 where
    u: "UpdateAPI ops vhost p allEnvs s = (Returns (rev, None), s1)"
    by (cases "UpdateAPI ops vhost p allEnvs s")
       (auto split: prod.splits go.splits option.splits)
  from assms cr ga u
  have "deployLoop ops p rest s1 rm1 (case rev of Some d \<Rightarrow> revs @ [d] | None \<Rightarrow> revs) =
      (Completed rm', revs', s')"
    by simp
  with cr ga u show thesis by (rule that)
qed

lemma requested_once:
  "oneVhostPerEnvironment vmap \<Longrightarrow> (v, es) \<in> set vmap \<Longrightarrow> (v', es') \<in> set vmap \<Longrightarrow>
   e \<in> set es \<Longrightarrow> e \<in> set es' \<Longrightarrow> v = v'"
  unfolding oneVhostPerEnvironment_def by blast

lemma deployLoop_places:
  assumes "vhostRecordedByUpdate ops" and "allEnvironmentsIsUnion ops"
  shows "deployLoop ops p vmap s rm revs = (Completed rm', revs', s') \<Longrightarrow>
    oneVhostPerEnvironment (pre @ vmap) \<Longrightarrow>
    placedAs ops (ID (Data (APIYaml p))) pre s \<Longrightarrow>
    placedAs ops (ID (Data (APIYaml p))) (pre @ vmap) s'"
proof (induction vmap arbitrary: pre s rm revs)
  case Nil
  then show ?case by simp
next
  case (Cons a rest)
  let ?u = "ID (Data (APIYaml p))"
  obtain vhost envs where a: "a = (vhost, envs)" by (cases a)
  from Cons.prems(1) [unfolded a] obtain rm1 allEnvs rev s1 where
    ga: "GetAllEnvironments ops ?u vhost envs s = Returns allEnvs"
    and u: "UpdateAPI ops vhost p allEnvs s = (Returns (rev, None), s1)"
    and rec: "deployLoop ops p rest s1 rm1 (case rev of Some d \<Rightarrow> revs @ [d] | None \<Rightarrow> revs) =
       (Completed rm', revs', s')"
    by (rule deployLoop_cons_completed)
  from u have su: "updateSucceeds ops vhost p allEnvs s"
    and s1: "snd (UpdateAPI ops vhost p allEnvs s) = s1"
    by (simp_all add: updateSucceeds_def)
  from assms(1) su s1 have after: "GetVhostOfAPI ops ?u env s1 =
      (if env \<in> set allEnvs then Returns (vhost, True) else GetVhostOfAPI ops ?u env s)" for env
    unfolding vhostRecordedByUpdate_def by metis
  from assms(2) ga have all: "set allEnvs =
      set envs \<union> {env. GetVhostOfAPI ops ?u env s = Returns (vhost, True)}"
    unfolding allEnvironmentsIsUnion_def by blast
  have here: "(vhost, envs) \<in> set (pre @ a # rest)" using a by simp
  have "placedAs ops ?u (pre @ [a]) s1"
    unfolding placedAs_def
  proof (intro ballI, clarify)
    fix v es e
    assume m: "(v, es) \<in> set (pre @ [a])" and e: "e \<in> set es"
    show "GetVhostOfAPI ops ?u e s1 = Returns (v, True)"
    proof (cases "(v, es) \<in> set pre")
      case True
      from Cons.prems(3) True e have g: "GetVhostOfAPI ops ?u e s = Returns (v, True)"
        by (rule placedAs_D)
      show ?thesis
      proof (cases "v = vhost")
        case True
        with g all after show ?thesis by simp
      next
        case False
        from \<open>(v, es) \<in> set pre\<close> have "(v, es) \<in> set (pre @ a # rest)" by simp
        from requested_once [OF Cons.prems(2) this here e] False have "e \<notin> set envs"
          by blast
        with False g all have "e \<notin> set allEnvs" by simp
        with after g show ?thesis by simp
      qed
    next
      case False
      with m a have "v = vhost" "es = envs" by simp_all
      with e all after show ?thesis by simp
    qed
  qed
  moreover have "(pre @ [a]) @ rest = pre @ a # rest" by simp
  ultimately show ?case
    using Cons.IH [OF rec, of "pre @ [a]"] Cons.prems(2) by simp
qed

lemma appendTo_distinct: "distinct (map fst m) \<Longrightarrow> distinct (map fst (appendTo k e m))"
proof (induction m)
  case Nil
  show ?case by simp
next
  case (Cons a m)
  obtain k' es where a: "a = (k', es)" by (cases a)
  have "k' \<notin> fst ` set (appendTo k e m)" if "k' \<noteq> k"
    using Cons.prems a that by (simp add: appendTo_keys)
  with Cons a show ?case by (cases "k' = k") auto
qed

lemma collectRemovals_distinct:
  "collectRemovals ops uuid vhost envs s rm = Returns rm' \<Longrightarrow> distinct (map fst rm) \<Longrightarrow>
   distinct (map fst rm')"
proof (induction envs arbitrary: rm)
  case Nil
  then show ?case by simp
next
  case (Cons env envs)
  obtain old ex where g: "GetVhostOfAPI ops uuid env s = Returns (old, ex)"
    using Cons.prems by (cases "GetVhostOfAPI ops uuid env s") auto
  let ?rm1 = "(if ex \<and> vhost \<noteq> old then appendTo old env rm else rm)"
  from Cons.prems g have "collectRemovals ops uuid vhost envs s ?rm1 = Returns rm'"
    by simp
  moreover have "distinct (map fst ?rm1)"
    using Cons.prems(2) by (simp add: appendTo_distinct)
  ultimately show ?case by (rule Cons.IH)
qed

lemma deployLoop_removals:
  "deployLoop ops p vmap s rm revs = (Completed rm', revs', s') \<Longrightarrow>
   (distinct (map fst rm) \<longrightarrow> distinct (map fst rm'))
   \<and> (holds rm' k e \<longrightarrow>
        holds rm k e \<or> (\<exists>v es. (v, es) \<in> set vmap \<and> e \<in> set es \<and> k \<noteq> v))"
proof (induction vmap arbitrary: s rm revs)
  case Nil
  then show ?case by simp
next
  case (Cons a rest)
  obtain vhost envs where a: "a = (vhost, envs)" by (cases a)
  from Cons.prems [unfolded a] obtain rm1 allEnvs rev s1 where
    cr: "collectRemovals ops (ID (Data (APIYaml p))) vhost envs s rm = Returns rm1"
    and rec: "deployLoop ops p rest s1 rm1 (case rev of Some d \<Rightarrow> revs @ [d] | None \<Rightarrow> revs) =
       (Completed rm', revs', s')"
    by (rule deployLoop_cons_completed)
  from Cons.IH [OF rec] collectRemovals_holds [OF cr, of k e] collectRemovals_distinct [OF cr]
  show ?case using a by auto
qed

lemma in_set_holds: "distinct (map fst m) \<Longrightarrow> (k, es) \<in> set m \<Longrightarrow> e \<in> set es \<Longrightarrow> holds m k e"
  by (simp add: holds_def)

lemma undeployLoop_keeps:
  assumes "deleteKeepsOthers ops"
  shows "undeployLoop ops y xs s = (Returns None, s') \<Longrightarrow>
    placedAs ops (ID y) vmap s \<Longrightarrow>
    (\<And>old rs e v es. (old, rs) \<in> set xs \<Longrightarrow> e \<in> set rs \<Longrightarrow> (v, es) \<in> set vmap \<Longrightarrow>
       e \<in> set es \<Longrightarrow> old \<noteq> v) \<Longrightarrow>
    placedAs ops (ID y) vmap s'"
proof (induction xs arbitrary: s)
  case Nil
  then show ?case by simp
next
  case (Cons a xs)
  obtain old rs where a: "a = (old, rs)" by (cases a)
  have later: "old' \<noteq> v"
    if "(old', rs') \<in> set xs" "e \<in> set rs'" "(v, es) \<in> set vmap" "e \<in> set es"
    for old' rs' e v es
    using Cons.prems(3) [of old' rs' e v es] that by simp
  show ?case
  proof (cases "old = []")
    case True
    with Cons.prems(1) a have "undeployLoop ops y xs s = (Returns None, s')" by simp
    from Cons.IH [OF this Cons.prems(2) later] show ?thesis .
  next
    case False
    from Cons.prems(1) a False obtain s1 where
      d: "DeleteAPIsWithUUID ops old (ID y) rs (OrganizationID y) s = (Returns None, s1)"
      and rest: "undeployLoop ops y xs s1 = (Returns None, s')"
      by (cases "DeleteAPIsWithUUID ops old (ID y) rs (OrganizationID y) s")
         (auto split: go.splits option.splits)
    have "placedAs ops (ID y) vmap s1"
      unfolding placedAs_def
    proof (intro ballI, clarify)
      fix v es e
      assume m: "(v, es) \<in> set vmap" and e: "e \<in> set es"
      from Cons.prems(2) m e have g: "GetVhostOfAPI ops (ID y) e s = Returns (v, True)"
        by (rule placedAs_D)
      have "e \<notin> set rs \<or> GetVhostOfAPI ops (ID y) e s \<noteq> Returns (old, True)"
      proof (cases "e \<in> set rs")
        case True
        have "(old, rs) \<in> set (a # xs)" using a by simp
        from Cons.prems(3) [OF this True m e] g show ?thesis by simp
      next
        case False
        then show ?thesis by simp
      qed
      with assms d have "GetVhostOfAPI ops (ID y) e s1 = GetVhostOfAPI ops (ID y) e s"
        unfolding deleteKeepsOthers_def by (metis fst_conv snd_conv)
      with g show "GetVhostOfAPI ops (ID y) e s1 = Returns (v, True)" by simp
    qed
    from Cons.IH [OF rest this later] show ?thesis .
  qed
qed

lemma removals_other_vhost:
  assumes "deployLoop ops p vmap s [] [] = (Completed rm, revs, s1)"
    and "oneVhostPerEnvironment vmap"
    and "(old, rs) \<in> set rm" and "e \<in> set rs" and "(v, es) \<in> set vmap" and "e \<in> set es"
  shows "old \<noteq> v"
proof -
  from deployLoop_removals [OF assms(1)] have
    dist: "distinct (map fst rm)"
    and src: "\<And>k e. holds rm k e \<Longrightarrow> \<exists>v es. (v, es) \<in> set vmap \<and> e \<in> set es \<and> k \<noteq> v"
    by (auto simp add: holds_def)
  from dist assms(3,4) have "holds rm old e" by (rule in_set_holds)
  from src [OF this] obtain v' es' where
    v': "(v', es') \<in> set vmap" "e \<in> set es'" "old \<noteq> v'"
    by blast
  from requested_once [OF assms(2,5) v'(1) assms(6) v'(2)] v'(3) show ?thesis by simp
qed

lemma applyParsedProject_places:
  assumes index: "vhostRecordedByUpdate ops" "allEnvironmentsIsUnion ops" "deleteKeepsOthers ops"
    and order: "\<forall>m. set (rangeOrder m) = set m"
    and ok: "applyParsedProject ops rangeOrder p vmap s = ((revs, None), s')"
    and request: "oneVhostPerEnvironment vmap"
  shows "placedAs ops (ID (Data (APIYaml p))) vmap s'"
proof -
  let ?u = "ID (Data (APIYaml p))"
  obtain fl revs1 s1 where d: "deployLoop ops p vmap s [] [] = (fl, revs1, s1)"
    by (metis prod.exhaust)
  from ok d obtain rm where fl: "fl = Completed rm"
    by (cases fl) (auto simp add: applyParsedProject_def Let_def dest: deployLoop_returned)
  from ok d fl have u: "undeployLoop ops (Data (APIYaml p)) (rangeOrder rm) s1 = (Returns None, s')"
    by (auto simp add: applyParsedProject_def Let_def split: prod.splits go.splits)
  from d fl have dc: "deployLoop ops p vmap s [] [] = (Completed rm, revs1, s1)" by simp
  have p1: "placedAs ops ?u vmap s1"
    using deployLoop_places [OF index(1,2) dc, of "[]"] request by simp
  have "old \<noteq> v"
    if "(old, rs) \<in> set (rangeOrder rm)" "e \<in> set rs" "(v, es) \<in> set vmap" "e \<in> set es"
    for old rs e v es
  proof -
    from that(1) order have "(old, rs) \<in> set rm" by simp
    from removals_other_vhost [OF dc request this that(2,3,4)] show ?thesis .
  qed
  from undeployLoop_keeps [OF index(3) u p1 this] show ?thesis by simp
qed


lemma applyParsedProject_logged:
  assumes "applyParsedProject (logged ops) rangeOrder p vmap (s, l) = (r, (s', l'))"
  shows "applyParsedProject ops rangeOrder p vmap s = (r, s')"
proof -
  obtain fl revs s1 l1 where
    d: "deployLoop (logged ops) p vmap (s, l) [] [] = (fl, revs, (s1, l1))"
    by (metis prod.exhaust)
  from deployLoop_logged [OF d] have d': "deployLoop ops p vmap s [] [] = (fl, revs, s1)"
    by simp
  show ?thesis
  proof (cases fl)
    case Panicked
    with assms d d' show ?thesis by (simp add: applyParsedProject_def)
  next
    case (Returned e)
    with assms d d' show ?thesis by (simp add: applyParsedProject_def)
  next
    case (Completed rm)
    obtain r1 s2 l2 where
      u: "undeployLoop (logged ops) (Data (APIYaml p)) (rangeOrder rm) (s1, l1) = (r1, (s2, l2))"
      by (metis prod.exhaust)
    from undeployLoop_logged [OF u] have
      "undeployLoop ops (Data (APIYaml p)) (rangeOrder rm) s1 = (r1, s2)"
      by simp
    with assms d d' u Completed show ?thesis
      by (cases r1) (auto simp add: applyParsedProject_def)
  qed
qed

lemma undeployLoop_cons:
  assumes "undeployLoop ops y ((old, rs) # xs) s = (Returns None, s')" and "old \<noteq> []"
  obtains s1 where
    "DeleteAPIsWithUUID ops old (ID y) rs (OrganizationID y) s = (Returns None, s1)"
    "undeployLoop ops y xs s1 = (Returns None, s')"
  using assms
  by (cases "DeleteAPIsWithUUID ops old (ID y) rs (OrganizationID y) s")
     (auto split: go.splits option.splits)

lemma undeployLoop_adds_nothing:
  assumes "deleteAddsNothing ops"
  shows "undeployLoop ops y xs s = (Returns None, s') \<Longrightarrow>
    IsAPIExist ops v u name version org s = Returns False \<Longrightarrow>
    IsAPIExist ops v u name version org s' = Returns False"
proof (induction xs arbitrary: s)
  case Nil
  then show ?case by simp
next
  case (Cons a xs)
  obtain old rs where a: "a = (old, rs)" by (cases a)
  show ?case
  proof (cases "old = []")
    case True
    with Cons.prems(1) a have "undeployLoop ops y xs s = (Returns None, s')" by simp
    from Cons.IH [OF this Cons.prems(2)] show ?thesis .
  next
    case False
    from Cons.prems(1) [unfolded a] False obtain s1 where
      d: "DeleteAPIsWithUUID ops old (ID y) rs (OrganizationID y) s = (Returns None, s1)"
      and rest: "undeployLoop ops y xs s1 = (Returns None, s')"
      by (rule undeployLoop_cons)
    from assms d Cons.prems(2) have "IsAPIExist ops v u name version org s1 = Returns False"
      unfolding deleteAddsNothing_def by (metis fst_conv snd_conv)
    from Cons.IH [OF rest this] show ?thesis .
  qed
qed

lemma undeployLoop_keeps_vhost:
  assumes "deleteKeepsOthers ops"
  shows "undeployLoop ops y xs s = (Returns None, s') \<Longrightarrow> old \<notin> fst ` set xs \<Longrightarrow>
    GetVhostOfAPI ops (ID y) env s = Returns (old, True) \<Longrightarrow>
    GetVhostOfAPI ops (ID y) env s' = Returns (old, True)"
proof (induction xs arbitrary: s)
  case Nil
  then show ?case by simp
next
  case (Cons a xs)
  obtain v rs where a: "a = (v, rs)" by (cases a)
  from Cons.prems(2) a have ne: "v \<noteq> old" and later: "old \<notin> fst ` set xs" by auto
  show ?case
  proof (cases "v = []")
    case True
    with Cons.prems(1) a have "undeployLoop ops y xs s = (Returns None, s')" by simp
    from Cons.IH [OF this later Cons.prems(3)] show ?thesis .
  next
    case False
    from Cons.prems(1) [unfolded a] False obtain s1 where
      d: "DeleteAPIsWithUUID ops v (ID y) rs (OrganizationID y) s = (Returns None, s1)"
      and rest: "undeployLoop ops y xs s1 = (Returns None, s')"
      by (rule undeployLoop_cons)
    from Cons.prems(3) ne have "GetVhostOfAPI ops (ID y) env s \<noteq> Returns (v, True)" by simp
    with assms d have "GetVhostOfAPI ops (ID y) env s1 = GetVhostOfAPI ops (ID y) env s"
      unfolding deleteKeepsOthers_def by (metis fst_conv snd_conv)
    with Cons.prems(3) have "GetVhostOfAPI ops (ID y) env s1 = Returns (old, True)" by simp
    from Cons.IH [OF rest later this] show ?thesis .
  qed
qed

lemma undeployLoop_evicts:
  assumes "deleteKeepsOthers ops" and "deleteEvictsVhost ops" and "deleteAddsNothing ops"
  shows "undeployLoop ops y xs s = (Returns None, s') \<Longrightarrow> old \<in> fst ` set xs \<Longrightarrow> old \<noteq> [] \<Longrightarrow>
    (\<And>env. GetVhostOfAPI ops (ID y) env s' \<noteq> Returns (old, True)) \<Longrightarrow>
    IsAPIExist ops old (ID y) name version (OrganizationID y) s' = Returns False"
proof (induction xs arbitrary: s)
  case Nil
  then show ?case by simp
next
  case (Cons a xs)
  obtain v rs where a: "a = (v, rs)" by (cases a)
  show ?case
  proof (cases "old \<in> fst ` set xs")
    case True
    show ?thesis
    proof (cases "v = []")
      case True
      with Cons.prems(1) a have "undeployLoop ops y xs s = (Returns None, s')" by simp
      from Cons.IH [OF this \<open>old \<in> fst ` set xs\<close> Cons.prems(3,4)] show ?thesis .
    next
      case False
      from Cons.prems(1) [unfolded a] False obtain s1 where
        rest: "undeployLoop ops y xs s1 = (Returns None, s')"
        by (rule undeployLoop_cons)
      from Cons.IH [OF rest True Cons.prems(3,4)] show ?thesis .
    qed
  next
    case False
    with Cons.prems(2) a have v: "v = old" by auto
    from Cons.prems(1) [unfolded a v] Cons.prems(3) obtain s1 where
      d: "DeleteAPIsWithUUID ops old (ID y) rs (OrganizationID y) s = (Returns None, s1)"
      and rest: "undeployLoop ops y xs s1 = (Returns None, s')"
      by (rule undeployLoop_cons)
    have "GetVhostOfAPI ops (ID y) env s1 \<noteq> Returns (old, True)" for env
      using undeployLoop_keeps_vhost [OF assms(1) rest False, of env] Cons.prems(4) [of env]
      by blast
    with assms(2) d Cons.prems(3)
    have "IsAPIExist ops old (ID y) name version (OrganizationID y) s1 = Returns False"
      unfolding deleteEvictsVhost_def by (metis fst_conv snd_conv)
    from undeployLoop_adds_nothing [OF assms(3) rest this] show ?thesis .
  qed
qed

lemma relocation_removal:
  assumes ok: "applyParsedProject ops rangeOrder p (earlier @ (vhost, environments) # later) s =
      ((revs, None), s')"
    and env: "env \<in> set environments"
    and old: "GetVhostOfAPI ops (ID (Data (APIYaml p))) env (indexAfter ops p earlier s) =
      Returns (oldVhost, True)"
    and diff: "oldVhost \<noteq> vhost"
  obtains rm revs1 s1 where
    "deployLoop ops p (earlier @ (vhost, environments) # later) s [] [] = (Completed rm, revs1, s1)"
    "undeployLoop ops (Data (APIYaml p)) (rangeOrder rm) s1 = (Returns None, s')"
    "oldVhost \<in> fst ` set rm"
proof -
  let ?vmap = "earlier @ (vhost, environments) # later"
  obtain fl revs1 s1 where d: "deployLoop ops p ?vmap s [] [] = (fl, revs1, s1)"
    by (metis prod.exhaust)
  from ok d obtain rm where fl: "fl = Completed rm"
    by (cases fl) (auto simp add: applyParsedProject_def Let_def dest: deployLoop_returned)
  from ok d fl have u: "undeployLoop ops (Data (APIYaml p)) (rangeOrder rm) s1 = (Returns None, s')"
    by (auto simp add: applyParsedProject_def Let_def split: prod.splits go.splits)
  obtain fl0 revs0 s0 where d0: "deployLoop ops p earlier s [] [] = (fl0, revs0, s0)"
    by (metis prod.exhaust)
  from d d0 fl obtain rm0 where fl0: "fl0 = Completed rm0"
    by (cases fl0) (auto simp add: deployLoop_append)
  from d d0 fl fl0 have
    step: "deployLoop ops p ((vhost, environments) # later) s0 rm0 revs0 = (Completed rm, revs1, s1)"
    by (simp add: deployLoop_append)
  from d0 have "indexAfter ops p earlier s = s0" by (simp add: indexAfter_def)
  with old have g: "GetVhostOfAPI ops (ID (Data (APIYaml p))) env s0 = Returns (oldVhost, True)"
    by simp
  have "holds rm oldVhost env"
    using deployLoop_step_holds [OF step env g diff] .
  then have "oldVhost \<in> fst ` set rm"
    by (force dest: holds_in_set)
  with d fl u show thesis by (intro that) simp_all
qed

text \<open>
  C1, as the code has it. For every call of \<open>ApplyAPIProjectFromAPIM\<close> that returns no
  error, whatever the order in which Go ranges over the maps, and for every requested
  vhost and environment: if the index, as the call finds it when it comes to that vhost,
  has the API in that environment under another vhost that is not empty, then the call
  calls \<^verbatim>\<open>UpdateAPI\<close> for the requested vhost, with the environments that
  \<^verbatim>\<open>GetAllEnvironments\<close> gave, and after all the updates it calls \<^verbatim>\<open>DeleteAPIsWithUUID\<close>
  for the old vhost with a list of environments that has the environment in it. (For the
  first requested vhost, and so for a request with one vhost, the index the call finds is
  the index it was called on.)

  And when the request names every environment under one vhost only, on an index that
  keeps to the spec, afterwards the index has the API in that environment under the
  requested vhost, and the API exists no longer under the old vhost, unless some
  environment still has it there.
\<close>

theorem relocation_undeploys_old_vhost:
  assumes parse: "extractAPIProject pf payload = Returns (Inr apiProject)"
    and ok: "ApplyAPIProjectFromAPIM pf (logged ops) rangeOrder payload
        (earlier @ (vhost, environments) # later) apiEnvs (s, []) =
      (Returns (revs, None), (s', calls))"
    and order: "\<forall>m. set (rangeOrder m) = set m"
    and env: "env \<in> set environments"
    and old: "GetVhostOfAPI ops (ID (Data (APIYaml apiProject))) env
        (indexAfter ops (withEnvProps apiEnvs apiProject) earlier s) = Returns (oldVhost, True)"
    and diff: "oldVhost \<noteq> vhost"
    and nonempty: "oldVhost \<noteq> []"
  shows "(\<exists>us ds allEnvironments removed.
      calls = us @ ds \<and> list_all isUpdateCall us \<and> list_all isDeleteCall ds
      \<and> GetAllEnvironments ops (ID (Data (APIYaml apiProject))) vhost environments
          (indexAfter ops (withEnvProps apiEnvs apiProject) earlier s) = Returns allEnvironments
      \<and> UpdateAPICall vhost (ID (Data (APIYaml apiProject))) allEnvironments \<in> set us
      \<and> DeleteAPIsWithUUIDCall oldVhost (ID (Data (APIYaml apiProject))) removed
          (OrganizationID (Data (APIYaml apiProject))) \<in> set ds
      \<and> env \<in> set removed)
    \<and> (vhostRecordedByUpdate ops \<and> allEnvironmentsIsUnion ops \<and> deleteKeepsOthers ops
        \<and> deleteEvictsVhost ops \<and> deleteAddsNothing ops
        \<and> oneVhostPerEnvironment (earlier @ (vhost, environments) # later) \<longrightarrow>
        GetVhostOfAPI ops (ID (Data (APIYaml apiProject))) env s' = Returns (vhost, True)
        \<and> ((\<forall>e. GetVhostOfAPI ops (ID (Data (APIYaml apiProject))) e s' \<noteq>
                  Returns (oldVhost, True)) \<longrightarrow>
             IsAPIExist ops oldVhost (ID (Data (APIYaml apiProject))) name version
               (OrganizationID (Data (APIYaml apiProject))) s' = Returns False))"
proof -
  define p where "p = withEnvProps apiEnvs apiProject"
  define vmap where "vmap = earlier @ (vhost, environments) # later"
  let ?u = "ID (Data (APIYaml apiProject))"
  have y: "APIYaml p = APIYaml apiProject" by (simp add: p_def)
  have a: "applyParsedProject (logged ops) rangeOrder p vmap (s, []) = ((revs, None), (s', calls))"
    using ok parse
    by (simp add: ApplyAPIProjectFromAPIM_def p_def withEnvProps_def vmap_def
        split: prod.splits)
  from applyParsedProject_logged [OF a]
  have run: "applyParsedProject ops rangeOrder p vmap s = ((revs, None), s')" .
  have placed: "GetVhostOfAPI ops ?u env s' = Returns (vhost, True)"
    if index: "vhostRecordedByUpdate ops" "allEnvironmentsIsUnion ops" "deleteKeepsOthers ops"
      and request: "oneVhostPerEnvironment vmap"
  proof -
    from applyParsedProject_places [OF index order run request]
    have "placedAs ops (ID (Data (APIYaml p))) vmap s'" .
    moreover have "(vhost, environments) \<in> set vmap" by (simp add: vmap_def)
    ultimately show ?thesis using env y by (auto dest: placedAs_D)
  qed
  have evicted: "IsAPIExist ops oldVhost ?u name version
      (OrganizationID (Data (APIYaml apiProject))) s' = Returns False"
    if index: "deleteKeepsOthers ops" "deleteEvictsVhost ops" "deleteAddsNothing ops"
      and gone: "\<forall>e. GetVhostOfAPI ops ?u e s' \<noteq> Returns (oldVhost, True)"
  proof -
    from old have old': "GetVhostOfAPI ops (ID (Data (APIYaml p))) env (indexAfter ops p earlier s) =
        Returns (oldVhost, True)"
      by (simp add: p_def)
    from run [unfolded vmap_def] env old' diff obtain rm revs1 s1 where
      u: "undeployLoop ops (Data (APIYaml p)) (rangeOrder rm) s1 = (Returns None, s')"
      and r: "oldVhost \<in> fst ` set rm"
      by (rule relocation_removal)
    from r order have r': "oldVhost \<in> fst ` set (rangeOrder rm)" by simp
    have g: "GetVhostOfAPI ops (ID (Data (APIYaml p))) e s' \<noteq> Returns (oldVhost, True)" for e
      using gone y by simp
    from undeployLoop_evicts [OF index u r' nonempty g, of name version] y
    show ?thesis by simp
  qed
  from placed evicted show ?thesis
    using relocation_calls [OF parse ok order env old diff nonempty]
    unfolding vmap_def by blast
qed



text \<open>The index of the examples keeps to the spec.\<close>

lemma map_of_recordVhost:
  "map_of (recordVhost uuid vhost env m) k = (if k = (uuid, env) then Some vhost else map_of m k)"
  by (induction m) auto

lemma map_of_fold_recordVhost:
  "map_of (fold (recordVhost uuid vhost) envs m) (uuid, env) =
     (if env \<in> set envs then Some vhost else map_of m (uuid, env))"
  by (induction envs arbitrary: m) (auto simp add: map_of_recordVhost)

lemma recorded_vhost_iff:
  "(refGetVhostOfAPI uuid env s = Returns (vhost, True)) =
     (map_of (envToVhost s) (uuid, env) = Some vhost)"
  by (simp add: refGetVhostOfAPI_def split: option.split)

lemma map_of_filter_kept:
  "(\<And>v. map_of m k = Some v \<Longrightarrow> P (k, v)) \<Longrightarrow> map_of (filter P m) k = map_of m k"
  by (induction m) auto


lemma refUpdateAPI_cases:
  "refUpdateAPI vhost p envs s = (Returns (None, Some ''the project is not valid''), s)
   \<or> refUpdateAPI vhost p envs s =
       (Returns (Some \<lparr>revVhost = vhost, revEnvironments = envs,
                       revRevisionID = RevisionID (Data (APIYaml p)),
                       revOrganizationID = OrganizationID (Data (APIYaml p)),
                       revAPIID = ID (Data (APIYaml p))\<rparr>, None),
        \<lparr>envToVhost = fold (recordVhost (ID (Data (APIYaml p))) vhost) envs (envToVhost s),
         deployed = (vhost, Data (APIYaml p)) #
           filter (\<lambda>(v, d'). \<not> (v = vhost \<and> ID d' = ID (Data (APIYaml p))
                      \<and> Version d' = Version (Data (APIYaml p))
                      \<and> OrganizationID d' = OrganizationID (Data (APIYaml p)))) (deployed s)\<rparr>)"
  by (simp add: refUpdateAPI_def Let_def)

lemma refXds_vhostRecordedByUpdate: "vhostRecordedByUpdate refXds"
  unfolding vhostRecordedByUpdate_def
proof (intro allI impI)
  fix vhost p envs s env
  assume "updateSucceeds refXds vhost p envs s"
  with refUpdateAPI_cases [of vhost p envs s]
  have "envToVhost (snd (refUpdateAPI vhost p envs s)) =
      fold (recordVhost (ID (Data (APIYaml p))) vhost) envs (envToVhost s)"
    by (auto simp add: updateSucceeds_def refXds_def)
  then show "GetVhostOfAPI refXds (ID (Data (APIYaml p))) env (snd (UpdateAPI refXds vhost p envs s)) =
      (if env \<in> set envs then Returns (vhost, True)
       else GetVhostOfAPI refXds (ID (Data (APIYaml p))) env s)"
    by (simp add: refXds_def refGetVhostOfAPI_def map_of_fold_recordVhost)
qed


lemma recorded_envs:
  "env \<in> set (map (\<lambda>((u, env), v). env)
       (filter (\<lambda>((u, env), v). u = uuid \<and> map_of m (u, env) = Some vhost) m))
   \<longleftrightarrow> map_of m (uuid, env) = Some vhost"
proof
  assume "env \<in> set (map (\<lambda>((u, env), v). env)
       (filter (\<lambda>((u, env), v). u = uuid \<and> map_of m (u, env) = Some vhost) m))"
  then obtain x where x: "x \<in> set m" "(case x of ((u, env), v) \<Rightarrow> u = uuid \<and> map_of m (u, env) = Some vhost)"
    "env = (case x of ((u, env), v) \<Rightarrow> env)"
    by auto
  obtain u e v where "x = ((u, e), v)" by (metis prod.exhaust)
  with x show "map_of m (uuid, env) = Some vhost" by auto
next
  assume a: "map_of m (uuid, env) = Some vhost"
  then have "((uuid, env), vhost) \<in> set m" by (rule map_of_SomeD)
  with a have "((uuid, env), vhost) \<in>
      set (filter (\<lambda>((u, env), v). u = uuid \<and> map_of m (u, env) = Some vhost) m)"
    by simp
  then show "env \<in> set (map (\<lambda>((u, env), v). env)
       (filter (\<lambda>((u, env), v). u = uuid \<and> map_of m (u, env) = Some vhost) m))"
    unfolding set_map by (rule rev_image_eqI) simp
qed

lemma refXds_allEnvironmentsIsUnion: "allEnvironmentsIsUnion refXds"
  unfolding allEnvironmentsIsUnion_def
proof (intro allI impI)
  fix uuid vhost environments s allEnvironments
  assume "GetAllEnvironments refXds uuid vhost environments s = Returns allEnvironments"
  then have a: "allEnvironments = environments @
       filter (\<lambda>env. env \<notin> set environments)
         (map (\<lambda>((u, env), v). env)
            (filter (\<lambda>((u, env), v). u = uuid \<and> map_of (envToVhost s) (u, env) = Some vhost)
               (envToVhost s)))"
    by (simp add: refXds_def refGetAllEnvironments_def)
  have "set allEnvironments =
      set environments \<union> {env. map_of (envToVhost s) (uuid, env) = Some vhost}"
    unfolding a set_append set_filter using recorded_envs [of _ uuid "envToVhost s" vhost]
    by blast
  then show "set allEnvironments =
      set environments \<union> {env. GetVhostOfAPI refXds uuid env s = Returns (vhost, True)}"
    by (simp add: refXds_def recorded_vhost_iff)
qed

lemma refXds_deleteKeepsOthers: "deleteKeepsOthers refXds"
  unfolding deleteKeepsOthers_def
proof (intro allI impI)
  fix vhost uuid environments org s env
  assume k: "env \<notin> set environments \<or>
      GetVhostOfAPI refXds uuid env s \<noteq> Returns (vhost, True)"
  show "GetVhostOfAPI refXds uuid env
      (snd (DeleteAPIsWithUUID refXds vhost uuid environments org s)) =
      GetVhostOfAPI refXds uuid env s"
  proof (cases "vhost = []")
    case True
    then show ?thesis by (simp add: refXds_def refDeleteAPIsWithUUID_def)
  next
    case False
    from k have "map_of (filter (\<lambda>((u, env), v). \<not> (u = uuid \<and> v = vhost \<and> env \<in> set environments))
        (envToVhost s)) (uuid, env) = map_of (envToVhost s) (uuid, env)"
      by (intro map_of_filter_kept) (auto simp add: refXds_def recorded_vhost_iff)
    with False show ?thesis
      by (simp add: refXds_def refDeleteAPIsWithUUID_def refGetVhostOfAPI_def Let_def)
  qed
qed

lemma refXds_deleteAddsNothing: "deleteAddsNothing refXds"
  unfolding deleteAddsNothing_def
  by (auto simp add: refXds_def refDeleteAPIsWithUUID_def refIsAPIExist_def Let_def list_ex_iff)

lemma refXds_deleteEvictsVhost: "deleteEvictsVhost refXds"
  unfolding deleteEvictsVhost_def
proof (intro allI impI)
  fix vhost uuid environments org and s :: refIndex and name version
  let ?kept = "filter (\<lambda>((u, env), v). \<not> (u = uuid \<and> v = vhost \<and> env \<in> set environments))
      (envToVhost s)"
  let ?s' = "snd (DeleteAPIsWithUUID refXds vhost uuid environments org s)"
  assume ne: "vhost \<noteq> []"
    and gone: "\<forall>env. GetVhostOfAPI refXds uuid env ?s' \<noteq> Returns (vhost, True)"
  from ne have kept: "envToVhost ?s' = ?kept"
    by (simp add: refXds_def refDeleteAPIsWithUUID_def Let_def)
  have none: "\<not> list_ex (\<lambda>((u, env), v). u = uuid \<and> map_of ?kept (u, env) = Some vhost) ?kept"
  proof
    assume "list_ex (\<lambda>((u, env), v). u = uuid \<and> map_of ?kept (u, env) = Some vhost) ?kept"
    then obtain x where "x \<in> set ?kept"
      and x: "case x of ((u, env), v) \<Rightarrow> u = uuid \<and> map_of ?kept (u, env) = Some vhost"
      unfolding list_ex_iff by blast
    obtain u env v where "x = ((u, env), v)" by (metis prod.exhaust)
    with x have "map_of ?kept (uuid, env) = Some vhost" by auto
    then have "refGetVhostOfAPI uuid env ?s' = Returns (vhost, True)"
      unfolding recorded_vhost_iff kept .
    with gone show False by (simp add: refXds_def)
  qed
  from ne none have "deployed ?s' =
      filter (\<lambda>(v, d). \<not> (v = vhost \<and> ID d = uuid \<and> OrganizationID d = org)) (deployed s)"
    by (simp add: refXds_def refDeleteAPIsWithUUID_def Let_def)
  then show "IsAPIExist refXds vhost uuid name version org ?s' = Returns False"
    by (auto simp add: refXds_def refIsAPIExist_def list_ex_iff)
qed

text \<open>
  The spec's third scenario on the index of the examples: afterwards the API is in \<^verbatim>\<open>e1\<close>
  under \<^verbatim>\<open>v2\<close>, and no longer exists on \<^verbatim>\<open>v1\<close>.
\<close>

theorem relocation_undeploys_old_vhost_witness:
  "GetVhostOfAPI refXds ''A'' ''e1'' (indexOn ''v1'') = Returns (''v1'', True)
   \<and> ApplyAPIProjectFromAPIM examplePlatform (logged refXds) id ''A'' [(''v2'', [''e1''])]
       Map.empty (indexOn ''v1'', []) =
     (Returns ([revisionA ''v2'' [''e1'']], None),
      (indexOn ''v2'',
       [UpdateAPICall ''v2'' ''A'' [''e1''],
        DeleteAPIsWithUUIDCall ''v1'' ''A'' [''e1''] ''org1'']))
   \<and> (\<exists>removed. DeleteAPIsWithUUIDCall ''v1'' ''A'' removed ''org1'' \<in>
         set [UpdateAPICall ''v2'' ''A'' [''e1''],
              DeleteAPIsWithUUIDCall ''v1'' ''A'' [''e1''] ''org1'']
       \<and> ''e1'' \<in> set removed)
   \<and> GetVhostOfAPI refXds ''A'' ''e1'' (indexOn ''v2'') = Returns (''v2'', True)
   \<and> IsAPIExist refXds ''v1'' ''A'' ''X'' ''1'' ''org1'' (indexOn ''v2'') = Returns False"
proof -
  have g: "GetVhostOfAPI refXds (ID (Data (APIYaml projectA))) ''e1''
      (indexAfter refXds (withEnvProps Map.empty projectA) [] (indexOn ''v1'')) =
      Returns (''v1'', True)"
    by (simp add: indexAfter_def refXds_def refGetVhostOfAPI_def indexOn_def)
  have o: "\<forall>m :: envmap. set (id m) = set m" by simp
  have e: "''e1'' \<in> set [''e1'']" by simp
  have n: "''v1'' \<noteq> ''v2''" "''v1'' \<noteq> []" by simp_all
  note t = relocation_undeploys_old_vhost [where earlier = "[]" and later = "[]"
      and name = "''X''" and version = "''1''",
      simplified append_Nil, OF extract_A relocation_run o e g n]
  have c: "vhostRecordedByUpdate refXds \<and> allEnvironmentsIsUnion refXds \<and> deleteKeepsOthers refXds
      \<and> deleteEvictsVhost refXds \<and> deleteAddsNothing refXds
      \<and> oneVhostPerEnvironment [(''v2'', [''e1''])]"
    by (simp add: refXds_vhostRecordedByUpdate refXds_allEnvironmentsIsUnion
        refXds_deleteKeepsOthers refXds_deleteEvictsVhost refXds_deleteAddsNothing
        oneVhostPerEnvironment_def)
  have a: "ID (Data (APIYaml projectA)) = ''A''"
    "OrganizationID (Data (APIYaml projectA)) = ''org1''"
    by (simp_all add: projectA_def apiYamlA_def manifestA_def)
  have gone: "\<forall>e. GetVhostOfAPI refXds (ID (Data (APIYaml projectA))) e (indexOn ''v2'') \<noteq>
      Returns (''v1'', True)"
    by (simp add: refXds_def refGetVhostOfAPI_def indexOn_def)
  from t [THEN conjunct1] obtain us ds removed where
    "[UpdateAPICall ''v2'' ''A'' [''e1''],
      DeleteAPIsWithUUIDCall ''v1'' ''A'' [''e1''] ''org1''] = us @ ds"
    and "DeleteAPIsWithUUIDCall ''v1'' ''A'' removed ''org1'' \<in> set ds" and "''e1'' \<in> set removed"
    by auto
  then have "\<exists>removed. DeleteAPIsWithUUIDCall ''v1'' ''A'' removed ''org1'' \<in>
         set [UpdateAPICall ''v2'' ''A'' [''e1''],
              DeleteAPIsWithUUIDCall ''v1'' ''A'' [''e1''] ''org1'']
       \<and> ''e1'' \<in> set removed"
    by (metis Un_iff set_append)
  moreover from t [THEN conjunct2, rule_format, OF c, THEN conjunct1]
  have "GetVhostOfAPI refXds ''A'' ''e1'' (indexOn ''v2'') = Returns (''v2'', True)"
    by (simp only: a)
  moreover from t [THEN conjunct2, THEN mp, OF c, THEN conjunct2, THEN mp, OF gone]
  have "IsAPIExist refXds ''v1'' ''A'' ''X'' ''1'' ''org1'' (indexOn ''v2'') = Returns False"
    by (simp only: a)
  moreover have "GetVhostOfAPI refXds ''A'' ''e1'' (indexOn ''v1'') = Returns (''v1'', True)"
    by (simp add: refXds_def refGetVhostOfAPI_def indexOn_def)
  ultimately show ?thesis
    using relocation_run by blast
qed


lemma refused_run:
  "ApplyAPIProjectFromAPIM examplePlatform (logged refusingXds) id ''A'' [(''v2'', [''e1''])]
       Map.empty (indexOn ''v1'', []) =
     (Returns ([], Some ''X:1 with UUID \"A\"''),
      (indexOn ''v1'', [UpdateAPICall ''v2'' ''A'' [''e1'']]))"
  unfolding apply_A_no_props applyParsedProject_def Let_def
  by (simp add: refusingXds_def refXds_def refGetVhostOfAPI_def refGetAllEnvironments_def
      indexOn_def canonicalError_def)

lemma deploy_two_vhosts:
  "deployLoop (logged refXds) projectA [(''v3'', [''e1'']), (''v1'', [''e1''])]
       (indexOn ''v1'', []) [] [] =
     (Completed [(''v1'', [''e1'']), (''v3'', [''e1''])],
      [revisionA ''v3'' [''e1''], revisionA ''v1'' [''e1'']],
      (\<lparr>envToVhost = [((''A'', ''e1''), ''v1'')],
        deployed = [(''v1'', Data apiYamlA), (''v3'', Data apiYamlA)]\<rparr>,
       [UpdateAPICall ''v3'' ''A'' [''e1''], UpdateAPICall ''v1'' ''A'' [''e1'']]))"
  by (simp add: refXds_def refGetVhostOfAPI_def refGetAllEnvironments_def indexOn_def
      refUpdateAPI_A' apiYamlA_def manifestA_def)

lemma two_vhosts_run:
  "ApplyAPIProjectFromAPIM examplePlatform (logged refXds) id ''A''
       [(''v3'', [''e1'']), (''v1'', [''e1''])] Map.empty (indexOn ''v1'', []) =
     (Returns ([revisionA ''v3'' [''e1''], revisionA ''v1'' [''e1'']], None),
      (emptyIndex,
       [UpdateAPICall ''v3'' ''A'' [''e1''], UpdateAPICall ''v1'' ''A'' [''e1''],
        DeleteAPIsWithUUIDCall ''v1'' ''A'' [''e1''] ''org1'',
        DeleteAPIsWithUUIDCall ''v3'' ''A'' [''e1''] ''org1'']))"
  unfolding apply_A_no_props applyParsedProject_def Let_def deploy_two_vhosts
  by (simp add: refXds_def refDeleteAPIsWithUUID_def emptyIndex_def apiYamlA_def manifestA_def)

text \<open>
  Three calls after which the API is not where the claim has it. When \<^verbatim>\<open>UpdateAPI\<close> returns
  an error, the call returns the canonical error at once: the API is in \<^verbatim>\<open>e1\<close> under
  \<^verbatim>\<open>v1\<close>, it is requested under \<^verbatim>\<open>v2\<close>, and no undeploy is called. When the old vhost is
  empty, the undeploy is passed over, and the API exists under the empty vhost as before.
  When \<^verbatim>\<open>e1\<close> is requested under \<^verbatim>\<open>v3\<close> and under \<^verbatim>\<open>v1\<close>, each vhost is the old one of
  the other: both are undeployed, and the API is in \<^verbatim>\<open>e1\<close> under no vhost.
\<close>

theorem relocation_fails_counterexample:
  "(GetVhostOfAPI refusingXds ''A'' ''e1'' (indexOn ''v1'') = Returns (''v1'', True)
    \<and> ApplyAPIProjectFromAPIM examplePlatform (logged refusingXds) id ''A'' [(''v2'', [''e1''])]
        Map.empty (indexOn ''v1'', []) =
      (Returns ([], Some ''X:1 with UUID \"A\"''),
       (indexOn ''v1'', [UpdateAPICall ''v2'' ''A'' [''e1'']])))
   \<and> (GetVhostOfAPI refXds ''A'' ''e1'' (indexOn []) = Returns ([], True)
    \<and> ApplyAPIProjectFromAPIM examplePlatform (logged refXds) id ''A'' [(''v2'', [''e1''])]
        Map.empty (indexOn [], []) =
      (Returns ([revisionA ''v2'' [''e1'']], None),
       (\<lparr>envToVhost = [((''A'', ''e1''), ''v2'')],
         deployed = [(''v2'', Data apiYamlA), ([], Data apiYamlA)]\<rparr>,
        [UpdateAPICall ''v2'' ''A'' [''e1'']]))
    \<and> IsAPIExist refXds [] ''A'' ''X'' ''1'' ''org1''
        \<lparr>envToVhost = [((''A'', ''e1''), ''v2'')],
         deployed = [(''v2'', Data apiYamlA), ([], Data apiYamlA)]\<rparr> = Returns True)
   \<and> (GetVhostOfAPI refXds ''A'' ''e1'' (indexOn ''v1'') = Returns (''v1'', True)
    \<and> ApplyAPIProjectFromAPIM examplePlatform (logged refXds) id ''A''
        [(''v3'', [''e1'']), (''v1'', [''e1''])] Map.empty (indexOn ''v1'', []) =
      (Returns ([revisionA ''v3'' [''e1''], revisionA ''v1'' [''e1'']], None),
       (emptyIndex,
        [UpdateAPICall ''v3'' ''A'' [''e1''], UpdateAPICall ''v1'' ''A'' [''e1''],
         DeleteAPIsWithUUIDCall ''v1'' ''A'' [''e1''] ''org1'',
         DeleteAPIsWithUUIDCall ''v3'' ''A'' [''e1''] ''org1'']))
    \<and> GetVhostOfAPI refXds ''A'' ''e1'' emptyIndex = Returns ([], False))"
  by (simp add: refused_run empty_vhost_run two_vhosts_run)
     (simp add: refusingXds_def refXds_def refGetVhostOfAPI_def refIsAPIExist_def indexOn_def
        emptyIndex_def apiYamlA_def manifestA_def)


subsection \<open>The states between the calls\<close>

lemma deployLoop_between:
  assumes "vhostRecordedByUpdate ops" and "allEnvironmentsIsUnion ops"
  shows "deployLoop ops p pre s rm revs = (Completed rm', revs', s0) \<Longrightarrow>
    (\<And>v es. (v, es) \<in> set pre \<Longrightarrow> env \<in> set es \<Longrightarrow> v = vhost) \<Longrightarrow>
    GetVhostOfAPI ops (ID (Data (APIYaml p))) env s0 =
      GetVhostOfAPI ops (ID (Data (APIYaml p))) env s
    \<or> GetVhostOfAPI ops (ID (Data (APIYaml p))) env s0 = Returns (vhost, True)"
proof (induction pre arbitrary: s rm revs)
  case Nil
  then show ?case by simp
next
  case (Cons a rest)
  let ?u = "ID (Data (APIYaml p))"
  obtain v es where a: "a = (v, es)" by (cases a)
  from Cons.prems(1) [unfolded a] obtain rm1 allEnvs rev s1 where
    ga: "GetAllEnvironments ops ?u v es s = Returns allEnvs"
    and u: "UpdateAPI ops v p allEnvs s = (Returns (rev, None), s1)"
    and rec: "deployLoop ops p rest s1 rm1 (case rev of Some d \<Rightarrow> revs @ [d] | None \<Rightarrow> revs) =
       (Completed rm', revs', s0)"
    by (rule deployLoop_cons_completed)
  from u have su: "updateSucceeds ops v p allEnvs s"
    and s1: "snd (UpdateAPI ops v p allEnvs s) = s1"
    by (simp_all add: updateSucceeds_def)
  from assms(1) su s1 have after: "GetVhostOfAPI ops ?u env s1 =
      (if env \<in> set allEnvs then Returns (v, True) else GetVhostOfAPI ops ?u env s)"
    unfolding vhostRecordedByUpdate_def by metis
  from assms(2) ga have all: "set allEnvs =
      set es \<union> {env. GetVhostOfAPI ops ?u env s = Returns (v, True)}"
    unfolding allEnvironmentsIsUnion_def by blast
  have first: "GetVhostOfAPI ops ?u env s1 = GetVhostOfAPI ops ?u env s
      \<or> GetVhostOfAPI ops ?u env s1 = Returns (vhost, True)"
  proof (cases "env \<in> set es")
    case True
    with Cons.prems(2) [of v es] a have "v = vhost" by simp
    with True all after show ?thesis by simp
  next
    case False
    with all after show ?thesis by auto
  qed
  have "v' = vhost" if "(v', es') \<in> set rest" "env \<in> set es'" for v' es'
    using Cons.prems(2) [of v' es'] that by simp
  with Cons.IH [OF rec]
  have "GetVhostOfAPI ops ?u env s0 = GetVhostOfAPI ops ?u env s1
      \<or> GetVhostOfAPI ops ?u env s0 = Returns (vhost, True)"
    by blast
  with first show ?case by auto
qed

text \<open>
  C6, as the code has it. For every call of \<open>ApplyAPIProjectFromAPIM\<close>, on every index and
  whatever the index functions do, the calls that change the index are some calls of
  \<^verbatim>\<open>UpdateAPI\<close> followed by some calls of \<^verbatim>\<open>DeleteAPIsWithUUID\<close>: no update comes after an
  undeploy. And when there is an undeploy at all, \<^verbatim>\<open>UpdateAPI\<close> has been called once for
  every requested vhost, in the order of the loop: the loop over the requested vhosts has
  run to its end before the first undeploy starts.

  On an index that records an update as the spec says, and for a request that names every
  environment under one vhost only, the states in between are as follows, for an
  environment requested under a vhost. After the updates of any first part of the request,
  the index answers for that environment what it answered when the call began, or the
  requested vhost. After all the updates, and after the undeploys of any first part of the
  remove set, it answers the requested vhost. So the API is never absent from the old and
  from the new vhost at once.
\<close>

theorem updates_precede_undeploys:
  "(\<exists>us ds. callsOf (ApplyAPIProjectFromAPIM pf (logged ops) rangeOrder payload vhostToEnvsMap
        apiEnvs (s, [])) = us @ ds
     \<and> list_all isUpdateCall us \<and> list_all isDeleteCall ds
     \<and> (ds = [] \<or> map callVhost us = map fst vhostToEnvsMap))
   \<and> (vhostRecordedByUpdate ops \<and> allEnvironmentsIsUnion ops \<and> deleteKeepsOthers ops
       \<and> (\<forall>m. set (rangeOrder m) = set m)
       \<and> oneVhostPerEnvironment vhostToEnvsMap
       \<and> (vhost, environments) \<in> set vhostToEnvsMap \<and> env \<in> set environments \<longrightarrow>
       (vhostToEnvsMap = updated @ pending
          \<and> deployLoop ops apiProject updated s [] [] = (Completed rmPart, revsPart, sPart) \<longrightarrow>
        GetVhostOfAPI ops (ID (Data (APIYaml apiProject))) env sPart =
          GetVhostOfAPI ops (ID (Data (APIYaml apiProject))) env s
        \<or> GetVhostOfAPI ops (ID (Data (APIYaml apiProject))) env sPart = Returns (vhost, True))
       \<and> (deployLoop ops apiProject vhostToEnvsMap s [] [] = (Completed rm, revs, sDeployed)
          \<and> rangeOrder rm = undeployed @ remaining
          \<and> undeployLoop ops (Data (APIYaml apiProject)) undeployed sDeployed = (Returns None, sUndeployed) \<longrightarrow>
        GetVhostOfAPI ops (ID (Data (APIYaml apiProject))) env sUndeployed = Returns (vhost, True)))"
proof -
  let ?u = "ID (Data (APIYaml apiProject))"
  have 1: "\<exists>us ds. callsOf (ApplyAPIProjectFromAPIM pf (logged ops) rangeOrder payload
        vhostToEnvsMap apiEnvs (s, [])) = us @ ds
     \<and> list_all isUpdateCall us \<and> list_all isDeleteCall ds
     \<and> (ds = [] \<or> map callVhost us = map fst vhostToEnvsMap)"
    using apply_log [of pf ops rangeOrder payload vhostToEnvsMap apiEnvs s] by blast
  have 2: "GetVhostOfAPI ops ?u env sPart = GetVhostOfAPI ops ?u env s
        \<or> GetVhostOfAPI ops ?u env sPart = Returns (vhost, True)"
    if index: "vhostRecordedByUpdate ops" "allEnvironmentsIsUnion ops"
      and request: "oneVhostPerEnvironment vhostToEnvsMap"
        "(vhost, environments) \<in> set vhostToEnvsMap" "env \<in> set environments"
      and split: "vhostToEnvsMap = updated @ pending"
      and loop: "deployLoop ops apiProject updated s [] [] = (Completed rmPart, revsPart, sPart)"
  proof -
    have "v = vhost" if "(v, es) \<in> set updated" "env \<in> set es" for v es
    proof -
      from that(1) split have "(v, es) \<in> set vhostToEnvsMap" by simp
      from requested_once [OF request(1) this request(2) that(2) request(3)] show ?thesis .
    qed
    with deployLoop_between [OF index loop] show ?thesis by blast
  qed
  have 3: "GetVhostOfAPI ops ?u env sUndeployed = Returns (vhost, True)"
    if index: "vhostRecordedByUpdate ops" "allEnvironmentsIsUnion ops" "deleteKeepsOthers ops"
      and order: "\<forall>m. set (rangeOrder m) = set m"
      and request: "oneVhostPerEnvironment vhostToEnvsMap"
        "(vhost, environments) \<in> set vhostToEnvsMap" "env \<in> set environments"
      and loop: "deployLoop ops apiProject vhostToEnvsMap s [] [] = (Completed rm, revs, sDeployed)"
      and split: "rangeOrder rm = undeployed @ remaining"
      and undeploy: "undeployLoop ops (Data (APIYaml apiProject)) undeployed sDeployed = (Returns None, sUndeployed)"
  proof -
    have p1: "placedAs ops ?u vhostToEnvsMap sDeployed"
      using deployLoop_places [OF index(1,2) loop, of "[]"] request(1) by simp
    have "old \<noteq> v"
      if "(old, rs) \<in> set undeployed" "e \<in> set rs" "(v, es) \<in> set vhostToEnvsMap" "e \<in> set es"
      for old rs e v es
    proof -
      from that(1) split order have "(old, rs) \<in> set rm"
        by (metis Un_iff set_append)
      from removals_other_vhost [OF loop request(1) this that(2,3,4)] show ?thesis .
    qed
    from undeployLoop_keeps [OF index(3) undeploy p1 this]
    have "placedAs ops ?u vhostToEnvsMap sUndeployed" by simp
    with request(2,3) show ?thesis by (auto dest: placedAs_D)
  qed
  from 1 2 3 show ?thesis by blast
qed


text \<open>The spec's third scenario: the API \<^verbatim>\<open>A\<close> moves from \<^verbatim>\<open>v1\<close> to \<^verbatim>\<open>v2\<close> in \<^verbatim>\<open>e1\<close>.\<close>

lemma deploy_relocation_index:
  "deployLoop refXds projectA [(''v2'', [''e1''])] (indexOn ''v1'') [] [] =
     (Completed [(''v1'', [''e1''])], [revisionA ''v2'' [''e1'']],
      \<lparr>envToVhost = [((''A'', ''e1''), ''v2'')],
       deployed = [(''v2'', Data apiYamlA), (''v1'', Data apiYamlA)]\<rparr>)"
  by (simp add: refXds_def refGetVhostOfAPI_def refGetAllEnvironments_def indexOn_def
      refUpdateAPI_A')

lemma undeploy_relocation_index:
  "undeployLoop refXds (Data (APIYaml projectA)) [(''v1'', [''e1''])]
       \<lparr>envToVhost = [((''A'', ''e1''), ''v2'')],
        deployed = [(''v2'', Data apiYamlA), (''v1'', Data apiYamlA)]\<rparr> =
     (Returns None, indexOn ''v2'')"
  by (simp add: refXds_def refDeleteAPIsWithUUID_def indexOn_def apiYamlA_def manifestA_def
      projectA_def)

theorem updates_precede_undeploys_witness:
  "callsOf (ApplyAPIProjectFromAPIM examplePlatform (logged refXds) id ''A''
       [(''v2'', [''e1''])] Map.empty (indexOn ''v1'', [])) =
     [UpdateAPICall ''v2'' ''A'' [''e1'']] @ [DeleteAPIsWithUUIDCall ''v1'' ''A'' [''e1''] ''org1'']
   \<and> list_all isUpdateCall [UpdateAPICall ''v2'' ''A'' [''e1'']]
   \<and> list_all isDeleteCall [DeleteAPIsWithUUIDCall ''v1'' ''A'' [''e1''] ''org1'']
   \<and> map callVhost [UpdateAPICall ''v2'' ''A'' [''e1'']] = map fst [(''v2'', [''e1''])]
   \<and> GetVhostOfAPI refXds ''A'' ''e1'' (indexOn ''v1'') = Returns (''v1'', True)
   \<and> deployLoop refXds projectA [(''v2'', [''e1''])] (indexOn ''v1'') [] [] =
       (Completed [(''v1'', [''e1''])], [revisionA ''v2'' [''e1'']],
        \<lparr>envToVhost = [((''A'', ''e1''), ''v2'')],
         deployed = [(''v2'', Data apiYamlA), (''v1'', Data apiYamlA)]\<rparr>)
   \<and> GetVhostOfAPI refXds ''A'' ''e1''
         \<lparr>envToVhost = [((''A'', ''e1''), ''v2'')],
          deployed = [(''v2'', Data apiYamlA), (''v1'', Data apiYamlA)]\<rparr> = Returns (''v2'', True)
   \<and> undeployLoop refXds (Data (APIYaml projectA)) [(''v1'', [''e1''])]
         \<lparr>envToVhost = [((''A'', ''e1''), ''v2'')],
          deployed = [(''v2'', Data apiYamlA), (''v1'', Data apiYamlA)]\<rparr> =
       (Returns None, indexOn ''v2'')
   \<and> GetVhostOfAPI refXds ''A'' ''e1'' (indexOn ''v2'') = Returns (''v2'', True)"
proof -
  let ?mid = "\<lparr>envToVhost = [((''A'', ''e1''), ''v2'')],
      deployed = [(''v2'', Data apiYamlA), (''v1'', Data apiYamlA)]\<rparr>"
  note t = updates_precede_undeploys [where pf = examplePlatform and ops = refXds
      and rangeOrder = id and payload = "''A''" and vhostToEnvsMap = "[(''v2'', [''e1''])]"
      and apiEnvs = Map.empty and s = "indexOn ''v1''" and vhost = "''v2''"
      and environments = "[''e1'']" and env = "''e1''" and apiProject = projectA
      and updated = "[(''v2'', [''e1''])]" and pending = "[]"
      and rmPart = "[(''v1'', [''e1''])]" and revsPart = "[revisionA ''v2'' [''e1'']]" and sPart = ?mid
      and rm = "[(''v1'', [''e1''])]" and revs = "[revisionA ''v2'' [''e1'']]" and sDeployed = ?mid
      and undeployed = "[(''v1'', [''e1''])]" and remaining = "[]" and sUndeployed = "indexOn ''v2''"]
  have c: "vhostRecordedByUpdate refXds \<and> allEnvironmentsIsUnion refXds \<and> deleteKeepsOthers refXds
      \<and> (\<forall>m :: envmap. set (id m) = set m)
      \<and> oneVhostPerEnvironment [(''v2'', [''e1''])]
      \<and> (''v2'', [''e1'']) \<in> set [(''v2'', [''e1''])] \<and> ''e1'' \<in> set [''e1'']"
    by (simp add: refXds_vhostRecordedByUpdate refXds_allEnvironmentsIsUnion
        refXds_deleteKeepsOthers oneVhostPerEnvironment_def)
  have a: "ID (Data (APIYaml projectA)) = ''A''"
    by (simp add: projectA_def apiYamlA_def manifestA_def)
  from t [THEN conjunct1] obtain us ds where
    "callsOf (ApplyAPIProjectFromAPIM examplePlatform (logged refXds) id ''A''
       [(''v2'', [''e1''])] Map.empty (indexOn ''v1'', [])) = us @ ds"
    and "list_all isUpdateCall us" and "list_all isDeleteCall ds"
    by blast
  then have "us = [UpdateAPICall ''v2'' ''A'' [''e1'']]
      \<and> ds = [DeleteAPIsWithUUIDCall ''v1'' ''A'' [''e1''] ''org1'']"
    by (cases us; cases ds) (auto simp add: relocation_run callsOf_def Cons_eq_append_conv)
  then have calls: "callsOf (ApplyAPIProjectFromAPIM examplePlatform (logged refXds) id ''A''
       [(''v2'', [''e1''])] Map.empty (indexOn ''v1'', [])) =
     [UpdateAPICall ''v2'' ''A'' [''e1'']] @ [DeleteAPIsWithUUIDCall ''v1'' ''A'' [''e1''] ''org1'']
   \<and> list_all isUpdateCall [UpdateAPICall ''v2'' ''A'' [''e1'']]
   \<and> list_all isDeleteCall [DeleteAPIsWithUUIDCall ''v1'' ''A'' [''e1''] ''org1'']
   \<and> map callVhost [UpdateAPICall ''v2'' ''A'' [''e1'']] = map fst [(''v2'', [''e1''])]"
    by (simp add: relocation_run callsOf_def)
  have before: "GetVhostOfAPI refXds ''A'' ''e1'' (indexOn ''v1'') = Returns (''v1'', True)"
    by (simp add: refXds_def refGetVhostOfAPI_def indexOn_def)
  have d: "[(''v2'', [''e1''])] = [(''v2'', [''e1''])] @ []
      \<and> deployLoop refXds projectA [(''v2'', [''e1''])] (indexOn ''v1'') [] [] =
        (Completed [(''v1'', [''e1''])], [revisionA ''v2'' [''e1'']], ?mid)"
    using deploy_relocation_index by simp
  have u: "deployLoop refXds projectA [(''v2'', [''e1''])] (indexOn ''v1'') [] [] =
        (Completed [(''v1'', [''e1''])], [revisionA ''v2'' [''e1'']], ?mid)
      \<and> id [(''v1'', [''e1''])] = [(''v1'', [''e1''])] @ []
      \<and> undeployLoop refXds (Data (APIYaml projectA)) [(''v1'', [''e1''])] ?mid =
        (Returns None, indexOn ''v2'')"
    using deploy_relocation_index undeploy_relocation_index by simp
  from t [THEN conjunct2, rule_format, OF c, THEN conjunct1, rule_format, OF d] before
  have between: "GetVhostOfAPI refXds ''A'' ''e1'' ?mid = Returns (''v1'', True)
      \<or> GetVhostOfAPI refXds ''A'' ''e1'' ?mid = Returns (''v2'', True)"
    by (simp only: a)
  then have between: "GetVhostOfAPI refXds ''A'' ''e1'' ?mid = Returns (''v2'', True)"
    by (simp add: refXds_def refGetVhostOfAPI_def)
  from t [THEN conjunct2, rule_format, OF c, THEN conjunct2, rule_format, OF u]
  have after: "GetVhostOfAPI refXds ''A'' ''e1'' (indexOn ''v2'') = Returns (''v2'', True)"
    by (simp only: a)
  from calls before between after deploy_relocation_index undeploy_relocation_index
  show ?thesis by blast
qed

text \<open>
  Without that proviso the environment can be left without the API. On the index with the
  API in \<^verbatim>\<open>e1\<close> under \<^verbatim>\<open>v1\<close>, the request of \<^verbatim>\<open>e1\<close> under \<^verbatim>\<open>v3\<close> and under \<^verbatim>\<open>v1\<close> puts
  both vhosts into the remove set; after the updates the API is in \<^verbatim>\<open>e1\<close> under \<^verbatim>\<open>v1\<close>, and
  after the first undeploy, as at the end of the call, which returns no error, it is in
  \<^verbatim>\<open>e1\<close> under no vhost.
\<close>

lemma deploy_two_vhosts_index:
  "deployLoop refXds projectA [(''v3'', [''e1'']), (''v1'', [''e1''])] (indexOn ''v1'') [] [] =
     (Completed [(''v1'', [''e1'']), (''v3'', [''e1''])],
      [revisionA ''v3'' [''e1''], revisionA ''v1'' [''e1'']],
      \<lparr>envToVhost = [((''A'', ''e1''), ''v1'')],
       deployed = [(''v1'', Data apiYamlA), (''v3'', Data apiYamlA)]\<rparr>)"
  by (simp add: refXds_def refGetVhostOfAPI_def refGetAllEnvironments_def indexOn_def
      refUpdateAPI_A' apiYamlA_def manifestA_def)

theorem environment_under_two_vhosts_counterexample:
  "GetVhostOfAPI refXds ''A'' ''e1'' (indexOn ''v1'') = Returns (''v1'', True)
   \<and> deployLoop refXds projectA [(''v3'', [''e1'']), (''v1'', [''e1''])] (indexOn ''v1'') [] [] =
     (Completed [(''v1'', [''e1'']), (''v3'', [''e1''])],
      [revisionA ''v3'' [''e1''], revisionA ''v1'' [''e1'']],
      \<lparr>envToVhost = [((''A'', ''e1''), ''v1'')],
       deployed = [(''v1'', Data apiYamlA), (''v3'', Data apiYamlA)]\<rparr>)
   \<and> undeployLoop refXds (Data (APIYaml projectA)) [(''v1'', [''e1''])]
       \<lparr>envToVhost = [((''A'', ''e1''), ''v1'')],
        deployed = [(''v1'', Data apiYamlA), (''v3'', Data apiYamlA)]\<rparr> =
     (Returns None, \<lparr>envToVhost = [], deployed = [(''v3'', Data apiYamlA)]\<rparr>)
   \<and> GetVhostOfAPI refXds ''A'' ''e1''
       \<lparr>envToVhost = [], deployed = [(''v3'', Data apiYamlA)]\<rparr> = Returns ([], False)
   \<and> fst (ApplyAPIProjectFromAPIM examplePlatform refXds id ''A''
       [(''v3'', [''e1'']), (''v1'', [''e1''])] Map.empty (indexOn ''v1'')) =
     Returns ([revisionA ''v3'' [''e1''], revisionA ''v1'' [''e1'']], None)
   \<and> GetVhostOfAPI refXds ''A'' ''e1''
       (snd (ApplyAPIProjectFromAPIM examplePlatform refXds id ''A''
          [(''v3'', [''e1'']), (''v1'', [''e1''])] Map.empty (indexOn ''v1''))) =
     Returns ([], False)"
proof -
  have run: "ApplyAPIProjectFromAPIM examplePlatform refXds id ''A''
       [(''v3'', [''e1'']), (''v1'', [''e1''])] Map.empty (indexOn ''v1'') =
     (Returns ([revisionA ''v3'' [''e1''], revisionA ''v1'' [''e1'']], None), emptyIndex)"
    unfolding apply_A_no_props applyParsedProject_def Let_def deploy_two_vhosts_index
    by (simp add: refXds_def refDeleteAPIsWithUUID_def emptyIndex_def apiYamlA_def manifestA_def
        projectA_def)
  show ?thesis
    unfolding run deploy_two_vhosts_index
    by (simp add: refXds_def refDeleteAPIsWithUUID_def refGetVhostOfAPI_def emptyIndex_def
        indexOn_def apiYamlA_def manifestA_def projectA_def)
qed


subsection \<open>Creating an API twice\<close>

lemma groupByVhost_keys:
  "fst ` set (groupByVhost ds m) = fst ` set m \<union> DeploymentVhost ` set ds"
  by (induction ds arbitrary: m) (auto simp add: appendTo_keys)

lemma updateLoop_last:
  "updateLoop ops p xs s = (Returns None, s1) \<Longrightarrow> xs \<noteq> [] \<Longrightarrow>
   \<exists>vhost envs s0. (vhost, envs) \<in> set xs \<and> updateSucceeds ops vhost p envs s0
      \<and> snd (UpdateAPI ops vhost p envs s0) = s1"
proof (induction xs arbitrary: s)
  case Nil
  then show ?case by simp
next
  case (Cons a xs)
  obtain vhost envs where a: "a = (vhost, envs)" by (cases a)
  from Cons.prems(1) a obtain r s' where
    u: "UpdateAPI ops vhost p envs s = (Returns (r, None), s')"
    and rest: "updateLoop ops p xs s' = (Returns None, s1)"
    by (auto split: prod.splits go.splits option.splits)
  show ?case
  proof (cases xs)
    case Nil
    with rest have "s' = s1" by simp
    with u have "updateSucceeds ops vhost p envs s \<and> snd (UpdateAPI ops vhost p envs s) = s1"
      by (simp add: updateSucceeds_def)
    with a show ?thesis by fastforce
  next
    case (Cons b ys)
    with Cons.IH [OF rest] show ?thesis by auto
  qed
qed

lemma updateLoop_all:
  "updateLoop ops p xs s = (Returns None, s1) \<Longrightarrow> (vhost, envs) \<in> set xs \<Longrightarrow>
   \<exists>s0. updateSucceeds ops vhost p envs s0"
proof (induction xs arbitrary: s)
  case Nil
  then show ?case by simp
next
  case (Cons a xs)
  obtain v es where a: "a = (v, es)" by (cases a)
  from Cons.prems(1) a obtain r s' where
    u: "UpdateAPI ops v p es s = (Returns (r, None), s')"
    and rest: "updateLoop ops p xs s' = (Returns None, s1)"
    by (auto split: prod.splits go.splits option.splits)
  show ?case
  proof (cases "(vhost, envs) = a")
    case True
    with u a have "updateSucceeds ops vhost p envs s"
      by (simp add: updateSucceeds_def)
    then show ?thesis ..
  next
    case False
    with Cons.prems(2) have "(vhost, envs) \<in> set xs" by simp
    from Cons.IH [OF rest this] show ?thesis .
  qed
qed

lemma updateLoop_succeeds:
  "(\<And>vhost envs s. (vhost, envs) \<in> set xs \<Longrightarrow> updateSucceeds ops vhost p envs s) \<Longrightarrow>
   \<exists>s2. updateLoop ops p xs s = (Returns None, s2)"
proof (induction xs arbitrary: s)
  case Nil
  then show ?case by simp
next
  case (Cons a xs)
  obtain v es where a: "a = (v, es)" by (cases a)
  have "updateSucceeds ops v p es s" using Cons.prems a by simp
  then obtain r s' where u: "UpdateAPI ops v p es s = (Returns (r, None), s')"
    by (cases "UpdateAPI ops v p es s")
       (auto simp add: updateSucceeds_def split: go.splits option.splits)
  have "\<exists>s2. updateLoop ops p xs s' = (Returns None, s2)"
    using Cons.IH Cons.prems by simp
  with u a show ?case by simp
qed

lemma existsLoop_found:
  assumes "lookupReturns ops" and "d \<in> set ds"
    and "IsAPIExist ops (DeploymentVhost d) (ID y) (Name y) (Version y) (OrganizationID y) s =
      Returns True"
  shows "existsLoop ops y ds s = Returns True"
  using assms(2,3)
proof (induction ds)
  case Nil
  then show ?case by simp
next
  case (Cons a ds)
  from assms(1) obtain b where
    b: "IsAPIExist ops (DeploymentVhost a) (ID y) (Name y) (Version y) (OrganizationID y) s =
      Returns b"
    unfolding lookupReturns_def by (metis go.exhaust)
  show ?case
  proof (cases b)
    case True
    with b show ?thesis by simp
  next
    case False
    with b Cons.prems have "d \<in> set ds" by auto
    with Cons.IH Cons.prems(2) b False show ?thesis by simp
  qed
qed

lemma body_ok:
  assumes "validateAndUpdateXds pf ops rangeOrder p override s = (Returns None, s1)"
  shows "validateAndUpdateXdsBody pf ops rangeOrder p override s = (Returns None, s1)"
  using assms
  by (cases "validateAndUpdateXdsBody pf ops rangeOrder p override s";
      cases "fst (validateAndUpdateXdsBody pf ops rangeOrder p override s)")
     (auto simp add: validateAndUpdateXds_def recoverPanic_def)

text \<open>
  C2, as the code has it, on an index that keeps to the spec. For every project whose list
  of deployments is absent or not empty: after \<open>validateAndUpdateXds\<close> has succeeded with
  override \<^verbatim>\<open>false\<close>, a second call with override \<^verbatim>\<open>false\<close> returns the error AlreadyExists
  and leaves the index as it was, and a second call with override \<^verbatim>\<open>true\<close> succeeds,
  whatever the order in which Go ranges over the map of the vhosts in either call. The
  same holds of \<open>ApplyAPIProjectInStandaloneMode\<close> for a payload that parses to the
  project.
\<close>

theorem create_twice_already_exists:
  assumes first: "validateAndUpdateXds pf ops rangeOrder p (Some False) s = (Returns None, s1)"
    and deployments: "Deployments p \<noteq> Some []"
    and order: "\<forall>m. set (rangeOrder m) = set m" "\<forall>m. set (rangeOrder' m) = set m"
    and index: "lookupReturns ops" "existsAfterUpdate ops" "updateDependsOnProject ops"
  shows "validateAndUpdateXds pf ops rangeOrder' p (Some False) s1 =
      (Returns (Some AlreadyExists), s1)
    \<and> (\<exists>s2. validateAndUpdateXds pf ops rangeOrder' p (Some True) s1 = (Returns None, s2))
    \<and> (extractAPIProject pf payload = Returns (Inr p) \<longrightarrow>
       ApplyAPIProjectInStandaloneMode pf ops rangeOrder payload (Some False) s = (Returns None, s1)
       \<and> ApplyAPIProjectInStandaloneMode pf ops rangeOrder' payload (Some False) s1 =
           (Returns (Some AlreadyExists), s1)
       \<and> (\<exists>s2. ApplyAPIProjectInStandaloneMode pf ops rangeOrder' payload (Some True) s1 =
           (Returns None, s2)))"
proof -
  let ?y = "Data (APIYaml p)"
  from body_ok [OF first] obtain ds where
    dd: "defaultDeployments pf p = Returns ds"
    and ex: "existsLoop ops ?y ds s = Returns False"
    and ul: "updateLoop ops (p\<lparr>Deployments := Some ds\<rparr>) (rangeOrder (groupByVhost ds [])) s =
      (Returns None, s1)"
    by (auto simp add: validateAndUpdateXdsBody_def Let_def split: go.splits bool.splits)
  let ?p = "p\<lparr>Deployments := Some ds\<rparr>"
  let ?m = "groupByVhost ds []"
  have ne: "ds \<noteq> []"
    using dd deployments
    by (auto simp add: defaultDeployments_def split: option.splits go.splits)
  then have "?m \<noteq> []"
    using groupByVhost_keys [of ds "[]"] by (cases ds) auto
  with order(1) have "rangeOrder ?m \<noteq> []"
    by (metis set_empty)
  from updateLoop_last [OF ul this] obtain vhost envs s0 where
    v: "(vhost, envs) \<in> set (rangeOrder ?m)" and su: "updateSucceeds ops vhost ?p envs s0"
    and s1: "snd (UpdateAPI ops vhost ?p envs s0) = s1"
    by blast
  from index(2) su s1 have
    "IsAPIExist ops vhost (ID ?y) (Name ?y) (Version ?y) (OrganizationID ?y) s1 = Returns True"
    unfolding existsAfterUpdate_def by fastforce
  moreover from v order(1) have "vhost \<in> fst ` set ?m" by force
  then obtain d where "d \<in> set ds" "DeploymentVhost d = vhost"
    using groupByVhost_keys [of ds "[]"] by auto
  ultimately have "existsLoop ops ?y ds s1 = Returns True"
    using existsLoop_found [OF index(1)] by blast
  with dd have 1: "validateAndUpdateXds pf ops rangeOrder' p (Some False) s1 =
      (Returns (Some AlreadyExists), s1)"
    by (rule validateAndUpdateXds_exists)
  have "updateSucceeds ops vh ?p es st" if "(vh, es) \<in> set (rangeOrder' ?m)" for vh es st
  proof -
    from that order have "(vh, es) \<in> set (rangeOrder ?m)" by simp
    from updateLoop_all [OF ul this] obtain s0 where "updateSucceeds ops vh ?p es s0" ..
    with index(3) show ?thesis unfolding updateDependsOnProject_def by blast
  qed
  then obtain s2 where "updateLoop ops ?p (rangeOrder' ?m) s1 = (Returns None, s2)"
    using updateLoop_succeeds [of "rangeOrder' ?m" ops ?p s1] by blast
  with dd have 2: "\<exists>s2. validateAndUpdateXds pf ops rangeOrder' p (Some True) s1 =
      (Returns None, s2)"
    by (simp add: validateAndUpdateXds_def validateAndUpdateXdsBody_def recoverPanic_def)
  from 1 2 first show ?thesis
    by (simp add: ApplyAPIProjectInStandaloneMode_def)
qed


lemma refXds_lookupReturns: "lookupReturns refXds"
  by (simp add: lookupReturns_def refXds_def refIsAPIExist_def)

lemma refXds_existsAfterUpdate: "existsAfterUpdate refXds"
  by (auto simp add: existsAfterUpdate_def updateSucceeds_def refXds_def refUpdateAPI_def
      refIsAPIExist_def Let_def split: if_splits)

lemma refXds_updateDependsOnProject: "updateDependsOnProject refXds"
  by (auto simp add: updateDependsOnProject_def updateSucceeds_def refXds_def refUpdateAPI_def
      Let_def split: if_splits)

lemma override_apply:
  "validateAndUpdateXds examplePlatform refXds rev projectA (Some True) indexWithA =
     (Returns None, indexWithA)"
  by (simp add: validateAndUpdateXds_def validateAndUpdateXdsBody_def defaultDeployments_A
      recoverPanic_def defaultDeployment_def refXds_def refUpdateAPI_A indexWithA_def
      apiYamlA_def manifestA_def zeroAPIYaml_def)

text \<open>The spec's first two scenarios, the second call ranging in another order.\<close>

theorem create_twice_already_exists_witness:
  "ApplyAPIProjectInStandaloneMode examplePlatform refXds id ''A'' (Some False) emptyIndex =
     (Returns None, indexWithA)
   \<and> ApplyAPIProjectInStandaloneMode examplePlatform refXds rev ''A'' (Some False) indexWithA =
     (Returns (Some AlreadyExists), indexWithA)
   \<and> ApplyAPIProjectInStandaloneMode examplePlatform refXds rev ''A'' (Some True) indexWithA =
     (Returns None, indexWithA)
   \<and> IsAPIExist refXds ''localhost'' ''A'' ''X'' ''1'' ''org1'' indexWithA = Returns True"
proof -
  have d: "Deployments projectA \<noteq> Some []"
    by (simp add: projectA_def newZipProject_def)
  have o: "\<forall>m :: envmap. set (id m) = set m" "\<forall>m :: envmap. set (rev m) = set m"
    by simp_all
  note t = create_twice_already_exists [OF first_apply d o refXds_lookupReturns
      refXds_existsAfterUpdate refXds_updateDependsOnProject, of "''A''"]
  from t [THEN conjunct2, THEN conjunct2, rule_format, OF extract_A]
  have "ApplyAPIProjectInStandaloneMode examplePlatform refXds id ''A'' (Some False) emptyIndex =
      (Returns None, indexWithA)
    \<and> ApplyAPIProjectInStandaloneMode examplePlatform refXds rev ''A'' (Some False) indexWithA =
      (Returns (Some AlreadyExists), indexWithA)"
    by simp
  moreover have
    "ApplyAPIProjectInStandaloneMode examplePlatform refXds rev ''A'' (Some True) indexWithA =
      (Returns None, indexWithA)"
    by (simp add: ApplyAPIProjectInStandaloneMode_def extract_A override_apply)
  moreover have "IsAPIExist refXds ''localhost'' ''A'' ''X'' ''1'' ''org1'' indexWithA = Returns True"
    by (simp add: refXds_def refIsAPIExist_def indexWithA_def apiYamlA_def manifestA_def)
  ultimately show ?thesis by simp
qed

text \<open>
  A project whose list of deployments is there and empty is deployed nowhere: the first
  call succeeds without a call of the index, and so does the second.
\<close>

theorem create_twice_without_deployments_counterexample:
  "validateAndUpdateXds examplePlatform refXds id (projectA\<lparr>Deployments := Some []\<rparr>)
       (Some False) emptyIndex = (Returns None, emptyIndex)
   \<and> validateAndUpdateXds examplePlatform refXds id (projectA\<lparr>Deployments := Some []\<rparr>)
       (Some False)
       (snd (validateAndUpdateXds examplePlatform refXds id (projectA\<lparr>Deployments := Some []\<rparr>)
          (Some False) emptyIndex)) = (Returns None, emptyIndex)"
  by (simp add: validateAndUpdateXds_def validateAndUpdateXdsBody_def defaultDeployments_def
      recoverPanic_def)


end
